theory Spec2Isabelle
  imports Complex_Main "HOL-Library.Word" "HOL-Library.Monad_Syntax"
begin

section \<open>Buffer pool: the doubly-linked lists of term_api.c\<close>

text \<open>
  The manager keeps four circular doubly-linked lists of buffers. Each list has a
  static header (\<open>arith_buffer_list\<close>, \<open>bvarith_buffer_list\<close>,
  \<open>bvarith64_buffer_list\<close>, \<open>bvlogic_buffer_list\<close>); every element is a block
  obtained from \<open>safe_malloc\<close> whose first field is its \<open>dl_list_t\<close> header.
  Memory is an explicit store from addresses to list cells: the four static headers
  are always present, an element is present from its allocation to its
  \<open>safe_free\<close>.
\<close>

type_synonym addr = nat

record dl_list =
  nxt :: addr
  pre :: addr

type_synonym store = "(addr \<times> dl_list) list"

definition arith_buffer_list :: addr where
  "arith_buffer_list = 1"

definition bvarith_buffer_list :: addr where
  "bvarith_buffer_list = 2"

definition bvarith64_buffer_list :: addr where
  "bvarith64_buffer_list = 3"

definition bvlogic_buffer_list :: addr where
  "bvlogic_buffer_list = 4"

definition static_header :: "addr \<Rightarrow> bool" where
  "static_header a =
     (a = arith_buffer_list \<or> a = bvarith_buffer_list \<or>
      a = bvarith64_buffer_list \<or> a = bvlogic_buffer_list)"

text \<open>
  What C leaves undefined is a fault of the model: reading a cell that is not (or no
  longer) there, and handing \<open>delete_..._buffer\<close> / \<open>safe_free\<close> an address that
  is not a live heap element (a static header has no buffer behind it and was never
  returned by \<open>safe_malloc\<close>).
\<close>

datatype fault = Invalid_read addr | Invalid_free addr

fun store_remove :: "addr \<Rightarrow> store \<Rightarrow> store" where
  "store_remove a [] = []"
| "store_remove a ((b, l) # s) = (if a = b then store_remove a s else (b, l) # store_remove a s)"

fun store_update :: "addr \<Rightarrow> dl_list \<Rightarrow> store \<Rightarrow> store" where
  "store_update a l [] = [(a, l)]"
| "store_update a l ((b, m) # s) = (if a = b then (a, l) # s else (b, m) # store_update a l s)"

text \<open>\<open>clear_list(l)\<close>: the header points to itself in both directions.\<close>

definition clear_list :: "addr \<Rightarrow> store \<Rightarrow> store" where
  "clear_list l s = store_update l \<lparr>nxt = l, pre = l\<rparr> s"

text \<open>
  \<open>list_insert_next(l, e)\<close> of dl_lists.h (not in src, used by the four
  \<open>alloc_..._buffer\<close> functions): the fresh element \<open>e\<close> goes between \<open>l\<close> and
  \<open>l->next\<close>.
\<close>

definition list_insert_next :: "addr \<Rightarrow> addr \<Rightarrow> store \<Rightarrow> fault + store" where
  "list_insert_next l e s =
     (case map_of s l of
        None \<Rightarrow> Inl (Invalid_read l)
      | Some hl \<Rightarrow>
          (case map_of s (nxt hl) of
             None \<Rightarrow> Inl (Invalid_read (nxt hl))
           | Some hn \<Rightarrow>
               (let s1 = store_update (nxt hl) (hn\<lparr>pre := e\<rparr>) s;
                    s2 = store_update e \<lparr>nxt = nxt hl, pre = l\<rparr> s1
                in case map_of s2 l of
                     None \<Rightarrow> Inl (Invalid_read l)
                   | Some hl' \<Rightarrow> Inr (store_update l (hl'\<lparr>nxt := e\<rparr>) s2))))"

text \<open>
  \<open>alloc_bvarith64_buffer\<close>: \<open>e\<close> is the address \<open>safe_malloc\<close> returned, a fresh
  address that is not a static header.
\<close>

definition alloc_bvarith64_buffer :: "addr \<Rightarrow> store \<Rightarrow> fault + store" where
  "alloc_bvarith64_buffer e s = list_insert_next bvarith64_buffer_list e s"

lemma store_remove_length: "length (store_remove a s) \<le> length s"
  by (induction s) auto

lemma store_remove_shorter:
  "map_of s a = Some l \<Longrightarrow> length (store_remove a s) < length s"
proof (induction s)
  case Nil
  then show ?case by simp
next
  case (Cons p s)
  obtain b m where p: "p = (b, m)" by (cases p)
  show ?case
  proof (cases "a = b")
    case True
    have "length (store_remove a s) \<le> length s" by (rule store_remove_length)
    with True p show ?thesis by simp
  next
    case False
    with Cons p show ?thesis by simp
  qed
qed

text \<open>
  The loop shared by the four \<open>free_..._buffer_list\<close> functions, with the address it
  compares \<open>elem\<close> against as a parameter:
  \<^verbatim>\<open>
  while (elem != sentinel) {
    aux = elem->next;
    delete_..._buffer(..._buffer(elem));
    safe_free(elem);
    elem = aux;
  }
  \<close>
\<close>

function free_elems :: "addr \<Rightarrow> store \<Rightarrow> addr \<Rightarrow> fault + store" where
  "free_elems sentinel s elem =
     (if elem = sentinel then Inr s
      else case map_of s elem of
             None \<Rightarrow> Inl (Invalid_read elem)
           | Some l \<Rightarrow>
               if static_header elem then Inl (Invalid_free elem)
               else free_elems sentinel (store_remove elem s) (nxt l))"
  by pat_completeness auto
termination
  by (relation "measure (\<lambda>(sentinel, s, elem). length s)") (auto simp: store_remove_shorter)

declare free_elems.simps [simp del]

definition free_list_with :: "addr \<Rightarrow> addr \<Rightarrow> store \<Rightarrow> fault + store" where
  "free_list_with header sentinel s =
     (case map_of s header of
        None \<Rightarrow> Inl (Invalid_read header)
      | Some h \<Rightarrow>
          (case free_elems sentinel s (nxt h) of
             Inl f \<Rightarrow> Inl f
           | Inr s' \<Rightarrow> Inr (clear_list header s')))"

definition free_arith_buffer_list :: "store \<Rightarrow> fault + store" where
  "free_arith_buffer_list = free_list_with arith_buffer_list arith_buffer_list"

definition free_bvarith_buffer_list :: "store \<Rightarrow> fault + store" where
  "free_bvarith_buffer_list = free_list_with bvarith_buffer_list bvarith_buffer_list"

text \<open>Line 336 of term_api.c compares against \<open>&bvarith_buffer_list\<close>.\<close>

definition free_bvarith64_buffer_list :: "store \<Rightarrow> fault + store" where
  "free_bvarith64_buffer_list = free_list_with bvarith64_buffer_list bvarith_buffer_list"

definition free_bvlogic_buffer_list :: "store \<Rightarrow> fault + store" where
  "free_bvlogic_buffer_list = free_list_with bvlogic_buffer_list bvlogic_buffer_list"

text \<open>The buffer lists in \<open>yices_init\<close> and \<open>yices_cleanup\<close>, in the source's order.\<close>

definition yices_init_lists :: store where
  "yices_init_lists =
     clear_list bvlogic_buffer_list
       (clear_list bvarith64_buffer_list
          (clear_list bvarith_buffer_list
             (clear_list arith_buffer_list [])))"

definition yices_cleanup_lists :: "store \<Rightarrow> fault + store" where
  "yices_cleanup_lists s =
     (case free_bvlogic_buffer_list s of
        Inl f \<Rightarrow> Inl f
      | Inr s1 \<Rightarrow>
          (case free_bvarith_buffer_list s1 of
             Inl f \<Rightarrow> Inl f
           | Inr s2 \<Rightarrow>
               (case free_bvarith64_buffer_list s2 of
                  Inl f \<Rightarrow> Inl f
                | Inr s3 \<Rightarrow> free_arith_buffer_list s3)))"

text \<open>
  A well-formed list: from \<open>a\<close>, following \<open>nxt\<close> visits exactly the cells \<open>xs\<close> and
  then arrives at \<open>e\<close>.
\<close>

fun chain :: "store \<Rightarrow> addr \<Rightarrow> addr list \<Rightarrow> addr \<Rightarrow> bool" where
  "chain s a [] e = (a = e)"
| "chain s a (x # xs) e =
     (case map_of s x of None \<Rightarrow> False | Some l \<Rightarrow> a = x \<and> chain s (nxt l) xs e)"

definition ring64 :: "store \<Rightarrow> addr list \<Rightarrow> bool" where
  "ring64 s xs =
     (case map_of s bvarith64_buffer_list of
        None \<Rightarrow> False
      | Some h \<Rightarrow> chain s (nxt h) xs bvarith64_buffer_list
                  \<and> distinct xs \<and> list_all (\<lambda>x. \<not> static_header x) xs)"


section \<open>Type table and term table\<close>

text \<open>
  Modelled from the spec: types.h and terms.h (the type table, the term table and
  their primitive constructors and accessors) are not in src. The model follows
  sections 3.1, 3.2 and 4.1 of the specification: a type and a term are integer
  handles; both tables are hash-consed; the polarity of a term reference is the low
  bit of the handle, the remaining bits are the index into the term table; only a
  boolean term is referenced with negative polarity.
\<close>

type_synonym type_t = int
type_synonym term_t = int

definition NULL_TYPE :: type_t where
  "NULL_TYPE = - 1"

definition NULL_TERM :: term_t where
  "NULL_TERM = - 1"

datatype type_kind =
    UNUSED_TYPE | BOOL_TYPE | INT_TYPE | REAL_TYPE | BITVECTOR_TYPE | SCALAR_TYPE
  | UNINTERPRETED_TYPE | TUPLE_TYPE | FUNCTION_TYPE

record type_desc =
  tkind :: type_kind
  tsize :: nat
  telem :: "type_t list"
  trange :: type_t

text \<open>
  \<open>tsize\<close> is the number of bits of a bitvector type and the cardinality of a scalar
  type; \<open>telem\<close> holds the components of a tuple type and the domain of a function
  type; \<open>trange\<close> is the range of a function type.
\<close>

type_synonym type_table = "type_desc list"

definition unused_type_desc :: type_desc where
  "unused_type_desc = \<lparr>tkind = UNUSED_TYPE, tsize = 0, telem = [], trange = - 1\<rparr>"

definition prim_type :: "type_kind \<Rightarrow> type_desc" where
  "prim_type k = \<lparr>tkind = k, tsize = 0, telem = [], trange = - 1\<rparr>"

text \<open>\<open>init_type_table\<close>: the three predefined types.\<close>

definition init_type_table :: type_table where
  "init_type_table = [prim_type BOOL_TYPE, prim_type INT_TYPE, prim_type REAL_TYPE]"

definition bool_type :: "type_table \<Rightarrow> type_t" where
  "bool_type tbl = 0"

definition int_type :: "type_table \<Rightarrow> type_t" where
  "int_type tbl = 1"

definition real_type :: "type_table \<Rightarrow> type_t" where
  "real_type tbl = 2"

definition type_desc_of :: "type_table \<Rightarrow> type_t \<Rightarrow> type_desc" where
  "type_desc_of tbl tau =
     (if 0 \<le> tau \<and> nat tau < length tbl then tbl ! nat tau else unused_type_desc)"

definition bad_type :: "type_table \<Rightarrow> type_t \<Rightarrow> bool" where
  "bad_type tbl tau = (tkind (type_desc_of tbl tau) = UNUSED_TYPE)"

definition type_kind :: "type_table \<Rightarrow> type_t \<Rightarrow> type_kind" where
  "type_kind tbl tau = tkind (type_desc_of tbl tau)"

definition scalar_type_cardinal :: "type_table \<Rightarrow> type_t \<Rightarrow> nat" where
  "scalar_type_cardinal tbl tau = tsize (type_desc_of tbl tau)"

definition bv_type_size :: "type_table \<Rightarrow> type_t \<Rightarrow> nat" where
  "bv_type_size tbl tau = tsize (type_desc_of tbl tau)"

definition tuple_type_arity :: "type_table \<Rightarrow> type_t \<Rightarrow> nat" where
  "tuple_type_arity tbl tau = length (telem (type_desc_of tbl tau))"

definition is_integer_type :: "type_t \<Rightarrow> bool" where
  "is_integer_type tau = (tau = 1)"

text \<open>
  Section 4.1: the supertype is the common handle when the two types are equal, Real
  for Int and Real, and none otherwise; two types are compatible iff they have a
  supertype; Int is a subtype of Real and subtyping is reflexive.
\<close>

definition super_type :: "type_table \<Rightarrow> type_t \<Rightarrow> type_t \<Rightarrow> type_t" where
  "super_type tbl tau sigma =
     (if tau = sigma then tau
      else if (tau = int_type tbl \<and> sigma = real_type tbl)
            \<or> (tau = real_type tbl \<and> sigma = int_type tbl) then real_type tbl
      else NULL_TYPE)"

definition compatible_types :: "type_table \<Rightarrow> type_t \<Rightarrow> type_t \<Rightarrow> bool" where
  "compatible_types tbl tau sigma = (super_type tbl tau sigma \<noteq> NULL_TYPE)"

definition is_subtype :: "type_table \<Rightarrow> type_t \<Rightarrow> type_t \<Rightarrow> bool" where
  "is_subtype tbl tau sigma = (tau = sigma \<or> (tau = int_type tbl \<and> sigma = real_type tbl))"

fun type_index :: "type_table \<Rightarrow> type_desc \<Rightarrow> nat \<Rightarrow> nat option" where
  "type_index [] d i = None"
| "type_index (x # xs) d i = (if x = d then Some i else type_index xs d (Suc i))"

text \<open>Interning of a type descriptor; \<open>bv_type\<close> is the bitvector type of \<open>n\<close> bits.\<close>

definition intern_type :: "type_table \<Rightarrow> type_desc \<Rightarrow> type_t \<times> type_table" where
  "intern_type tbl d =
     (case type_index tbl d 0 of
        Some i \<Rightarrow> (int i, tbl)
      | None \<Rightarrow> (int (length tbl), tbl @ [d]))"

definition bv_type :: "type_table \<Rightarrow> nat \<Rightarrow> type_t \<times> type_table" where
  "bv_type tbl n = intern_type tbl \<lparr>tkind = BITVECTOR_TYPE, tsize = n, telem = [], trange = - 1\<rparr>"

text \<open>
  The kinds are those the source tests for. \<open>NOT_TERM\<close> is a kind that the text of
  \<^verbatim>\<open>term_api.c\<close> compares with, but that no descriptor has: with the polarity bit
  there is no negation node in the table, a reference of negative polarity is the
  negation of the reference of positive polarity to the same index.
\<close>

datatype term_kind =
    UNUSED_TERM | RESERVED_TERM | CONSTANT_TERM | UNINTERPRETED_TERM | VARIABLE | NOT_TERM
  | ITE_TERM | EQ_TERM | OR_TERM | DISTINCT_TERM | APP_TERM | UPDATE_TERM | TUPLE_TERM
  | SELECT_TERM | FORALL_TERM | ARITH_TERM | ARITH_EQ_ATOM | ARITH_GE_ATOM | ARITH_BINEQ_ATOM
  | BV_CONST_TERM | BV_LOGIC_TERM | BV_ARITH_TERM | BV_APPLY_TERM | BV_EQ_ATOM | BV_GE_ATOM
  | BV_SGE_ATOM | BV64_CONSTANT | BV_ARRAY | ITE_SPECIAL | XOR_TERM | BV_DIV | BV_REM | BV_SDIV
  | BV_SREM | BV_SMOD | BV_SHL | BV_LSHR | BV_ASHR

text \<open>
  A monomial is a coefficient and a variable; an arithmetic variable is the handle of
  the term it stands for, and the variable \<open>const_idx\<close> marks the constant monomial.
\<close>

type_synonym monomial = "term_t \<times> rat"

definition const_idx :: term_t where
  "const_idx = 0"

record term_desc =
  kind :: term_kind
  ty :: type_t
  args :: "term_t list"
  ints :: "int list"
  mlist :: "monomial list"

text \<open>
  \<open>args\<close> are the children of a composite; \<open>ints\<close> is the integer payload of a leaf
  (constant index, selected component, bits of a bitvector constant, operator code);
  \<open>mlist\<close> is the monomial array of an arithmetic polynomial.
\<close>

record term_table =
  types :: type_table
  desc :: "term_desc list"

definition mk_desc :: "term_kind \<Rightarrow> type_t \<Rightarrow> term_t list \<Rightarrow> int list \<Rightarrow> term_desc" where
  "mk_desc k tau a v = \<lparr>kind = k, ty = tau, args = a, ints = v, mlist = []\<rparr>"

definition unused_term_desc :: term_desc where
  "unused_term_desc = mk_desc UNUSED_TERM (- 1) [] []"

text \<open>
  \<open>init_term_table\<close>: index 0 is reserved, index 1 is the boolean constant, whose
  positive reference is \<open>true\<close> and whose negative reference is \<open>false\<close>.
\<close>

definition init_term_table :: term_table where
  "init_term_table =
     \<lparr>types = init_type_table,
      desc = [mk_desc RESERVED_TERM (- 1) [] [], mk_desc CONSTANT_TERM 0 [] [0]]\<rparr>"

definition index_of :: "term_t \<Rightarrow> int" where
  "index_of t = t div 2"

definition is_neg_term :: "term_t \<Rightarrow> bool" where
  "is_neg_term t = (t mod 2 = 1)"

definition is_pos_term :: "term_t \<Rightarrow> bool" where
  "is_pos_term t = (t mod 2 = 0)"

definition pos_term :: "int \<Rightarrow> term_t" where
  "pos_term i = 2 * i"

definition opposite_term :: "term_t \<Rightarrow> term_t" where
  "opposite_term t = (if t mod 2 = 0 then t + 1 else t - 1)"

definition unsigned_term :: "term_t \<Rightarrow> term_t" where
  "unsigned_term t = 2 * (t div 2)"

definition true_term :: "term_table \<Rightarrow> term_t" where
  "true_term tbl = 2"

definition false_term :: "term_table \<Rightarrow> term_t" where
  "false_term tbl = 3"

definition desc_of :: "term_table \<Rightarrow> term_t \<Rightarrow> term_desc" where
  "desc_of tbl t =
     (if 0 \<le> t \<and> nat (index_of t) < length (desc tbl) then desc tbl ! nat (index_of t)
      else unused_term_desc)"

definition term_type :: "term_table \<Rightarrow> term_t \<Rightarrow> type_t" where
  "term_type tbl t = ty (desc_of tbl t)"

text \<open>
  A valid reference: its index holds a descriptor (no descriptor has the kind
  \<open>NOT_TERM\<close>), and its polarity is negative only if the term is boolean.
\<close>

definition good_term :: "term_table \<Rightarrow> term_t \<Rightarrow> bool" where
  "good_term tbl t =
     (kind (desc_of tbl t) \<noteq> UNUSED_TERM \<and> kind (desc_of tbl t) \<noteq> RESERVED_TERM
      \<and> kind (desc_of tbl t) \<noteq> NOT_TERM
      \<and> (is_pos_term t \<or> term_type tbl t = bool_type (types tbl)))"

definition bad_term :: "term_table \<Rightarrow> term_t \<Rightarrow> bool" where
  "bad_term tbl t = (\<not> good_term tbl t)"

text \<open>
  Modelled from the spec: \<^verbatim>\<open>terms.h\<close> is not part of the sources at hand. Section 3.2:
  every index has a kind, and the polarity is a bit of the reference. So the kind of a
  reference is the kind of its index, whatever its polarity; this is also how
  \<^verbatim>\<open>ef_skolemize.c\<close> uses \<open>term_kind\<close>, which takes the kind of a negated
  reference and finds there the kind of the node (\<open>OR_TERM\<close>, \<open>ITE_TERM\<close>, ...).
\<close>

definition term_kind :: "term_table \<Rightarrow> term_t \<Rightarrow> term_kind" where
  "term_kind tbl t = kind (desc_of tbl t)"

definition is_boolean_term :: "term_table \<Rightarrow> term_t \<Rightarrow> bool" where
  "is_boolean_term tbl t = (term_type tbl t = bool_type (types tbl))"

definition is_arithmetic_term :: "term_table \<Rightarrow> term_t \<Rightarrow> bool" where
  "is_arithmetic_term tbl t =
     (term_type tbl t = int_type (types tbl) \<or> term_type tbl t = real_type (types tbl))"

definition is_integer_term :: "term_table \<Rightarrow> term_t \<Rightarrow> bool" where
  "is_integer_term tbl t = (term_type tbl t = int_type (types tbl))"

definition is_bitvector_term :: "term_table \<Rightarrow> term_t \<Rightarrow> bool" where
  "is_bitvector_term tbl t = (type_kind (types tbl) (term_type tbl t) = BITVECTOR_TYPE)"

definition is_function_term :: "term_table \<Rightarrow> term_t \<Rightarrow> bool" where
  "is_function_term tbl t = (type_kind (types tbl) (term_type tbl t) = FUNCTION_TYPE)"

definition term_bitsize :: "term_table \<Rightarrow> term_t \<Rightarrow> nat" where
  "term_bitsize tbl t = bv_type_size (types tbl) (term_type tbl t)"

text \<open>Negation: \<open>not_term\<close> flips the polarity bit, \<open>not_term_arg\<close> removes it.\<close>

definition not_term :: "term_table \<Rightarrow> term_t \<Rightarrow> term_t" where
  "not_term tbl x = opposite_term x"

definition not_term_arg :: "term_table \<Rightarrow> term_t \<Rightarrow> term_t" where
  "not_term_arg tbl x = opposite_term x"

fun desc_index :: "term_desc list \<Rightarrow> term_desc \<Rightarrow> nat \<Rightarrow> nat option" where
  "desc_index [] d i = None"
| "desc_index (x # xs) d i = (if x = d then Some i else desc_index xs d (Suc i))"

text \<open>
  Hash-consing (invariant T-2): a descriptor that is already in the table keeps its
  index, a new one is appended; the reference returned has positive polarity.
\<close>

definition hash_cons :: "term_table \<Rightarrow> term_desc \<Rightarrow> term_t \<times> term_table" where
  "hash_cons tbl d =
     (case desc_index (desc tbl) d 0 of
        Some i \<Rightarrow> (pos_term (int i), tbl)
      | None \<Rightarrow> (pos_term (int (length (desc tbl))), tbl\<lparr>desc := desc tbl @ [d]\<rparr>))"

text \<open>The primitive constructors the simplifying constructors end in.\<close>

definition or_term :: "term_table \<Rightarrow> nat \<Rightarrow> term_t list \<Rightarrow> term_t \<times> term_table" where
  "or_term tbl n a = hash_cons tbl (mk_desc OR_TERM (bool_type (types tbl)) (take n a) [])"

definition eq_term :: "term_table \<Rightarrow> term_t \<Rightarrow> term_t \<Rightarrow> term_t \<times> term_table" where
  "eq_term tbl x y = hash_cons tbl (mk_desc EQ_TERM (bool_type (types tbl)) [x, y] [])"

definition ite_term ::
  "term_table \<Rightarrow> term_t \<Rightarrow> term_t \<Rightarrow> term_t \<Rightarrow> type_t \<Rightarrow> term_t \<times> term_table" where
  "ite_term tbl c t e tau = hash_cons tbl (mk_desc ITE_TERM tau [c, t, e] [])"

definition bveq_atom :: "term_table \<Rightarrow> term_t \<Rightarrow> term_t \<Rightarrow> term_t \<times> term_table" where
  "bveq_atom tbl x y = hash_cons tbl (mk_desc BV_EQ_ATOM (bool_type (types tbl)) [x, y] [])"

definition distinct_term :: "term_table \<Rightarrow> nat \<Rightarrow> term_t list \<Rightarrow> term_t \<times> term_table" where
  "distinct_term tbl n a =
     hash_cons tbl (mk_desc DISTINCT_TERM (bool_type (types tbl)) (take n a) [])"

definition arith_bineq_atom :: "term_table \<Rightarrow> term_t \<Rightarrow> term_t \<Rightarrow> term_t \<times> term_table" where
  "arith_bineq_atom tbl x y =
     hash_cons tbl (mk_desc ARITH_BINEQ_ATOM (bool_type (types tbl)) [x, y] [])"

text \<open>A fresh uninterpreted term of type \<open>tau\<close>: never shared, its payload is its index.\<close>

definition new_uninterpreted_term :: "term_table \<Rightarrow> type_t \<Rightarrow> term_t \<times> term_table" where
  "new_uninterpreted_term tbl tau =
     (pos_term (int (length (desc tbl))),
      tbl\<lparr>desc := desc tbl @ [mk_desc UNINTERPRETED_TERM tau [] [int (length (desc tbl))]]\<rparr>)"

text \<open>Descriptor accessors of the composite kinds.\<close>

definition arg_at :: "term_table \<Rightarrow> term_t \<Rightarrow> nat \<Rightarrow> term_t" where
  "arg_at tbl t i = (if i < length (args (desc_of tbl t)) then args (desc_of tbl t) ! i else NULL_TERM)"

definition bvatom_left :: "term_table \<Rightarrow> term_t \<Rightarrow> term_t" where
  "bvatom_left tbl t = arg_at tbl t 0"

definition bvatom_right :: "term_table \<Rightarrow> term_t \<Rightarrow> term_t" where
  "bvatom_right tbl t = arg_at tbl t 1"

definition ite_cond :: "term_table \<Rightarrow> term_t \<Rightarrow> term_t" where
  "ite_cond tbl t = arg_at tbl t 0"

definition ite_then_arg :: "term_table \<Rightarrow> term_t \<Rightarrow> term_t" where
  "ite_then_arg tbl t = arg_at tbl t 1"

definition ite_else_arg :: "term_table \<Rightarrow> term_t \<Rightarrow> term_t" where
  "ite_else_arg tbl t = arg_at tbl t 2"

text \<open>
  Bitvector constants and bit arrays. The type of the term is the bitvector type of
  its number of bits, interned in the type table.
\<close>

definition bv64_constant :: "term_table \<Rightarrow> nat \<Rightarrow> 64 word \<Rightarrow> term_t \<times> term_table" where
  "bv64_constant tbl n c =
     (let (tau, tys) = bv_type (types tbl) n
      in hash_cons (tbl\<lparr>types := tys\<rparr>) (mk_desc BV64_CONSTANT tau [] [int n, uint c]))"

definition bvconst_term :: "term_table \<Rightarrow> nat \<Rightarrow> 32 word list \<Rightarrow> term_t \<times> term_table" where
  "bvconst_term tbl n ws =
     (let (tau, tys) = bv_type (types tbl) n
      in hash_cons (tbl\<lparr>types := tys\<rparr>) (mk_desc BV_CONST_TERM tau [] (int n # map uint ws)))"

definition bvarray_term :: "term_table \<Rightarrow> nat \<Rightarrow> term_t list \<Rightarrow> term_t \<times> term_table" where
  "bvarray_term tbl n a =
     (let (tau, tys) = bv_type (types tbl) n
      in hash_cons (tbl\<lparr>types := tys\<rparr>) (mk_desc BV_ARRAY tau (take n a) []))"

section \<open>Conversion of bvlogic buffers to terms (term_api.c, lines 927 to 1005)\<close>

text \<open>
  A bvlogic buffer is its \<open>bitsize\<close> and its array \<open>bit\<close> of bit expressions, which
  \<open>bvlogic_buffer_get_bvarray\<close> overwrites with the boolean terms they convert to.
  bvlogic_buffers.h, bit_expr.h and bit_term_conversion.h are not in src: what they
  compute on a buffer is a parameter of the functions below.
\<close>

record bvlogic_buffer =
  bitsize :: nat
  bit :: "int list"

record bvlogic_lib =
  bvlogic_buffer_is_constant :: "bvlogic_buffer \<Rightarrow> bool"
  bvlogic_buffer_get_constant64 :: "bvlogic_buffer \<Rightarrow> 64 word"
  bvlogic_buffer_get_constant :: "bvlogic_buffer \<Rightarrow> nat \<times> 32 word list"
  bvlogic_buffer_get_var :: "bvlogic_buffer \<Rightarrow> term_t"
  convert_bit_to_term :: "term_table \<Rightarrow> int \<Rightarrow> term_t \<times> term_table"
  bvlogic_buffer_clear :: "bvlogic_buffer \<Rightarrow> bvlogic_buffer"

datatype abort = Assertion_failed

definition bvlogic_buffer_get_bvconst ::
  "bvlogic_lib \<Rightarrow> term_table \<Rightarrow> bvlogic_buffer \<Rightarrow> abort + term_t \<times> term_table" where
  "bvlogic_buffer_get_bvconst lib tbl b =
     (if \<not> bvlogic_buffer_is_constant lib b then Inl Assertion_failed
      else (let (n, ws) = bvlogic_buffer_get_constant lib b in Inr (bvconst_term tbl n ws)))"

text \<open>The loop \<open>b->bit[i] = convert_bit_to_term(.., b->bit[i])\<close> for \<open>i < n\<close>.\<close>

fun convert_bits ::
  "bvlogic_lib \<Rightarrow> term_table \<Rightarrow> int list \<Rightarrow> term_t list \<times> term_table" where
  "convert_bits lib tbl [] = ([], tbl)"
| "convert_bits lib tbl (x # xs) =
     (let (t, tbl1) = convert_bit_to_term lib tbl x;
          (ts, tbl2) = convert_bits lib tbl1 xs
      in (t # ts, tbl2))"

definition bvlogic_buffer_get_bvarray ::
  "bvlogic_lib \<Rightarrow> term_table \<Rightarrow> bvlogic_buffer \<Rightarrow> (term_t \<times> term_table) \<times> bvlogic_buffer" where
  "bvlogic_buffer_get_bvarray lib tbl b =
     (let n = bitsize b;
          (ts, tbl1) = convert_bits lib tbl (take n (bit b));
          b1 = b\<lparr>bit := ts @ drop n (bit b)\<rparr>
      in (bvarray_term tbl1 n (bit b1), b1))"

text \<open>
  \<open>bvlogic_buffer_get_term\<close>. The value returned is a \<open>term_t\<close>; the last statement
  of the source is \<open>return n\<close>, with \<open>n\<close> the \<open>uint32_t\<close> bitsize read on entry.
\<close>

definition bvlogic_buffer_get_term ::
  "bvlogic_lib \<Rightarrow> term_table \<Rightarrow> bvlogic_buffer
     \<Rightarrow> abort + term_t \<times> term_table \<times> bvlogic_buffer" where
  "bvlogic_buffer_get_term lib tbl b =
     (let n = bitsize b
      in if \<not> n > 0 then Inl Assertion_failed
         else
           (case (if bvlogic_buffer_is_constant lib b then
                    (if n \<le> 64
                     then Inr (bv64_constant tbl n (bvlogic_buffer_get_constant64 lib b), b)
                     else (case bvlogic_buffer_get_bvconst lib tbl b of
                             Inl a \<Rightarrow> Inl a
                           | Inr r \<Rightarrow> Inr (r, b)))
                  else
                    (let t = bvlogic_buffer_get_var lib b
                     in if t < 0 \<or> term_bitsize tbl t \<noteq> n
                        then Inr (bvlogic_buffer_get_bvarray lib tbl b)
                        else Inr ((t, tbl), b)))
            of
              Inl a \<Rightarrow> Inl a
            | Inr ((t, tbl1), b1) \<Rightarrow>
                if \<not> (is_bitvector_term tbl1 t \<and> term_bitsize tbl1 t = n)
                then Inl Assertion_failed
                else Inr (int n, tbl1, bvlogic_buffer_clear lib b1)))"

text \<open>
  An instance of the buffer library, for running the function. Modelled from the
  spec: section 3.3 says a bvlogic buffer holds an array of boolean bit expressions;
  here a bit expression is the handle of the boolean term it stands for, so that
  converting a bit to a term changes nothing, a buffer is constant when every bit
  is \<open>true\<close> or \<open>false\<close>, its value has bit \<open>i\<close> set when \<open>bit[i]\<close> is \<open>true\<close>,
  and no buffer is recognized as a variable.
\<close>

fun bits_value :: "int list \<Rightarrow> nat" where
  "bits_value [] = 0"
| "bits_value (x # xs) = (if x = 2 then 1 else 0) + 2 * bits_value xs"

definition term_bits_lib :: bvlogic_lib where
  "term_bits_lib =
     \<lparr>bvlogic_buffer_is_constant = (\<lambda>b. list_all (\<lambda>x. x = 2 \<or> x = 3) (take (bitsize b) (bit b))),
      bvlogic_buffer_get_constant64 = (\<lambda>b. of_nat (bits_value (take (bitsize b) (bit b)))),
      bvlogic_buffer_get_constant =
        (\<lambda>b. (bitsize b, [of_nat (bits_value (take (bitsize b) (bit b)))])),
      bvlogic_buffer_get_var = (\<lambda>b. NULL_TERM),
      convert_bit_to_term = (\<lambda>tbl x. (x, tbl)),
      bvlogic_buffer_clear = (\<lambda>b. \<lparr>bitsize = 0, bit = []\<rparr>)\<rparr>"

section \<open>Boolean-term constructors (term_api.c, lines 1956 to 2401)\<close>

text \<open>
  The functions of this section take the term table and return the term built
  together with the table, which a primitive constructor may have extended. The
  source's assertions are debugging checks (they disappear under \<open>NDEBUG\<close>) and are
  not branches of these models.
\<close>

text \<open>Negate non-constant boolean term.\<close>

definition bool_negate :: "term_table \<Rightarrow> term_t \<Rightarrow> term_t" where
  "bool_negate tbl x =
     (if term_kind tbl x = NOT_TERM then not_term_arg tbl x else not_term tbl x)"

definition mk_not :: "term_table \<Rightarrow> term_t \<Rightarrow> term_t" where
  "mk_not tbl x =
     (if x = true_term tbl then false_term tbl
      else if x = false_term tbl then true_term tbl
      else bool_negate tbl x)"

text \<open>Check whether x == not y.\<close>

definition opposite_bool_terms :: "term_table \<Rightarrow> term_t \<Rightarrow> term_t \<Rightarrow> bool" where
  "opposite_bool_terms tbl x y =
     ((term_kind tbl x = NOT_TERM \<and> not_term_arg tbl x = y)
      \<or> (term_kind tbl y = NOT_TERM \<and> not_term_arg tbl y = x))"

definition mk_binary_or :: "term_table \<Rightarrow> term_t \<Rightarrow> term_t \<Rightarrow> term_t \<times> term_table" where
  "mk_binary_or tbl x y =
     (if x = y then (x, tbl)
      else if x = true_term tbl then (x, tbl)
      else if y = true_term tbl then (y, tbl)
      else if x = false_term tbl then (y, tbl)
      else if y = false_term tbl then (x, tbl)
      else if opposite_bool_terms tbl x y then (true_term tbl, tbl)
      else if x < y then or_term tbl 2 [x, y]
      else or_term tbl 2 [y, x])"

definition mk_binary_and :: "term_table \<Rightarrow> term_t \<Rightarrow> term_t \<Rightarrow> term_t \<times> term_table" where
  "mk_binary_and tbl x y =
     (if x = y then (x, tbl)
      else if x = true_term tbl then (y, tbl)
      else if y = true_term tbl then (x, tbl)
      else if x = false_term tbl then (x, tbl)
      else if y = false_term tbl then (y, tbl)
      else if opposite_bool_terms tbl x y then (false_term tbl, tbl)
      else
        (let x' = bool_negate tbl x; y' = bool_negate tbl y;
             (t, tbl') = (if x' < y' then or_term tbl 2 [x', y'] else or_term tbl 2 [y', x'])
         in (not_term tbl' t, tbl')))"

text \<open>Check whether x is of the form (not u) where u is uninterpreted.\<close>

definition not_bool_var :: "term_table \<Rightarrow> term_t \<Rightarrow> bool" where
  "not_bool_var tbl x =
     (term_kind tbl x = NOT_TERM \<and> term_kind tbl (not_term_arg tbl x) = UNINTERPRETED_TERM)"

text \<open>
  \<open>mk_iff\<close>: the variant compiled is the \<open>#else\<close> branch of lines 2095 to 2116, in
  which \<open>negate\<close> stays \<open>false\<close>.
\<close>

definition mk_iff :: "term_table \<Rightarrow> term_t \<Rightarrow> term_t \<Rightarrow> term_t \<times> term_table" where
  "mk_iff tbl x y =
     (if x = y then (true_term tbl, tbl)
      else if x = true_term tbl then (y, tbl)
      else if y = true_term tbl then (x, tbl)
      else if x = false_term tbl then (mk_not tbl y, tbl)
      else if y = false_term tbl then (mk_not tbl x, tbl)
      else if opposite_bool_terms tbl x y then (false_term tbl, tbl)
      else
        (let flip = ((term_kind tbl x = NOT_TERM \<and> term_kind tbl y = NOT_TERM)
                     \<or> not_bool_var tbl x \<or> not_bool_var tbl y);
             x1 = (if flip then mk_not tbl x else x);
             y1 = (if flip then mk_not tbl y else y)
         in if x1 > y1 then eq_term tbl y1 x1 else eq_term tbl x1 y1))"

definition mk_xor :: "term_table \<Rightarrow> term_t \<Rightarrow> term_t \<Rightarrow> term_t \<times> term_table" where
  "mk_xor tbl x y =
     (if x = y then (false_term tbl, tbl)
      else if x = false_term tbl then (y, tbl)
      else if y = false_term tbl then (x, tbl)
      else if x = true_term tbl then (mk_not tbl y, tbl)
      else if y = true_term tbl then (mk_not tbl x, tbl)
      else if opposite_bool_terms tbl x y then (true_term tbl, tbl)
      else
        (let nx = (term_kind tbl x = NOT_TERM);
             x1 = (if nx then not_term_arg tbl x else x);
             negate1 = (if nx then False else True);
             ny = (term_kind tbl y = NOT_TERM);
             y1 = (if ny then not_term_arg tbl y else y);
             negate = (if ny then \<not> negate1 else negate1);
             (aux, tbl') = (if x1 > y1 then eq_term tbl y1 x1 else eq_term tbl x1 y1)
         in if negate then (not_term tbl' aux, tbl') else (aux, tbl')))"

definition mk_implies :: "term_table \<Rightarrow> term_t \<Rightarrow> term_t \<Rightarrow> term_t \<times> term_table" where
  "mk_implies tbl x y =
     (if x = y then (true_term tbl, tbl)
      else if x = true_term tbl then (y, tbl)
      else if x = false_term tbl then (true_term tbl, tbl)
      else if y = true_term tbl then (true_term tbl, tbl)
      else if y = false_term tbl then (bool_negate tbl x, tbl)
      else if opposite_bool_terms tbl x y then (y, tbl)
      else
        (let x' = bool_negate tbl x
         in if x' < y then or_term tbl 2 [x', y] else or_term tbl 2 [y, x']))"

text \<open>Build (bv-eq x (ite c y z)).\<close>

definition mk_bveq_ite ::
  "term_table \<Rightarrow> term_t \<Rightarrow> term_t \<Rightarrow> term_t \<Rightarrow> term_t \<Rightarrow> term_t \<times> term_table" where
  "mk_bveq_ite tbl c x y z =
     (let (ite, tbl') = ite_term tbl c y z (term_type tbl y)
      in if x > ite then bveq_atom tbl' ite x else bveq_atom tbl' x ite)"

definition mk_lifted_ite_bveq ::
  "term_table \<Rightarrow> term_t \<Rightarrow> term_t \<Rightarrow> term_t \<Rightarrow> term_t \<times> term_table" where
  "mk_lifted_ite_bveq tbl c t e =
     (let l1 = bvatom_left tbl t; r1 = bvatom_right tbl t;
          l2 = bvatom_left tbl e; r2 = bvatom_right tbl e
      in if l1 = l2 then mk_bveq_ite tbl c l1 r1 r2
         else if l1 = r2 then mk_bveq_ite tbl c l1 r1 l2
         else if r1 = l2 then mk_bveq_ite tbl c r1 l1 r2
         else if r1 = r2 then mk_bveq_ite tbl c r1 l1 l2
         else ite_term tbl c t e (bool_type (types tbl)))"

definition mk_bool_ite ::
  "term_table \<Rightarrow> term_t \<Rightarrow> term_t \<Rightarrow> term_t \<Rightarrow> term_t \<times> term_table" where
  "mk_bool_ite tbl c t e =
     (if t = e then (t, tbl)
      else if c = true_term tbl then (t, tbl)
      else if c = false_term tbl then (e, tbl)
      else if opposite_bool_terms tbl t e then mk_iff tbl c t
      else if c = t then mk_binary_or tbl c e
      else if c = e then mk_binary_and tbl c t
      else if opposite_bool_terms tbl c t then mk_binary_and tbl t e
      else if opposite_bool_terms tbl c e then mk_binary_or tbl t e
      else if t = true_term tbl then mk_binary_or tbl c e
      else if e = false_term tbl then mk_binary_and tbl c t
      else if t = false_term tbl then mk_binary_and tbl (mk_not tbl c) e
      else if e = true_term tbl then mk_binary_or tbl (mk_not tbl c) t
      else
        (let neg = (term_kind tbl c = NOT_TERM);
             c1 = (if neg then not_term_arg tbl c else c);
             t1 = (if neg then e else t);
             e1 = (if neg then t else e)
         in if term_kind tbl t1 = BV_EQ_ATOM \<and> term_kind tbl e1 = BV_EQ_ATOM
            then mk_lifted_ite_bveq tbl c1 t1 e1
            else ite_term tbl c1 t1 e1 (bool_type (types tbl))))"

text \<open>
  \<open>sort_bool_terms\<close> is not in src. Modelled from the spec: section 4.2.1 says the
  inputs are sorted; the order is that of the handles, which puts a term next to
  its negation and the two boolean constants first.
\<close>

definition sort_bool_terms :: "term_table \<Rightarrow> nat \<Rightarrow> term_t list \<Rightarrow> term_t list" where
  "sort_bool_terms tbl n a = sort (take n a) @ drop n a"

text \<open>
  The loop of \<open>mk_or\<close>: \<open>x\<close> is the last term kept, \<open>acc\<close> is \<open>a[0 .. j-1]\<close>; the
  result \<open>None\<close> is the early \<open>return true_term(tbl)\<close>.
\<close>

fun mk_or_loop ::
  "term_table \<Rightarrow> term_t \<Rightarrow> term_t list \<Rightarrow> term_t list \<Rightarrow> (term_t \<times> term_t list) option" where
  "mk_or_loop tbl x acc [] = Some (x, acc)"
| "mk_or_loop tbl x acc (y # ys) =
     (if x \<noteq> y then
        (if y = true_term tbl \<or> opposite_bool_terms tbl x y then None
         else mk_or_loop tbl y (acc @ [y]) ys)
      else mk_or_loop tbl x acc ys)"

definition mk_or :: "term_table \<Rightarrow> nat \<Rightarrow> term_t list \<Rightarrow> term_t \<times> term_table" where
  "mk_or tbl n a =
     (case take n (sort_bool_terms tbl n a) of
        [] \<Rightarrow> (NULL_TERM, tbl)
      | x # rest \<Rightarrow>
          if x = true_term tbl then (true_term tbl, tbl)
          else
            (case mk_or_loop tbl x (if x \<noteq> false_term tbl then [x] else []) rest of
               None \<Rightarrow> (true_term tbl, tbl)
             | Some (x', acc) \<Rightarrow>
                 if length acc \<le> 1 then (x', tbl) else or_term tbl (length acc) acc))"

fun mk_and_loop ::
  "term_table \<Rightarrow> term_t \<Rightarrow> term_t list \<Rightarrow> term_t list \<Rightarrow> (term_t \<times> term_t list) option" where
  "mk_and_loop tbl x acc [] = Some (x, acc)"
| "mk_and_loop tbl x acc (y # ys) =
     (if x \<noteq> y then
        (if y = false_term tbl \<or> opposite_bool_terms tbl x y then None
         else mk_and_loop tbl y (acc @ [y]) ys)
      else mk_and_loop tbl x acc ys)"

definition mk_and :: "term_table \<Rightarrow> nat \<Rightarrow> term_t list \<Rightarrow> term_t \<times> term_table" where
  "mk_and tbl n a =
     (case take n (sort_bool_terms tbl n a) of
        [] \<Rightarrow> (NULL_TERM, tbl)
      | x # rest \<Rightarrow>
          if x = false_term tbl then (false_term tbl, tbl)
          else
            (case mk_and_loop tbl x (if x \<noteq> true_term tbl then [x] else []) rest of
               None \<Rightarrow> (false_term tbl, tbl)
             | Some (x', acc) \<Rightarrow>
                 if length acc \<le> 1 then (x', tbl)
                 else
                   (let (t, tbl') = or_term tbl (length acc) (map (bool_negate tbl) acc)
                    in (not_term tbl' t, tbl'))))"

section \<open>Error report and type checking (term_api.c, lines 1370 to 1887)\<close>

datatype error_code =
    NO_ERROR | POS_INT_REQUIRED | NONNEG_INT_REQUIRED | TOO_MANY_ARGUMENTS | TOO_MANY_VARS
  | MAX_BVSIZE_EXCEEDED | DEGREE_OVERFLOW | INVALID_TYPE | INVALID_TERM
  | INVALID_CONSTANT_INDEX | SCALAR_OR_UTYPE_REQUIRED | TYPE_MISMATCH | INCOMPATIBLE_TYPES
  | ARITHTERM_REQUIRED | BITVECTOR_REQUIRED | FUNCTION_REQUIRED | WRONG_NUMBER_OF_ARGUMENTS
  | TUPLE_REQUIRED | INVALID_TUPLE_INDEX | VARIABLE_REQUIRED | DUPLICATE_VARIABLE
  | INCOMPATIBLE_BVSIZES | INVALID_BITSHIFT | INVALID_BVEXTRACT | INVALID_BVSIGNEXTEND
  | INVALID_BVZEROEXTEND | EMPTY_BITVECTOR

record error_report =
  code :: error_code
  term1 :: term_t
  type1 :: type_t
  term2 :: term_t
  type2 :: type_t
  index :: int
  badval :: int

text \<open>
  The limits of yices_limits.h are not in src; they are parameters of the checks.
\<close>

record limits =
  YICES_MAX_ARITY :: nat
  YICES_MAX_VARS :: nat
  YICES_MAX_BVSIZE :: nat
  YICES_MAX_DEGREE :: nat

text \<open>
  A check reads the tables and writes the global \<open>error\<close> only: it maps the error
  report to its result and the error report after it. \<open>andalso\<close> is the source's
  \<open>! check1(..) || ! check2(..)\<close>, which stops at the first check that fails.
\<close>

type_synonym check = "error_report \<Rightarrow> bool \<times> error_report"

definition andalso :: "check \<Rightarrow> check \<Rightarrow> check" where
  "andalso c1 c2 e = (case c1 e of (True, e') \<Rightarrow> c2 e' | (False, e') \<Rightarrow> (False, e'))"

text \<open>A C \<open>int32_t\<close> passed for a \<open>uint32_t\<close> parameter.\<close>

definition to_uint32 :: "int \<Rightarrow> nat" where
  "to_uint32 n = nat (n mod 4294967296)"

text \<open>
  \<open>a[i]\<close> for an array argument given as a list; the caller passes at least as
  many elements as the count it gives, and the model reads \<open>NULL_TERM\<close> past the end.
\<close>

definition arr :: "int list \<Rightarrow> nat \<Rightarrow> int" where
  "arr a i = (if i < length a then a ! i else - 1)"

definition check_positive :: "nat \<Rightarrow> check" where
  "check_positive n e =
     (if n = 0 then (False, e\<lparr>code := POS_INT_REQUIRED, badval := int n\<rparr>) else (True, e))"

text \<open>
  \<open>check_nonneg\<close> is called but not defined in src; modelled from the error reports
  documented at lines 6026 to 6028: \<open>n < 0\<close> gives \<open>NONNEG_INT_REQUIRED\<close> with
  \<open>badval = n\<close>.
\<close>

definition check_nonneg :: "int \<Rightarrow> check" where
  "check_nonneg n e =
     (if n < 0 then (False, e\<lparr>code := NONNEG_INT_REQUIRED, badval := n\<rparr>) else (True, e))"

definition check_arity :: "limits \<Rightarrow> nat \<Rightarrow> check" where
  "check_arity lm n e =
     (if n > YICES_MAX_ARITY lm then (False, e\<lparr>code := TOO_MANY_ARGUMENTS, badval := int n\<rparr>)
      else (True, e))"

definition check_maxvars :: "limits \<Rightarrow> nat \<Rightarrow> check" where
  "check_maxvars lm n e =
     (if n > YICES_MAX_VARS lm then (False, e\<lparr>code := TOO_MANY_VARS, badval := int n\<rparr>)
      else (True, e))"

definition check_maxbvsize :: "limits \<Rightarrow> nat \<Rightarrow> check" where
  "check_maxbvsize lm n e =
     (if n > YICES_MAX_BVSIZE lm then (False, e\<lparr>code := MAX_BVSIZE_EXCEEDED, badval := int n\<rparr>)
      else (True, e))"

definition check_maxdegree :: "limits \<Rightarrow> nat \<Rightarrow> check" where
  "check_maxdegree lm d e =
     (if d > YICES_MAX_DEGREE lm then (False, e\<lparr>code := DEGREE_OVERFLOW, badval := int d\<rparr>)
      else (True, e))"

definition check_good_type :: "type_table \<Rightarrow> type_t \<Rightarrow> check" where
  "check_good_type tbl tau e =
     (if bad_type tbl tau then (False, e\<lparr>code := INVALID_TYPE, type1 := tau, index := - 1\<rparr>)
      else (True, e))"

fun check_good_types_from :: "type_table \<Rightarrow> nat \<Rightarrow> type_t list \<Rightarrow> check" where
  "check_good_types_from tbl i [] e = (True, e)"
| "check_good_types_from tbl i (tau # a) e =
     (if bad_type tbl tau then (False, e\<lparr>code := INVALID_TYPE, type1 := tau, index := int i\<rparr>)
      else check_good_types_from tbl (Suc i) a e)"

definition check_good_types :: "type_table \<Rightarrow> nat \<Rightarrow> type_t list \<Rightarrow> check" where
  "check_good_types tbl n a = check_good_types_from tbl 0 (take n a)"

definition check_good_constant :: "type_table \<Rightarrow> type_t \<Rightarrow> int \<Rightarrow> check" where
  "check_good_constant tbl tau i e =
     (if bad_type tbl tau then (False, e\<lparr>code := INVALID_TYPE, type1 := tau, index := - 1\<rparr>)
      else if type_kind tbl tau \<noteq> UNINTERPRETED_TYPE \<and> type_kind tbl tau \<noteq> SCALAR_TYPE
        then (False, e\<lparr>code := SCALAR_OR_UTYPE_REQUIRED, type1 := tau\<rparr>)
      else if i < 0 \<or> (type_kind tbl tau = SCALAR_TYPE \<and> i \<ge> int (scalar_type_cardinal tbl tau))
        then (False, e\<lparr>code := INVALID_CONSTANT_INDEX, type1 := tau, badval := i\<rparr>)
      else (True, e))"

definition check_good_term :: "term_table \<Rightarrow> term_t \<Rightarrow> check" where
  "check_good_term tbl t e =
     (if bad_term tbl t then (False, e\<lparr>code := INVALID_TERM, term1 := t, index := - 1\<rparr>)
      else (True, e))"

fun check_good_terms_from :: "term_table \<Rightarrow> nat \<Rightarrow> term_t list \<Rightarrow> check" where
  "check_good_terms_from tbl i [] e = (True, e)"
| "check_good_terms_from tbl i (t # a) e =
     (if bad_term tbl t then (False, e\<lparr>code := INVALID_TERM, term1 := t, index := int i\<rparr>)
      else check_good_terms_from tbl (Suc i) a e)"

definition check_good_terms :: "term_table \<Rightarrow> nat \<Rightarrow> term_t list \<Rightarrow> check" where
  "check_good_terms tbl n a = check_good_terms_from tbl 0 (take n a)"

fun check_arg_types_from :: "term_table \<Rightarrow> nat \<Rightarrow> term_t list \<Rightarrow> type_t list \<Rightarrow> check" where
  "check_arg_types_from tbl i [] taus e = (True, e)"
| "check_arg_types_from tbl i (t # a) taus e =
     (if \<not> is_subtype (types tbl) (term_type tbl t) (arr taus i)
      then (False, e\<lparr>code := TYPE_MISMATCH, term1 := t, type1 := arr taus i, index := int i\<rparr>)
      else check_arg_types_from tbl (Suc i) a taus e)"

definition check_arg_types :: "term_table \<Rightarrow> nat \<Rightarrow> term_t list \<Rightarrow> type_t list \<Rightarrow> check" where
  "check_arg_types tbl n a taus = check_arg_types_from tbl 0 (take n a) taus"

definition check_good_application :: "term_table \<Rightarrow> term_t \<Rightarrow> nat \<Rightarrow> term_t list \<Rightarrow> check" where
  "check_good_application tbl f n a =
     andalso (andalso (check_positive n) (andalso (check_good_term tbl f) (check_good_terms tbl n a)))
       (\<lambda>e. if \<not> is_function_term tbl f then (False, e\<lparr>code := FUNCTION_REQUIRED, term1 := f\<rparr>)
            else if n \<noteq> length (telem (type_desc_of (types tbl) (term_type tbl f)))
              then (False, e\<lparr>code := WRONG_NUMBER_OF_ARGUMENTS, type1 := term_type tbl f,
                              badval := int n\<rparr>)
            else check_arg_types tbl n a (telem (type_desc_of (types tbl) (term_type tbl f))) e)"

definition check_boolean_term :: "term_table \<Rightarrow> term_t \<Rightarrow> check" where
  "check_boolean_term tbl t e =
     (if \<not> is_boolean_term tbl t
      then (False, e\<lparr>code := TYPE_MISMATCH, term1 := t, type1 := bool_type (types tbl),
                      index := - 1\<rparr>)
      else (True, e))"

definition check_arith_term :: "term_table \<Rightarrow> term_t \<Rightarrow> check" where
  "check_arith_term tbl t e =
     (if \<not> is_arithmetic_term tbl t then (False, e\<lparr>code := ARITHTERM_REQUIRED, term1 := t\<rparr>)
      else (True, e))"

definition check_bitvector_term :: "term_table \<Rightarrow> term_t \<Rightarrow> check" where
  "check_bitvector_term tbl t e =
     (if \<not> is_bitvector_term tbl t then (False, e\<lparr>code := BITVECTOR_REQUIRED, term1 := t\<rparr>)
      else (True, e))"

definition check_compatible_terms :: "term_table \<Rightarrow> term_t \<Rightarrow> term_t \<Rightarrow> check" where
  "check_compatible_terms tbl t1 t2 e =
     (let tau1 = term_type tbl t1; tau2 = term_type tbl t2
      in if \<not> compatible_types (types tbl) tau1 tau2
         then (False, e\<lparr>code := INCOMPATIBLE_TYPES, term1 := t1, type1 := tau1,
                         term2 := t2, type2 := tau2\<rparr>)
         else (True, e))"

definition check_good_eq :: "term_table \<Rightarrow> term_t \<Rightarrow> term_t \<Rightarrow> check" where
  "check_good_eq tbl t1 t2 =
     andalso (check_good_term tbl t1)
       (andalso (check_good_term tbl t2) (check_compatible_terms tbl t1 t2))"

definition check_both_arith_terms :: "term_table \<Rightarrow> term_t \<Rightarrow> term_t \<Rightarrow> check" where
  "check_both_arith_terms tbl t1 t2 =
     andalso (check_good_term tbl t1)
       (andalso (check_good_term tbl t2)
          (andalso (check_arith_term tbl t1) (check_arith_term tbl t2)))"

definition check_compatible_bv_terms :: "term_table \<Rightarrow> term_t \<Rightarrow> term_t \<Rightarrow> check" where
  "check_compatible_bv_terms tbl t1 t2 =
     andalso (check_good_term tbl t1)
       (andalso (check_good_term tbl t2)
          (andalso (check_bitvector_term tbl t1)
             (andalso (check_bitvector_term tbl t2) (check_compatible_terms tbl t1 t2))))"

fun check_boolean_args_from :: "term_table \<Rightarrow> nat \<Rightarrow> term_t list \<Rightarrow> check" where
  "check_boolean_args_from tbl i [] e = (True, e)"
| "check_boolean_args_from tbl i (t # a) e =
     (if \<not> is_boolean_term tbl t
      then (False, e\<lparr>code := TYPE_MISMATCH, term1 := t, type1 := bool_type (types tbl),
                      index := int i\<rparr>)
      else check_boolean_args_from tbl (Suc i) a e)"

definition check_boolean_args :: "term_table \<Rightarrow> nat \<Rightarrow> term_t list \<Rightarrow> check" where
  "check_boolean_args tbl n a = check_boolean_args_from tbl 0 (take n a)"

definition check_good_select :: "term_table \<Rightarrow> nat \<Rightarrow> term_t \<Rightarrow> check" where
  "check_good_select tbl i t =
     andalso (check_good_term tbl t)
       (\<lambda>e. let tau = term_type tbl t
            in if type_kind (types tbl) tau \<noteq> TUPLE_TYPE
               then (False, e\<lparr>code := TUPLE_REQUIRED, term1 := t\<rparr>)
               else if i \<ge> tuple_type_arity (types tbl) tau
               then (False, e\<lparr>code := INVALID_TUPLE_INDEX, type1 := tau, badval := int i\<rparr>)
               else (True, e))"

definition check_good_update ::
  "term_table \<Rightarrow> term_t \<Rightarrow> nat \<Rightarrow> term_t list \<Rightarrow> term_t \<Rightarrow> check" where
  "check_good_update tbl f n a v =
     andalso
       (andalso (check_positive n)
          (andalso (check_good_term tbl f)
             (andalso (check_good_term tbl v) (check_good_terms tbl n a))))
       (\<lambda>e. let ft = type_desc_of (types tbl) (term_type tbl f)
            in if \<not> is_function_term tbl f
               then (False, e\<lparr>code := FUNCTION_REQUIRED, term1 := f\<rparr>)
               else if n \<noteq> length (telem ft)
               then (False, e\<lparr>code := WRONG_NUMBER_OF_ARGUMENTS, type1 := term_type tbl f,
                               badval := int n\<rparr>)
               else if \<not> is_subtype (types tbl) (term_type tbl v) (trange ft)
               then (False, e\<lparr>code := TYPE_MISMATCH, term1 := v, type1 := trange ft,
                               index := - 1\<rparr>)
               else check_arg_types tbl n a (telem ft) e)"

text \<open>
  The loop of \<open>check_good_distinct_term\<close>: \<open>tau\<close> is the supertype of the types seen
  so far, \<open>a0\<close> is \<open>a[0]\<close>.
\<close>

fun check_distinct_types :: "term_table \<Rightarrow> term_t \<Rightarrow> type_t \<Rightarrow> term_t list \<Rightarrow> check" where
  "check_distinct_types tbl a0 tau [] e = (True, e)"
| "check_distinct_types tbl a0 tau (t # a) e =
     (let tau' = super_type (types tbl) tau (term_type tbl t)
      in if tau' = NULL_TYPE
         then (False, e\<lparr>code := INCOMPATIBLE_TYPES, term1 := a0, type1 := term_type tbl a0,
                         term2 := t, type2 := term_type tbl t\<rparr>)
         else check_distinct_types tbl a0 tau' a e)"

definition check_good_distinct_term :: "limits \<Rightarrow> term_table \<Rightarrow> nat \<Rightarrow> term_t list \<Rightarrow> check" where
  "check_good_distinct_term lm tbl n a =
     andalso
       (andalso (check_positive n) (andalso (check_arity lm n) (check_good_terms tbl n a)))
       (check_distinct_types tbl (arr a 0) (term_type tbl (arr a 0)) (tl (take n a)))"

fun check_variables_from :: "term_table \<Rightarrow> nat \<Rightarrow> term_t list \<Rightarrow> check" where
  "check_variables_from tbl i [] e = (True, e)"
| "check_variables_from tbl i (v # vs) e =
     (if term_kind tbl v \<noteq> VARIABLE
      then (False, e\<lparr>code := VARIABLE_REQUIRED, term1 := v, index := int i\<rparr>)
      else check_variables_from tbl (Suc i) vs e)"

fun check_duplicates_from :: "nat \<Rightarrow> term_t \<Rightarrow> term_t list \<Rightarrow> check" where
  "check_duplicates_from i p [] e = (True, e)"
| "check_duplicates_from i p (v # vs) e =
     (if p = v then (False, e\<lparr>code := DUPLICATE_VARIABLE, term1 := v, index := int i\<rparr>)
      else check_duplicates_from (Suc i) v vs e)"

definition check_good_quantified_term ::
  "limits \<Rightarrow> term_table \<Rightarrow> nat \<Rightarrow> term_t list \<Rightarrow> term_t \<Rightarrow> check" where
  "check_good_quantified_term lm tbl n v body =
     andalso
       (andalso (check_positive n)
          (andalso (check_maxvars lm n)
             (andalso (check_good_term tbl body)
                (andalso (check_good_terms tbl n v) (check_boolean_term tbl body)))))
       (andalso (check_variables_from tbl 0 (take n v))
          (check_duplicates_from 1 (arr v 0) (tl (take n v))))"

definition check_good_tuple_update :: "term_table \<Rightarrow> nat \<Rightarrow> term_t \<Rightarrow> term_t \<Rightarrow> check" where
  "check_good_tuple_update tbl i t v =
     andalso (andalso (check_good_term tbl t) (check_good_term tbl v))
       (\<lambda>e. let tau = term_type tbl t; elems = telem (type_desc_of (types tbl) tau)
            in if type_kind (types tbl) tau \<noteq> TUPLE_TYPE
               then (False, e\<lparr>code := TUPLE_REQUIRED, term1 := t\<rparr>)
               else if i \<ge> length elems
               then (False, e\<lparr>code := INVALID_TUPLE_INDEX, type1 := tau, badval := int i\<rparr>)
               else if \<not> is_subtype (types tbl) (term_type tbl v) (arr elems i)
               then (False, e\<lparr>code := TYPE_MISMATCH, term1 := v, type1 := arr elems i,
                               index := - 1\<rparr>)
               else (True, e))"

definition check_bitsize :: "term_table \<Rightarrow> term_t \<Rightarrow> nat \<Rightarrow> check" where
  "check_bitsize tbl t n e =
     (let s = term_bitsize tbl t
      in if s \<noteq> n then (False, e\<lparr>code := INCOMPATIBLE_BVSIZES, badval := int s\<rparr>)
         else (True, e))"

definition check_bitshift :: "nat \<Rightarrow> nat \<Rightarrow> check" where
  "check_bitshift i n e =
     (if i > n then (False, e\<lparr>code := INVALID_BITSHIFT, badval := int i\<rparr>) else (True, e))"

definition check_bitextract :: "nat \<Rightarrow> nat \<Rightarrow> nat \<Rightarrow> check" where
  "check_bitextract i j n e =
     (if i > j \<or> j \<ge> n then (False, e\<lparr>code := INVALID_BVEXTRACT\<rparr>) else (True, e))"

fun check_good_bitvectors_from :: "term_table \<Rightarrow> nat \<Rightarrow> term_t list \<Rightarrow> nat \<Rightarrow> check" where
  "check_good_bitvectors_from tbl i [] p e = (True, e)"
| "check_good_bitvectors_from tbl i (t # a) p e =
     (if \<not> is_bitvector_term tbl t
      then (False, e\<lparr>code := BITVECTOR_REQUIRED, term1 := t, index := int i\<rparr>)
      else if term_bitsize tbl t \<noteq> p
      then (False, e\<lparr>code := INCOMPATIBLE_BVSIZES, term1 := t, index := int i,
                      badval := int (term_bitsize tbl t)\<rparr>)
      else check_good_bitvectors_from tbl (Suc i) a p e)"

definition check_good_bitvectors :: "term_table \<Rightarrow> nat \<Rightarrow> term_t list \<Rightarrow> nat \<Rightarrow> check" where
  "check_good_bitvectors tbl n a p = check_good_bitvectors_from tbl 0 (take n a) p"

section \<open>The global state of term_api.c\<close>

text \<open>
  The static variables the constructors use: the two tables (the term table holds
  the type table it was initialized with, \<open>terms.types = &types\<close>), the error
  report, and the internal buffers, which are \<open>NULL\<close> until
  \<open>get_internal_..._buffer\<close> allocates them. An arithmetic buffer is the list of its
  monomials.
\<close>

record state =
  terms :: term_table
  error :: error_report
  internal_arith_buffer :: "monomial list option"
  internal_bvlogic_buffer :: "bvlogic_buffer option"

definition no_error_report :: error_report where
  "no_error_report =
     \<lparr>code = NO_ERROR, term1 = - 1, type1 = - 1, term2 = - 1, type2 = - 1, index = - 1,
      badval = 0\<rparr>"

text \<open>\<open>yices_init\<close>, for the part of the state modelled here.\<close>

definition yices_init :: state where
  "yices_init =
     \<lparr>terms = init_term_table, error = no_error_report,
      internal_arith_buffer = None, internal_bvlogic_buffer = None\<rparr>"

text \<open>
  The shape every constructor starts with:
  \<^verbatim>\<open>if (! check(...)) { return NULL_TERM; }\<close>
  The check has written the error report; the rest of the constructor runs only
  when the check passes.
\<close>

definition checked :: "state \<Rightarrow> check \<Rightarrow> (state \<Rightarrow> term_t \<times> state) \<Rightarrow> term_t \<times> state" where
  "checked st c body =
     (case c (error st) of
        (False, e) \<Rightarrow> (NULL_TERM, st\<lparr>error := e\<rparr>)
      | (True, e) \<Rightarrow> body (st\<lparr>error := e\<rparr>))"

text \<open>A table-level constructor run on the global term table.\<close>

definition on_terms :: "state \<Rightarrow> (term_table \<Rightarrow> term_t \<times> term_table) \<Rightarrow> term_t \<times> state" where
  "on_terms st f = (let (t, tbl) = f (terms st) in (t, st\<lparr>terms := tbl\<rparr>))"

section \<open>Boolean constructors of the API (term_api.c, lines 2982 to 3065)\<close>

definition yices_true :: "state \<Rightarrow> term_t" where
  "yices_true st = true_term (terms st)"

definition yices_false :: "state \<Rightarrow> term_t" where
  "yices_false st = false_term (terms st)"

definition yices_or :: "limits \<Rightarrow> state \<Rightarrow> int \<Rightarrow> term_t list \<Rightarrow> term_t \<times> state" where
  "yices_or lm st n arg =
     checked st
       (andalso (check_nonneg n)
          (andalso (check_arity lm (to_uint32 n))
             (andalso (check_good_terms (terms st) (to_uint32 n) arg)
                (check_boolean_args (terms st) (to_uint32 n) arg))))
       (\<lambda>st. if n = 0 then (false_term (terms st), st)
             else if n = 1 then (arr arg 0, st)
             else if n = 2 then on_terms st (\<lambda>tbl. mk_binary_or tbl (arr arg 0) (arr arg 1))
             else on_terms st (\<lambda>tbl. mk_or tbl (to_uint32 n) arg))"

definition yices_and :: "limits \<Rightarrow> state \<Rightarrow> int \<Rightarrow> term_t list \<Rightarrow> term_t \<times> state" where
  "yices_and lm st n arg =
     checked st
       (andalso (check_nonneg n)
          (andalso (check_arity lm (to_uint32 n))
             (andalso (check_good_terms (terms st) (to_uint32 n) arg)
                (check_boolean_args (terms st) (to_uint32 n) arg))))
       (\<lambda>st. if n = 0 then (true_term (terms st), st)
             else if n = 1 then (arr arg 0, st)
             else if n = 2 then on_terms st (\<lambda>tbl. mk_binary_and tbl (arr arg 0) (arr arg 1))
             else on_terms st (\<lambda>tbl. mk_and tbl (to_uint32 n) arg))"

definition yices_not :: "state \<Rightarrow> term_t \<Rightarrow> term_t \<times> state" where
  "yices_not st arg =
     checked st
       (andalso (check_good_term (terms st) arg) (check_boolean_term (terms st) arg))
       (\<lambda>st. (mk_not (terms st) arg, st))"

definition check_two_booleans :: "term_table \<Rightarrow> term_t \<Rightarrow> term_t \<Rightarrow> check" where
  "check_two_booleans tbl left right =
     andalso (check_good_term tbl left)
       (andalso (check_good_term tbl right)
          (andalso (check_boolean_term tbl left) (check_boolean_term tbl right)))"

definition yices_xor :: "state \<Rightarrow> term_t \<Rightarrow> term_t \<Rightarrow> term_t \<times> state" where
  "yices_xor st left right =
     checked st (check_two_booleans (terms st) left right)
       (\<lambda>st. on_terms st (\<lambda>tbl. mk_xor tbl left right))"

definition yices_iff :: "state \<Rightarrow> term_t \<Rightarrow> term_t \<Rightarrow> term_t \<times> state" where
  "yices_iff st left right =
     checked st (check_two_booleans (terms st) left right)
       (\<lambda>st. on_terms st (\<lambda>tbl. mk_iff tbl left right))"

definition yices_implies :: "state \<Rightarrow> term_t \<Rightarrow> term_t \<Rightarrow> term_t \<times> state" where
  "yices_implies st left right =
     checked st (check_two_booleans (terms st) left right)
       (\<lambda>st. on_terms st (\<lambda>tbl. mk_implies tbl left right))"

section \<open>Arithmetic buffers\<close>

text \<open>
  Modelled from the spec: arith_buffers.h and the polynomial library are not in src.
  Section 3.3: an arithmetic buffer holds a linear combination of monomials; the
  model keeps the list of the monomials added so far, and \<open>arith_buffer_normalize\<close>
  adds up the coefficients of each variable, drops the monomials whose coefficient
  is zero and orders the rest by variable. The predicates below are read on a
  normalized buffer, as in the source.
\<close>

type_synonym arith_buffer = "monomial list"

definition arith_buffer_reset :: "arith_buffer \<Rightarrow> arith_buffer" where
  "arith_buffer_reset b = []"

definition arith_buffer_add_monarray :: "arith_buffer \<Rightarrow> monomial list \<Rightarrow> arith_buffer" where
  "arith_buffer_add_monarray b m = b @ m"

definition arith_buffer_sub_monarray :: "arith_buffer \<Rightarrow> monomial list \<Rightarrow> arith_buffer" where
  "arith_buffer_sub_monarray b m = b @ map (\<lambda>p. (fst p, - snd p)) m"

definition arith_buffer_add_var :: "arith_buffer \<Rightarrow> term_t \<Rightarrow> arith_buffer" where
  "arith_buffer_add_var b v = b @ [(v, 1)]"

definition arith_buffer_sub_var :: "arith_buffer \<Rightarrow> term_t \<Rightarrow> arith_buffer" where
  "arith_buffer_sub_var b v = b @ [(v, - 1)]"

definition arith_buffer_add_mono :: "arith_buffer \<Rightarrow> term_t \<Rightarrow> rat \<Rightarrow> arith_buffer" where
  "arith_buffer_add_mono b v c = b @ [(v, c)]"

definition arith_buffer_div_const :: "arith_buffer \<Rightarrow> rat \<Rightarrow> arith_buffer" where
  "arith_buffer_div_const b c = map (\<lambda>p. (fst p, snd p / c)) b"

definition coeff_in :: "arith_buffer \<Rightarrow> term_t \<Rightarrow> rat" where
  "coeff_in b v = sum_list (map snd (filter (\<lambda>p. fst p = v) b))"

definition arith_buffer_normalize :: "arith_buffer \<Rightarrow> arith_buffer" where
  "arith_buffer_normalize b =
     filter (\<lambda>p. snd p \<noteq> 0) (map (\<lambda>v. (v, coeff_in b v)) (sort (remdups (map fst b))))"

definition arith_buffer_is_zero :: "arith_buffer \<Rightarrow> bool" where
  "arith_buffer_is_zero b = (b = [])"

definition arith_buffer_is_nonzero :: "arith_buffer \<Rightarrow> bool" where
  "arith_buffer_is_nonzero b = (case b of [p] \<Rightarrow> fst p = const_idx \<and> snd p \<noteq> 0 | _ \<Rightarrow> False)"

text \<open>Section 4.2.2: the two-term shape \<open>a.x - a.y\<close>.\<close>

definition arith_buffer_is_equality :: "arith_buffer \<Rightarrow> (term_t \<times> term_t) option" where
  "arith_buffer_is_equality b =
     (case b of
        [p, q] \<Rightarrow>
          if fst p \<noteq> const_idx \<and> fst q \<noteq> const_idx \<and> snd p + snd q = 0
          then Some (fst p, fst q) else None
      | _ \<Rightarrow> None)"

text \<open>
  The arithmetic variable of a term is the term, and back; \<open>arith_term\<close> and
  \<open>arith_eq_atom\<close> intern the polynomial of a buffer, of integer type when its
  coefficients and variables are integer.
\<close>

definition get_arithmetic_variable :: "term_table \<Rightarrow> term_t \<Rightarrow> term_t" where
  "get_arithmetic_variable tbl t = t"

definition arithvar_manager_term_of_var :: "term_t \<Rightarrow> term_t" where
  "arithvar_manager_term_of_var x = x"

definition q_is_integer :: "rat \<Rightarrow> bool" where
  "q_is_integer q = (snd (quotient_of q) = 1)"

definition monomial_is_integer :: "term_table \<Rightarrow> monomial \<Rightarrow> bool" where
  "monomial_is_integer tbl p =
     (q_is_integer (snd p) \<and> (fst p = const_idx \<or> is_integer_term tbl (fst p)))"

definition arith_term :: "term_table \<Rightarrow> arith_buffer \<Rightarrow> term_t \<times> term_table" where
  "arith_term tbl b =
     (let p = arith_buffer_normalize b
      in hash_cons tbl
           \<lparr>kind = ARITH_TERM,
            ty = (if list_all (monomial_is_integer tbl) p then int_type (types tbl)
                  else real_type (types tbl)),
            args = [], ints = [], mlist = p\<rparr>)"

definition arith_eq_atom :: "term_table \<Rightarrow> arith_buffer \<Rightarrow> term_t \<times> term_table" where
  "arith_eq_atom tbl b =
     hash_cons tbl
       \<lparr>kind = ARITH_EQ_ATOM, ty = bool_type (types tbl), args = [], ints = [], mlist = b\<rparr>"

definition arith_term_desc :: "term_table \<Rightarrow> term_t \<Rightarrow> monomial list" where
  "arith_term_desc tbl t = mlist (desc_of tbl t)"

text \<open>
  \<open>monarray_common_factor\<close>: the gcd of the coefficients of an integer polynomial
  (comment at line 2720); \<open>q_gcd\<close>: the gcd of two integers.
\<close>

definition monarray_common_factor :: "monomial list \<Rightarrow> rat" where
  "monarray_common_factor m = of_int (foldr (\<lambda>p g. gcd (fst (quotient_of (snd p))) g) m 0)"

definition q_gcd :: "rat \<Rightarrow> rat \<Rightarrow> rat" where
  "q_gcd a b = of_int (gcd (fst (quotient_of a)) (fst (quotient_of b)))"

section \<open>Checks for disequalities (term_api.c, lines 2409 to 2623)\<close>

text \<open>
  The comparisons of polynomials, bit arrays and bitvector constants that the
  disequality checks end in are not in src; they are parameters. The descriptor of a
  bitvector term is passed to them whole.
\<close>

record compare_lib =
  must_disequal_polynomial :: "monomial list \<Rightarrow> monomial list \<Rightarrow> bool"
  polynomial_is_const_plus_var :: "monomial list \<Rightarrow> int \<Rightarrow> bool"
  term_theory_var :: "term_table \<Rightarrow> term_t \<Rightarrow> int"
  bvlogic_must_disequal_expr :: "term_desc \<Rightarrow> term_desc \<Rightarrow> bool"
  bvarith_must_disequal_expr :: "term_desc \<Rightarrow> term_desc \<Rightarrow> bool"
  bvconst_neq :: "term_desc \<Rightarrow> term_desc \<Rightarrow> bool"
  bvlogic_must_disequal_constant :: "term_desc \<Rightarrow> term_desc \<Rightarrow> bool"

definition null_theory_var :: int where
  "null_theory_var = - 1"

definition disequal_constant_terms :: "term_t \<Rightarrow> term_t \<Rightarrow> bool" where
  "disequal_constant_terms x y = (x \<noteq> y)"

definition disequal_boolean_terms :: "term_table \<Rightarrow> term_t \<Rightarrow> term_t \<Rightarrow> bool" where
  "disequal_boolean_terms tbl x y =
     ((x = true_term tbl \<and> y = false_term tbl)
      \<or> (x = false_term tbl \<and> y = true_term tbl)
      \<or> opposite_bool_terms tbl x y)"

definition disequal_arith_terms :: "compare_lib \<Rightarrow> term_table \<Rightarrow> term_t \<Rightarrow> term_t \<Rightarrow> bool" where
  "disequal_arith_terms orc tbl x y =
     (let kx = term_kind tbl x; ky = term_kind tbl y;
          vx = term_theory_var orc tbl x; vy = term_theory_var orc tbl y
      in if kx = ARITH_TERM \<and> ky = ARITH_TERM
         then must_disequal_polynomial orc (arith_term_desc tbl x) (arith_term_desc tbl y)
         else if kx = ARITH_TERM \<and> vy \<noteq> null_theory_var
         then polynomial_is_const_plus_var orc (arith_term_desc tbl x) vy
         else if ky = ARITH_TERM \<and> vx \<noteq> null_theory_var
         then polynomial_is_const_plus_var orc (arith_term_desc tbl y) vx
         else False)"

definition disequal_bitvector_terms :: "compare_lib \<Rightarrow> term_table \<Rightarrow> term_t \<Rightarrow> term_t \<Rightarrow> bool" where
  "disequal_bitvector_terms orc tbl x y =
     (let kx = term_kind tbl x; ky = term_kind tbl y
      in if kx = ky then
           (if kx = BV_LOGIC_TERM
            then bvlogic_must_disequal_expr orc (desc_of tbl x) (desc_of tbl y)
            else if kx = BV_ARITH_TERM
            then bvarith_must_disequal_expr orc (desc_of tbl x) (desc_of tbl y)
            else if kx = BV_CONST_TERM
            then bvconst_neq orc (desc_of tbl x) (desc_of tbl y)
            else False)
         else if kx = BV_CONST_TERM \<and> ky = BV_LOGIC_TERM
         then bvlogic_must_disequal_constant orc (desc_of tbl y) (desc_of tbl x)
         else if kx = BV_LOGIC_TERM \<and> ky = BV_CONST_TERM
         then bvlogic_must_disequal_constant orc (desc_of tbl x) (desc_of tbl y)
         else False)"

text \<open>
  A loop that returns \<open>true\<close> at the first pair found disequal, and one that returns
  \<open>false\<close> at the first pair not found disequal; \<open>None\<close> is a call that has not
  returned.
\<close>

fun first_true :: "bool option list \<Rightarrow> bool option" where
  "first_true [] = Some False"
| "first_true (None # r) = None"
| "first_true (Some True # r) = Some True"
| "first_true (Some False # r) = first_true r"

fun all_true :: "bool option list \<Rightarrow> bool option" where
  "all_true [] = Some True"
| "all_true (None # r) = None"
| "all_true (Some False # r) = Some False"
| "all_true (Some True # r) = all_true r"

text \<open>
  \<open>disequal_terms\<close> calls itself on the components of tuples and on the values of
  updates (the source warns that it can blow up on nested tuples); the first
  argument bounds the depth of the calls, and \<open>None\<close> is the call that needs more.
  An update descriptor holds the function, then the arguments, then the new value.
\<close>

fun disequal_terms :: "nat \<Rightarrow> compare_lib \<Rightarrow> term_table \<Rightarrow> term_t \<Rightarrow> term_t \<Rightarrow> bool option" where
  "disequal_terms 0 orc tbl x y = None"
| "disequal_terms (Suc k) orc tbl x y =
     (if is_boolean_term tbl x then Some (disequal_boolean_terms tbl x y)
      else if is_arithmetic_term tbl x then Some (disequal_arith_terms orc tbl x y)
      else if is_bitvector_term tbl x then Some (disequal_bitvector_terms orc tbl x y)
      else if term_kind tbl x \<noteq> term_kind tbl y then Some False
      else if term_kind tbl x = CONSTANT_TERM then Some (disequal_constant_terms x y)
      else if term_kind tbl x = TUPLE_TERM
      then first_true (map (\<lambda>p. disequal_terms k orc tbl (fst p) (snd p))
                         (zip (args (desc_of tbl x)) (args (desc_of tbl y))))
      else if term_kind tbl x = UPDATE_TERM
      then (if butlast (args (desc_of tbl x)) \<noteq> butlast (args (desc_of tbl y)) then Some False
            else disequal_terms k orc tbl (last (args (desc_of tbl x))) (last (args (desc_of tbl y))))
      else Some False)"

definition equal_term_arrays :: "nat \<Rightarrow> term_t list \<Rightarrow> term_t list \<Rightarrow> bool" where
  "equal_term_arrays n a b = (take n a = take n b)"

definition disequal_term_arrays ::
  "nat \<Rightarrow> compare_lib \<Rightarrow> term_table \<Rightarrow> nat \<Rightarrow> term_t list \<Rightarrow> term_t list \<Rightarrow> bool option" where
  "disequal_term_arrays k orc tbl n a b =
     first_true (map (\<lambda>p. disequal_terms k orc tbl (fst p) (snd p)) (zip (take n a) (take n b)))"

fun pairs_in_order :: "'a list \<Rightarrow> ('a \<times> 'a) list" where
  "pairs_in_order [] = []"
| "pairs_in_order (x # xs) = map (\<lambda>y. (x, y)) xs @ pairs_in_order xs"

definition pairwise_disequal_terms ::
  "nat \<Rightarrow> compare_lib \<Rightarrow> term_table \<Rightarrow> nat \<Rightarrow> term_t list \<Rightarrow> bool option" where
  "pairwise_disequal_terms k orc tbl n a =
     all_true (map (\<lambda>p. disequal_terms k orc tbl (fst p) (snd p)) (pairs_in_order (take n a)))"

section \<open>Lift-if (term_api.c, lines 2629 to 2753)\<close>

record lift_result =
  cond :: term_t
  left1 :: term_t
  left2 :: term_t
  right1 :: term_t
  right2 :: term_t

definition check_for_lift_if :: "term_table \<Rightarrow> term_t \<Rightarrow> term_t \<Rightarrow> lift_result option" where
  "check_for_lift_if tbl t1 t2 =
     (if term_kind tbl t1 = ITE_TERM then
        (if term_kind tbl t2 = ITE_TERM then
           (if ite_cond tbl t1 = ite_cond tbl t2
            then Some \<lparr>cond = ite_cond tbl t1,
                       left1 = ite_then_arg tbl t1, left2 = ite_then_arg tbl t2,
                       right1 = ite_else_arg tbl t1, right2 = ite_else_arg tbl t2\<rparr>
            else None)
         else Some \<lparr>cond = ite_cond tbl t1,
                    left1 = ite_then_arg tbl t1, left2 = t2,
                    right1 = ite_else_arg tbl t1, right2 = t2\<rparr>)
      else if term_kind tbl t2 = ITE_TERM
      then Some \<lparr>cond = ite_cond tbl t2,
                 left1 = t1, left2 = ite_then_arg tbl t2,
                 right1 = t1, right2 = ite_else_arg tbl t2\<rparr>
      else None)"

definition get_internal_arith_buffer :: "state \<Rightarrow> arith_buffer \<times> state" where
  "get_internal_arith_buffer st =
     (case internal_arith_buffer st of
        None \<Rightarrow> ([], st\<lparr>internal_arith_buffer := Some []\<rparr>)
      | Some b \<Rightarrow> (b, st))"

definition arith_add :: "term_table \<Rightarrow> arith_buffer \<Rightarrow> term_t \<Rightarrow> arith_buffer" where
  "arith_add tbl b t =
     (if term_kind tbl t = ARITH_TERM then arith_buffer_add_monarray b (arith_term_desc tbl t)
      else arith_buffer_add_var b (get_arithmetic_variable tbl t))"

definition arith_sub :: "term_table \<Rightarrow> arith_buffer \<Rightarrow> term_t \<Rightarrow> arith_buffer" where
  "arith_sub tbl b t =
     (if term_kind tbl t = ARITH_TERM then arith_buffer_sub_monarray b (arith_term_desc tbl t)
      else arith_buffer_sub_var b (get_arithmetic_variable tbl t))"

text \<open>
  \<open>mk_integer_polynomial_ite\<close>; \<open>r0\<close> and \<open>r1\<close> are the two auxiliary rationals, the
  internal arithmetic buffer is left holding the last polynomial built in it.
\<close>

definition mk_integer_polynomial_ite ::
  "state \<Rightarrow> term_t \<Rightarrow> term_t \<Rightarrow> term_t \<Rightarrow> term_t \<times> state" where
  "mk_integer_polynomial_ite st c t e =
     (let p = arith_term_desc (terms st) t; q = arith_term_desc (terms st) e;
          r0 = q_gcd (monarray_common_factor p) (monarray_common_factor q)
      in if p \<noteq> [] \<and> q \<noteq> [] \<and> r0 \<noteq> 1 then
           (let (b0, st0) = get_internal_arith_buffer st;
                b1 = arith_buffer_div_const (arith_buffer_add_monarray (arith_buffer_reset b0) p) r0;
                (t1, tbl1) = arith_term (terms st0) b1;
                b2 = arith_buffer_div_const (arith_buffer_add_monarray (arith_buffer_reset b1) q) r0;
                (e1, tbl2) = arith_term tbl1 b2;
                (t2, tbl3) = ite_term tbl2 c t1 e1 (int_type (types tbl2));
                b3 = arith_buffer_add_mono (arith_buffer_reset b2)
                       (get_arithmetic_variable tbl3 t2) r0;
                (r, tbl4) = arith_term tbl3 b3
            in (r, st0\<lparr>terms := tbl4, internal_arith_buffer := Some b3\<rparr>))
         else on_terms st (\<lambda>tbl. ite_term tbl c t e (int_type (types tbl))))"

section \<open>Term constructors (term_api.c, lines 2759 to 3184)\<close>

definition yices_ite :: "state \<Rightarrow> term_t \<Rightarrow> term_t \<Rightarrow> term_t \<Rightarrow> term_t \<times> state" where
  "yices_ite st cnd then_term else_term =
     checked st
       (andalso (check_good_term (terms st) cnd)
          (andalso (check_good_term (terms st) then_term)
             (andalso (check_good_term (terms st) else_term)
                (check_boolean_term (terms st) cnd))))
       (\<lambda>st.
          let tau = super_type (types (terms st)) (term_type (terms st) then_term)
                      (term_type (terms st) else_term)
          in if tau = NULL_TYPE then
               (NULL_TERM,
                st\<lparr>error := (error st)\<lparr>code := INCOMPATIBLE_TYPES,
                       term1 := then_term, type1 := term_type (terms st) then_term,
                       term2 := else_term, type2 := term_type (terms st) else_term\<rparr>\<rparr>)
             else if is_boolean_term (terms st) then_term
             then on_terms st (\<lambda>tbl. mk_bool_ite tbl cnd then_term else_term)
             else if then_term = else_term then (then_term, st)
             else if cnd = true_term (terms st) then (then_term, st)
             else if cnd = false_term (terms st) then (else_term, st)
             else
               (let neg = (term_kind (terms st) cnd = NOT_TERM);
                    c1 = (if neg then not_term_arg (terms st) cnd else cnd);
                    t1 = (if neg then else_term else then_term);
                    e1 = (if neg then then_term else else_term)
                in if is_integer_type tau \<and> term_kind (terms st) t1 = ARITH_TERM
                      \<and> term_kind (terms st) e1 = ARITH_TERM
                   then mk_integer_polynomial_ite st c1 t1 e1
                   else on_terms st (\<lambda>tbl. ite_term tbl c1 t1 e1 tau)))"

text \<open>Store t1 - t2 in internal_arith_buffer.\<close>

definition mk_arith_diff :: "state \<Rightarrow> term_t \<Rightarrow> term_t \<Rightarrow> state" where
  "mk_arith_diff st t1 t2 =
     (let (b, st1) = get_internal_arith_buffer st
      in st1\<lparr>internal_arith_buffer :=
               Some (arith_sub (terms st1) (arith_add (terms st1) (arith_buffer_reset b) t1) t2)\<rparr>)"

text \<open>
  \<open>yices_arith_eq0_atom(internal_arith_buffer)\<close>. The pointer is \<open>NULL\<close> only before
  the first \<open>mk_arith_diff\<close>, which every call in the source follows.
\<close>

definition yices_arith_eq0_atom :: "state \<Rightarrow> term_t \<times> state" where
  "yices_arith_eq0_atom st =
     (case internal_arith_buffer st of
        None \<Rightarrow> (NULL_TERM, st)
      | Some b0 \<Rightarrow>
          (let b = arith_buffer_normalize b0;
               st1 = st\<lparr>internal_arith_buffer := Some b\<rparr>
           in if arith_buffer_is_zero b then (true_term (terms st1), st1)
              else if arith_buffer_is_nonzero b then (false_term (terms st1), st1)
              else
                (case arith_buffer_is_equality b of
                   Some (x, y) \<Rightarrow>
                     (let left = arithvar_manager_term_of_var x;
                          right = arithvar_manager_term_of_var y
                      in if left > right
                         then on_terms st1 (\<lambda>tbl. arith_bineq_atom tbl right left)
                         else on_terms st1 (\<lambda>tbl. arith_bineq_atom tbl left right))
                 | None \<Rightarrow> on_terms st1 (\<lambda>tbl. arith_eq_atom tbl b))))"

definition mk_lifted_aritheq ::
  "state \<Rightarrow> term_t \<Rightarrow> term_t \<Rightarrow> term_t \<Rightarrow> term_t \<Rightarrow> term_t \<Rightarrow> term_t \<times> state" where
  "mk_lifted_aritheq st c t1 t2 t3 t4 =
     (let (left, st1) = yices_arith_eq0_atom (mk_arith_diff st t1 t2);
          (right, st2) = yices_arith_eq0_atom (mk_arith_diff st1 t3 t4)
      in on_terms st2 (\<lambda>tbl. mk_bool_ite tbl c left right))"

definition mk_aritheq :: "state \<Rightarrow> term_t \<Rightarrow> term_t \<Rightarrow> term_t \<times> state" where
  "mk_aritheq st t1 t2 =
     (case check_for_lift_if (terms st) t1 t2 of
        Some tmp \<Rightarrow> mk_lifted_aritheq st (cond tmp) (left1 tmp) (left2 tmp) (right1 tmp) (right2 tmp)
      | None \<Rightarrow> yices_arith_eq0_atom (mk_arith_diff st t1 t2))"

definition mk_arithneq :: "state \<Rightarrow> term_t \<Rightarrow> term_t \<Rightarrow> term_t \<times> state" where
  "mk_arithneq st t1 t2 =
     (let (t, st1) = mk_aritheq st t1 t2 in (mk_not (terms st1) t, st1))"

definition mk_bveq :: "compare_lib \<Rightarrow> state \<Rightarrow> term_t \<Rightarrow> term_t \<Rightarrow> term_t \<times> state" where
  "mk_bveq orc st t1 t2 =
     (if t1 = t2 then (true_term (terms st), st)
      else if disequal_bitvector_terms orc (terms st) t1 t2 then (false_term (terms st), st)
      else if t1 > t2 then on_terms st (\<lambda>tbl. bveq_atom tbl t2 t1)
      else on_terms st (\<lambda>tbl. bveq_atom tbl t1 t2))"

definition mk_bvneq :: "compare_lib \<Rightarrow> state \<Rightarrow> term_t \<Rightarrow> term_t \<Rightarrow> term_t \<times> state" where
  "mk_bvneq orc st t1 t2 =
     (if t1 = t2 then (false_term (terms st), st)
      else if disequal_bitvector_terms orc (terms st) t1 t2 then (true_term (terms st), st)
      else
        (let (t, st1) = (if t1 > t2 then on_terms st (\<lambda>tbl. bveq_atom tbl t2 t1)
                         else on_terms st (\<lambda>tbl. bveq_atom tbl t1 t2))
         in (not_term (terms st1) t, st1)))"

text \<open>
  \<open>yices_eq\<close> and \<open>yices_neq\<close>. The first argument bounds the depth of
  \<open>disequal_terms\<close>; the result is \<open>None\<close> when that call needs more.
\<close>

definition yices_eq ::
  "nat \<Rightarrow> compare_lib \<Rightarrow> state \<Rightarrow> term_t \<Rightarrow> term_t \<Rightarrow> (term_t \<times> state) option" where
  "yices_eq k orc st0 left right =
     (case check_good_eq (terms st0) left right (error st0) of
        (False, e) \<Rightarrow> Some (NULL_TERM, st0\<lparr>error := e\<rparr>)
      | (True, e) \<Rightarrow>
          (let st = st0\<lparr>error := e\<rparr>
           in if is_boolean_term (terms st) left
              then Some (on_terms st (\<lambda>tbl. mk_iff tbl left right))
              else if is_arithmetic_term (terms st) left then Some (mk_aritheq st left right)
              else if is_bitvector_term (terms st) left then Some (mk_bveq orc st left right)
              else if left = right then Some (true_term (terms st), st)
              else
                (case disequal_terms k orc (terms st) left right of
                   None \<Rightarrow> None
                 | Some True \<Rightarrow> Some (false_term (terms st), st)
                 | Some False \<Rightarrow>
                     if left > right then Some (on_terms st (\<lambda>tbl. eq_term tbl right left))
                     else Some (on_terms st (\<lambda>tbl. eq_term tbl left right)))))"

definition yices_neq ::
  "nat \<Rightarrow> compare_lib \<Rightarrow> state \<Rightarrow> term_t \<Rightarrow> term_t \<Rightarrow> (term_t \<times> state) option" where
  "yices_neq k orc st0 left right =
     (case check_good_eq (terms st0) left right (error st0) of
        (False, e) \<Rightarrow> Some (NULL_TERM, st0\<lparr>error := e\<rparr>)
      | (True, e) \<Rightarrow>
          (let st = st0\<lparr>error := e\<rparr>
           in if is_boolean_term (terms st) left
              then Some (on_terms st (\<lambda>tbl. mk_xor tbl left right))
              else if is_arithmetic_term (terms st) left then Some (mk_arithneq st left right)
              else if is_bitvector_term (terms st) left then Some (mk_bvneq orc st left right)
              else if left = right then Some (false_term (terms st), st)
              else
                (case disequal_terms k orc (terms st) left right of
                   None \<Rightarrow> None
                 | Some True \<Rightarrow> Some (true_term (terms st), st)
                 | Some False \<Rightarrow>
                     (let (t, st1) = (if left > right
                                      then on_terms st (\<lambda>tbl. eq_term tbl right left)
                                      else on_terms st (\<lambda>tbl. eq_term tbl left right))
                      in Some (not_term (terms st1) t, st1)))))"

text \<open>
  \<open>yices_distinct\<close>. \<open>int_array_sort\<close> sorts the array in increasing order; the
  loop after it looks for two equal neighbours.
\<close>

fun has_equal_neighbours :: "term_t list \<Rightarrow> bool" where
  "has_equal_neighbours (x # y # r) = (x = y \<or> has_equal_neighbours (y # r))"
| "has_equal_neighbours r = False"

definition yices_distinct ::
  "nat \<Rightarrow> compare_lib \<Rightarrow> limits \<Rightarrow> state \<Rightarrow> int \<Rightarrow> term_t list \<Rightarrow> (term_t \<times> state) option" where
  "yices_distinct k orc lm st0 n arg =
     (if n = 2 then yices_neq k orc st0 (arr arg 0) (arr arg 1)
      else
        (case andalso (check_positive (to_uint32 n))
                (andalso (check_arity lm (to_uint32 n))
                   (check_good_distinct_term lm (terms st0) (to_uint32 n) arg)) (error st0) of
           (False, e) \<Rightarrow> Some (NULL_TERM, st0\<lparr>error := e\<rparr>)
         | (True, e) \<Rightarrow>
             (let st = st0\<lparr>error := e\<rparr>; tau = term_type (terms st) (arr arg 0)
              in if n = 1 then Some (true_term (terms st), st)
                 else if tau = bool_type (types (terms st))
                         \<or> (type_kind (types (terms st)) tau = SCALAR_TYPE
                            \<and> scalar_type_cardinal (types (terms st)) tau < to_uint32 n)
                 then Some (false_term (terms st), st)
                 else
                   (let a = sort (take (to_uint32 n) arg)
                    in if has_equal_neighbours a then Some (false_term (terms st), st)
                       else
                         (case pairwise_disequal_terms k orc (terms st) (to_uint32 n) a of
                            None \<Rightarrow> None
                          | Some True \<Rightarrow> Some (true_term (terms st), st)
                          | Some False \<Rightarrow>
                              Some (on_terms st (\<lambda>tbl. distinct_term tbl (to_uint32 n) a)))))))"

section \<open>Shifts by a bitvector amount (term_api.c, lines 6412 to 6544)\<close>

text \<open>
  A bitvector constant of \<open>n\<close> bits is an array of \<open>(n + 31) / 32\<close> words of 32 bits,
  low-order word first. \<open>bvconst_get32\<close> (bv_constants.h, not in src) is the
  low-order word, as the comment at line 6433 says; \<open>bvconst_value\<close> is the
  non-negative integer the words stand for.
\<close>

definition bvconst_get32 :: "32 word list \<Rightarrow> 32 word" where
  "bvconst_get32 bv = (case bv of [] \<Rightarrow> 0 | w # ws \<Rightarrow> w)"

fun bvconst_value :: "32 word list \<Rightarrow> nat" where
  "bvconst_value [] = 0"
| "bvconst_value (w # ws) = unat w + 4294967296 * bvconst_value ws"

text \<open>
  \<open>get_shift_amount\<close>: \<open>n\<close> is a \<open>uint32_t\<close>, so \<open>n + 31\<close> wraps; the loop reads the
  words \<open>bv[1 .. k-1]\<close>.
\<close>

definition get_shift_amount :: "nat \<Rightarrow> 32 word list \<Rightarrow> nat" where
  "get_shift_amount n bv =
     (let k = ((n + 31) mod 4294967296) div 32;
          s = unat (bvconst_get32 bv)
      in if list_ex (\<lambda>w. w \<noteq> 0) (take (k - 1) (drop 1 bv)) then n
         else if n \<le> s then n else s)"

text \<open>
  bvlogic_buffers.h and the manager of bitvector variables are not in src: the
  operations on a buffer that the shifts use are parameters, added to those of
  \<open>bvlogic_lib\<close>. \<open>bv_var_manager_get_bit_array\<close> stands for
  \<open>get_bitvector_variable\<close> followed by \<open>bv_var_manager_get_bit_array\<close>: the bits of
  the variable of a term. \<open>bvlogic_buffer_primitive_variable\<close> stands for the test
  of lines 5437 to 5443: the term whose primitive variable the buffer is equal to,
  if there is one.
\<close>

record bvshift_lib = bvlogic_lib +
  bvlogic_buffer_set_bitarray :: "bvlogic_buffer \<Rightarrow> nat \<Rightarrow> int list \<Rightarrow> bvlogic_buffer"
  bvlogic_buffer_set_constant :: "bvlogic_buffer \<Rightarrow> nat \<Rightarrow> 32 word list \<Rightarrow> bvlogic_buffer"
  bvlogic_buffer_shift_left0 :: "bvlogic_buffer \<Rightarrow> nat \<Rightarrow> bvlogic_buffer"
  bvlogic_buffer_shift_right0 :: "bvlogic_buffer \<Rightarrow> nat \<Rightarrow> bvlogic_buffer"
  bvlogic_buffer_ashift_right :: "bvlogic_buffer \<Rightarrow> nat \<Rightarrow> bvlogic_buffer"
  bvlogic_buffer_copy_constant :: "bvlogic_buffer \<Rightarrow> nat \<times> 32 word list"
  bvlogic_buffer_primitive_variable :: "term_table \<Rightarrow> bvlogic_buffer \<Rightarrow> term_t option"
  bv_var_manager_get_bit_array :: "term_table \<Rightarrow> term_t \<Rightarrow> int list"

text \<open>
  Modelled from the spec: the constructors and descriptors of terms.h are not in
  src. Section 3.2: a bitvector constant keeps its width and its words, a bit array
  keeps its bits, and the opaque binary operators \<open>BvShl\<close>, \<open>BvLshr\<close>, \<open>BvAshr\<close>
  (and the division operators) keep the operator and the two operands.
\<close>

datatype bvop =
  BVOP_DIV | BVOP_REM | BVOP_SDIV | BVOP_SREM | BVOP_SMOD | BVOP_SHL | BVOP_LSHR | BVOP_ASHR

fun bvop_code :: "bvop \<Rightarrow> int" where
  "bvop_code BVOP_DIV = 0"
| "bvop_code BVOP_REM = 1"
| "bvop_code BVOP_SDIV = 2"
| "bvop_code BVOP_SREM = 3"
| "bvop_code BVOP_SMOD = 4"
| "bvop_code BVOP_SHL = 5"
| "bvop_code BVOP_LSHR = 6"
| "bvop_code BVOP_ASHR = 7"

definition bvapply_term :: "term_table \<Rightarrow> bvop \<Rightarrow> term_t \<Rightarrow> term_t \<Rightarrow> term_t \<times> term_table" where
  "bvapply_term tbl op t1 t2 =
     hash_cons tbl (mk_desc BV_APPLY_TERM (term_type tbl t1) [t1, t2] [bvop_code op])"

definition bvlogic_term :: "term_table \<Rightarrow> bvlogic_buffer \<Rightarrow> term_t \<times> term_table" where
  "bvlogic_term tbl b =
     (let (tau, tys) = bv_type (types tbl) (bitsize b)
      in hash_cons (tbl\<lparr>types := tys\<rparr>)
           (mk_desc BV_LOGIC_TERM tau (take (bitsize b) (bvlogic_buffer.bit b)) []))"

definition bvlogic_term_desc :: "term_table \<Rightarrow> term_t \<Rightarrow> nat \<times> int list" where
  "bvlogic_term_desc tbl t = (length (args (desc_of tbl t)), args (desc_of tbl t))"

definition bvconst_term_desc :: "term_table \<Rightarrow> term_t \<Rightarrow> nat \<times> 32 word list" where
  "bvconst_term_desc tbl t =
     (case ints (desc_of tbl t) of
        [] \<Rightarrow> (0, [])
      | n # ws \<Rightarrow> (nat n, map word_of_int ws))"

text \<open>
  \<open>get_internal_bvlogic_buffer\<close> (line 469): the buffer is allocated at the first
  call; a new buffer is empty.
\<close>

definition get_internal_bvlogic_buffer :: "state \<Rightarrow> bvlogic_buffer \<times> state" where
  "get_internal_bvlogic_buffer st =
     (case internal_bvlogic_buffer st of
        None \<Rightarrow> (\<lparr>bitsize = 0, bit = []\<rparr>,
                 st\<lparr>internal_bvlogic_buffer := Some \<lparr>bitsize = 0, bit = []\<rparr>\<rparr>)
      | Some b \<Rightarrow> (b, st))"

text \<open>Copy t into the internal_bvlogic_buffer.\<close>

definition copy_term_to_internal_bvlogic_buffer :: "('a bvshift_lib_scheme) \<Rightarrow> state \<Rightarrow> term_t \<Rightarrow> state" where
  "copy_term_to_internal_bvlogic_buffer lib st t =
     (let (b, st1) = get_internal_bvlogic_buffer st;
          b' = (if term_kind (terms st1) t = BV_LOGIC_TERM
                then bvlogic_buffer_set_bitarray lib b (fst (bvlogic_term_desc (terms st1) t))
                       (snd (bvlogic_term_desc (terms st1) t))
                else if term_kind (terms st1) t = BV_CONST_TERM
                then bvlogic_buffer_set_constant lib b (fst (bvconst_term_desc (terms st1) t))
                       (snd (bvconst_term_desc (terms st1) t))
                else bvlogic_buffer_set_bitarray lib b (term_bitsize (terms st1) t)
                       (bv_var_manager_get_bit_array lib (terms st1) t))
      in st1\<lparr>internal_bvlogic_buffer := Some b'\<rparr>)"

text \<open>\<open>yices_bvlogic_term\<close> (line 5422): convert buffer to a term.\<close>

definition yices_bvlogic_term ::
  "('a bvshift_lib_scheme) \<Rightarrow> state \<Rightarrow> bvlogic_buffer \<Rightarrow> term_t \<times> state" where
  "yices_bvlogic_term lib st b =
     (if bitsize b = 0 then (NULL_TERM, st\<lparr>error := (error st)\<lparr>code := EMPTY_BITVECTOR\<rparr>\<rparr>)
      else if bvlogic_buffer_is_constant lib b
      then on_terms st (\<lambda>tbl. bvconst_term tbl (fst (bvlogic_buffer_copy_constant lib b))
                                (snd (bvlogic_buffer_copy_constant lib b)))
      else
        (case bvlogic_buffer_primitive_variable lib (terms st) b of
           Some t \<Rightarrow> (t, st)
         | None \<Rightarrow> on_terms st (\<lambda>tbl. bvlogic_term tbl b)))"

text \<open>
  The three shifts have the same shape: \<open>shift_by_constant\<close> is the branch taken
  when \<open>t2\<close> is a constant, with the operation on the buffer as its argument. The
  buffer shifted is the internal buffer, which the copy has just set.
\<close>

definition shift_by_constant ::
  "('a bvshift_lib_scheme) \<Rightarrow> (bvlogic_buffer \<Rightarrow> nat \<Rightarrow> bvlogic_buffer) \<Rightarrow> state \<Rightarrow> term_t
     \<Rightarrow> term_t \<Rightarrow> term_t \<times> state" where
  "shift_by_constant lib shift st t1 t2 =
     (let st1 = copy_term_to_internal_bvlogic_buffer lib st t1;
          s = get_shift_amount (fst (bvconst_term_desc (terms st1) t2))
                (snd (bvconst_term_desc (terms st1) t2))
      in case internal_bvlogic_buffer st1 of
           None \<Rightarrow> (NULL_TERM, st1)
         | Some log_buffer \<Rightarrow>
             yices_bvlogic_term lib (st1\<lparr>internal_bvlogic_buffer := Some (shift log_buffer s)\<rparr>)
               (shift log_buffer s))"

definition yices_bvshl :: "('a bvshift_lib_scheme) \<Rightarrow> state \<Rightarrow> term_t \<Rightarrow> term_t \<Rightarrow> term_t \<times> state" where
  "yices_bvshl lib st t1 t2 =
     checked st (check_compatible_bv_terms (terms st) t1 t2)
       (\<lambda>st. if term_kind (terms st) t2 = BV_CONST_TERM
             then shift_by_constant lib (bvlogic_buffer_shift_left0 lib) st t1 t2
             else on_terms st (\<lambda>tbl. bvapply_term tbl BVOP_SHL t1 t2))"

definition yices_bvlshr :: "('a bvshift_lib_scheme) \<Rightarrow> state \<Rightarrow> term_t \<Rightarrow> term_t \<Rightarrow> term_t \<times> state" where
  "yices_bvlshr lib st t1 t2 =
     checked st (check_compatible_bv_terms (terms st) t1 t2)
       (\<lambda>st. if term_kind (terms st) t2 = BV_CONST_TERM
             then shift_by_constant lib (bvlogic_buffer_shift_right0 lib) st t1 t2
             else on_terms st (\<lambda>tbl. bvapply_term tbl BVOP_LSHR t1 t2))"

definition yices_bvashr :: "('a bvshift_lib_scheme) \<Rightarrow> state \<Rightarrow> term_t \<Rightarrow> term_t \<Rightarrow> term_t \<times> state" where
  "yices_bvashr lib st t1 t2 =
     checked st (check_compatible_bv_terms (terms st) t1 t2)
       (\<lambda>st. if term_kind (terms st) t2 = BV_CONST_TERM
             then shift_by_constant lib (bvlogic_buffer_ashift_right lib) st t1 t2
             else on_terms st (\<lambda>tbl. bvapply_term tbl BVOP_ASHR t1 t2))"

text \<open>
  An instance of the buffer library, for running the shifts. Modelled from the
  spec: section 3.3 and example F of section 6. A bit expression is the handle of
  the boolean term it stands for, the bits of a buffer are in low-order-first
  order, a left shift by \<open>k\<close> moves bit \<open>i\<close> to bit \<open>i + k\<close> and fills with
  \<open>false\<close>, a logical right shift fills with \<open>false\<close> and an arithmetic one with
  the sign bit (the last one). The bits of a variable are the \<open>SELECT_TERM\<close>
  descriptors \<open>t[i]\<close> found in the table.
\<close>

definition false_bit :: int where
  "false_bit = 3"

definition true_bit :: int where
  "true_bit = 2"

definition select_bit :: "term_table \<Rightarrow> term_t \<Rightarrow> nat \<Rightarrow> int" where
  "select_bit tbl t i =
     (case desc_index (desc tbl) (mk_desc SELECT_TERM (bool_type (types tbl)) [t] [int i]) 0 of
        Some j \<Rightarrow> pos_term (int j)
      | None \<Rightarrow> NULL_TERM)"

fun value_words :: "nat \<Rightarrow> nat \<Rightarrow> 32 word list" where
  "value_words 0 v = []"
| "value_words (Suc k) v = of_nat (v mod 4294967296) # value_words k (v div 4294967296)"

definition term_bits_shift_lib :: bvshift_lib where
  "term_bits_shift_lib =
     bvlogic_lib.extend term_bits_lib
       \<lparr>bvlogic_buffer_set_bitarray = (\<lambda>b n a. \<lparr>bitsize = n, bit = take n a\<rparr>),
        bvlogic_buffer_set_constant =
          (\<lambda>b n bv. \<lparr>bitsize = n,
                      bit = map (\<lambda>i. if odd (bvconst_value bv div 2 ^ i) then true_bit
                                      else false_bit) [0 ..< n]\<rparr>),
        bvlogic_buffer_shift_left0 =
          (\<lambda>b k. b\<lparr>bit := replicate (min k (bitsize b)) false_bit
                            @ take (bitsize b - k) (bvlogic_buffer.bit b)\<rparr>),
        bvlogic_buffer_shift_right0 =
          (\<lambda>b k. b\<lparr>bit := drop k (take (bitsize b) (bvlogic_buffer.bit b))
                            @ replicate (min k (bitsize b)) false_bit\<rparr>),
        bvlogic_buffer_ashift_right =
          (\<lambda>b k. b\<lparr>bit := drop k (take (bitsize b) (bvlogic_buffer.bit b))
                            @ replicate (min k (bitsize b))
                                (last (take (bitsize b) (bvlogic_buffer.bit b)))\<rparr>),
        bvlogic_buffer_copy_constant =
          (\<lambda>b. (bitsize b,
                 value_words ((bitsize b + 31) div 32)
                   (bits_value (take (bitsize b) (bvlogic_buffer.bit b))))),
        bvlogic_buffer_primitive_variable = (\<lambda>tbl b. None),
        bv_var_manager_get_bit_array =
          (\<lambda>tbl t. map (select_bit tbl t) [0 ..< term_bitsize tbl t])\<rparr>"

text \<open>
  The tables after a few declarations: the type \<open>BitVec(8)\<close> (type 3), the
  uninterpreted terms \<open>t, s : BitVec(8)\<close> (handles 4 and 6), the 8-bit constants 4,
  9 and 1 (handles 8, 10 and 12) and the eight bits \<open>t[0], ..., t[7]\<close> of \<open>t\<close>
  (handles 14 to 28).
\<close>

definition example_bv_terms :: term_table where
  "example_bv_terms =
     \<lparr>types = init_type_table @
        [\<lparr>tkind = BITVECTOR_TYPE, tsize = 8, telem = [], trange = - 1\<rparr>],
      desc = desc init_term_table @
        [mk_desc UNINTERPRETED_TERM 3 [] [2],
         mk_desc UNINTERPRETED_TERM 3 [] [3],
         mk_desc BV_CONST_TERM 3 [] [8, 4],
         mk_desc BV_CONST_TERM 3 [] [8, 9],
         mk_desc BV_CONST_TERM 3 [] [8, 1],
         mk_desc SELECT_TERM 0 [4] [0],
         mk_desc SELECT_TERM 0 [4] [1],
         mk_desc SELECT_TERM 0 [4] [2],
         mk_desc SELECT_TERM 0 [4] [3],
         mk_desc SELECT_TERM 0 [4] [4],
         mk_desc SELECT_TERM 0 [4] [5],
         mk_desc SELECT_TERM 0 [4] [6],
         mk_desc SELECT_TERM 0 [4] [7]]\<rparr>"

definition example_bv_state :: state where
  "example_bv_state =
     \<lparr>terms = example_bv_terms, error = no_error_report,
      internal_arith_buffer = None, internal_bvlogic_buffer = None\<rparr>"

text \<open>
  The same state after \<open>bv64_constant\<close> has built the 8-bit constant 4 once more, as
  a term of kind \<open>BV64_CONSTANT\<close> (handle 30).
\<close>

definition example_bv64_state :: state where
  "example_bv64_state = snd (on_terms example_bv_state (\<lambda>tbl. bv64_constant tbl 8 4))"

section \<open>A state to run the constructors on\<close>

text \<open>
  The tables after a few declarations: the scalar types \<open>Scalar(2)\<close> (type 3) and
  \<open>Scalar(1)\<close> (type 4), the bitvector types of 1 bit (type 5) and 8 bits (type 6);
  the uninterpreted terms \<open>c, x : Bool\<close> (handles 4 and 6), \<open>u, v : Int\<close> (8 and 10),
  the term \<open>ite(c, u, v)\<close> (12), \<open>a, b, d : Scalar(2)\<close> (14, 16, 18),
  \<open>p, q : Scalar(1)\<close> (20, 22), \<open>e, f, g : BitVec(1)\<close> (24, 26, 28),
  \<open>t, s : BitVec(8)\<close> (30, 32) and the 8-bit constant 4 (34).
\<close>

definition example_types :: type_table where
  "example_types =
     init_type_table @
     [\<lparr>tkind = SCALAR_TYPE, tsize = 2, telem = [], trange = - 1\<rparr>,
      \<lparr>tkind = SCALAR_TYPE, tsize = 1, telem = [], trange = - 1\<rparr>,
      \<lparr>tkind = BITVECTOR_TYPE, tsize = 1, telem = [], trange = - 1\<rparr>,
      \<lparr>tkind = BITVECTOR_TYPE, tsize = 8, telem = [], trange = - 1\<rparr>]"

definition example_terms :: term_table where
  "example_terms =
     \<lparr>types = example_types,
      desc = desc init_term_table @
        [mk_desc UNINTERPRETED_TERM 0 [] [2],
         mk_desc UNINTERPRETED_TERM 0 [] [3],
         mk_desc UNINTERPRETED_TERM 1 [] [4],
         mk_desc UNINTERPRETED_TERM 1 [] [5],
         mk_desc ITE_TERM 1 [4, 8, 10] [],
         mk_desc UNINTERPRETED_TERM 3 [] [7],
         mk_desc UNINTERPRETED_TERM 3 [] [8],
         mk_desc UNINTERPRETED_TERM 3 [] [9],
         mk_desc UNINTERPRETED_TERM 4 [] [10],
         mk_desc UNINTERPRETED_TERM 4 [] [11],
         mk_desc UNINTERPRETED_TERM 5 [] [12],
         mk_desc UNINTERPRETED_TERM 5 [] [13],
         mk_desc UNINTERPRETED_TERM 5 [] [14],
         mk_desc UNINTERPRETED_TERM 6 [] [15],
         mk_desc UNINTERPRETED_TERM 6 [] [16],
         mk_desc BV_CONST_TERM 6 [] [8, 4]]\<rparr>"

definition example_state :: state where
  "example_state =
     \<lparr>terms = example_terms, error = no_error_report,
      internal_arith_buffer = None, internal_bvlogic_buffer = None\<rparr>"

text \<open>The same state after the declaration of a third boolean term, \<open>w\<close> (handle 36).\<close>

definition example_bool_state :: state where
  "example_bool_state =
     snd (on_terms example_state (\<lambda>tbl. new_uninterpreted_term tbl (bool_type (types tbl))))"

text \<open>A comparison library that never finds two terms disequal.\<close>

definition no_compare :: compare_lib where
  "no_compare =
     \<lparr>must_disequal_polynomial = (\<lambda>p q. False),
      polynomial_is_const_plus_var = (\<lambda>p v. False),
      term_theory_var = (\<lambda>tbl t. null_theory_var),
      bvlogic_must_disequal_expr = (\<lambda>d1 d2. False),
      bvarith_must_disequal_expr = (\<lambda>d1 d2. False),
      bvconst_neq = (\<lambda>d1 d2. False),
      bvlogic_must_disequal_constant = (\<lambda>d1 d2. False)\<rparr>"

definition example_limits :: limits where
  "example_limits =
     \<lparr>YICES_MAX_ARITY = 1000, YICES_MAX_VARS = 1000, YICES_MAX_BVSIZE = 1000,
      YICES_MAX_DEGREE = 1000\<rparr>"

section \<open>Invariant T-4 on the term table\<close>

text \<open>No if-then-else descriptor of the table has a condition of negative polarity.\<close>

definition ite_conds_positive :: "term_table \<Rightarrow> bool" where
  "ite_conds_positive tbl =
     list_all (\<lambda>d. kind d = ITE_TERM \<longrightarrow> is_pos_term (arr (args d) 0)) (desc tbl)"

section \<open>Skolemization for the EF solver (exists_forall/ef_skolemize.c)\<close>

text \<open>
  The term manager, the term table, the public constructors \<open>yices_...\<close>, the term
  substitution and \<open>sprintf\<close> are not in src: they are parameters. \<open>'m\<close> is the
  state of the term manager and of its term table, which every constructor may
  extend. A name that this theory already uses for a function of term_api.c has a
  suffix: \<open>_tbl\<close> for a query of the term table, \<open>_mgr\<close> for a constructor of the
  term manager, \<open>_lib\<close> for a public constructor. A descriptor \<open>d\<close> of a composite
  term is the list \<open>d->arg\<close>, and \<open>d->arity\<close> is its length. \<open>skolem_name\<close> is the
  \<open>sprintf\<close> of line 184.
\<close>

record 'm ef_lib =
  term_kind_tbl :: "'m \<Rightarrow> term_t \<Rightarrow> term_kind"
  term_is_atomic :: "'m \<Rightarrow> term_t \<Rightarrow> bool"
  term_num_children :: "'m \<Rightarrow> term_t \<Rightarrow> nat"
  term_child :: "'m \<Rightarrow> term_t \<Rightarrow> nat \<Rightarrow> term_t"
  term_type_tbl :: "'m \<Rightarrow> term_t \<Rightarrow> type_t"
  is_boolean_term_tbl :: "'m \<Rightarrow> term_t \<Rightarrow> bool"
  ite_term_desc :: "'m \<Rightarrow> term_t \<Rightarrow> term_t list"
  eq_term_desc :: "'m \<Rightarrow> term_t \<Rightarrow> term_t list"
  or_term_desc :: "'m \<Rightarrow> term_t \<Rightarrow> term_t list"
  forall_term_desc :: "'m \<Rightarrow> term_t \<Rightarrow> term_t list"
  mk_eq :: "'m \<Rightarrow> term_t \<Rightarrow> term_t \<Rightarrow> term_t \<times> 'm"
  mk_or_mgr :: "'m \<Rightarrow> nat \<Rightarrow> term_t list \<Rightarrow> term_t \<times> 'm"
  mk_and_mgr :: "'m \<Rightarrow> nat \<Rightarrow> term_t list \<Rightarrow> term_t \<times> 'm"
  mk_xor_mgr :: "'m \<Rightarrow> nat \<Rightarrow> term_t list \<Rightarrow> term_t \<times> 'm"
  mk_implies_mgr :: "'m \<Rightarrow> term_t \<Rightarrow> term_t \<Rightarrow> term_t \<times> 'm"
  mk_bvarray :: "'m \<Rightarrow> nat \<Rightarrow> term_t list \<Rightarrow> term_t \<times> 'm"
  mk_bvdiv :: "'m \<Rightarrow> term_t \<Rightarrow> term_t \<Rightarrow> term_t \<times> 'm"
  mk_bvrem :: "'m \<Rightarrow> term_t \<Rightarrow> term_t \<Rightarrow> term_t \<times> 'm"
  mk_bvsdiv :: "'m \<Rightarrow> term_t \<Rightarrow> term_t \<Rightarrow> term_t \<times> 'm"
  mk_bvsrem :: "'m \<Rightarrow> term_t \<Rightarrow> term_t \<Rightarrow> term_t \<times> 'm"
  mk_bvsmod :: "'m \<Rightarrow> term_t \<Rightarrow> term_t \<Rightarrow> term_t \<times> 'm"
  mk_bvshl :: "'m \<Rightarrow> term_t \<Rightarrow> term_t \<Rightarrow> term_t \<times> 'm"
  mk_bvlshr :: "'m \<Rightarrow> term_t \<Rightarrow> term_t \<Rightarrow> term_t \<times> 'm"
  mk_bvashr :: "'m \<Rightarrow> term_t \<Rightarrow> term_t \<Rightarrow> term_t \<times> 'm"
  mk_bveq_mgr :: "'m \<Rightarrow> term_t \<Rightarrow> term_t \<Rightarrow> term_t \<times> 'm"
  mk_bvge :: "'m \<Rightarrow> term_t \<Rightarrow> term_t \<Rightarrow> term_t \<times> 'm"
  mk_bvsge :: "'m \<Rightarrow> term_t \<Rightarrow> term_t \<Rightarrow> term_t \<times> 'm"
  mk_ite :: "'m \<Rightarrow> term_t \<Rightarrow> term_t \<Rightarrow> term_t \<Rightarrow> type_t \<Rightarrow> term_t \<times> 'm"
  mk_application :: "'m \<Rightarrow> term_t \<Rightarrow> nat \<Rightarrow> term_t list \<Rightarrow> term_t \<times> 'm"
  yices_function_type :: "'m \<Rightarrow> nat \<Rightarrow> type_t list \<Rightarrow> type_t \<Rightarrow> type_t \<times> 'm"
  yices_new_uninterpreted_term_lib :: "'m \<Rightarrow> type_t \<Rightarrow> term_t \<times> 'm"
  yices_get_term_name :: "'m \<Rightarrow> term_t \<Rightarrow> string"
  yices_set_term_name :: "'m \<Rightarrow> term_t \<Rightarrow> string \<Rightarrow> 'm"
  yices_application_lib :: "'m \<Rightarrow> term_t \<Rightarrow> nat \<Rightarrow> term_t list \<Rightarrow> term_t \<times> 'm"
  apply_term_subst :: "'m \<Rightarrow> nat \<Rightarrow> term_t list \<Rightarrow> term_t list \<Rightarrow> term_t \<Rightarrow> term_t \<times> 'm"
  skolem_name :: "nat \<Rightarrow> string \<Rightarrow> string"

text \<open>
  The analyzer (ef_analyzer.h is not in src), for the fields this file uses: its
  term manager, whose term table is \<open>ef->terms\<close>, the map \<open>existentials\<close> (the pairs
  added by \<open>int_hmap_add\<close>, last first) and the counter \<open>num_skolem\<close>. The
  skolemizer points to the analyzer; \<open>sk->mgr\<close> and \<open>sk->terms\<close> are the manager and
  the table of the analyzer. \<open>sk->uvars\<close> is an \<open>ivector_t\<close>: \<open>ivector_push\<close> adds
  an element at the end, \<open>ivector_pop\<close> removes the last one.
\<close>

record 'm ef_analyzer =
  manager :: 'm
  existentials :: "(term_t \<times> term_t) list"
  num_skolem :: nat

record 'm ef_skolemize =
  analyzer :: "'m ef_analyzer"
  flatten_ite :: bool
  flatten_iff :: bool
  uvars :: "term_t list"

record ef_skolem =
  func :: term_t
  fapp :: term_t

definition ivector_push :: "int list \<Rightarrow> int \<Rightarrow> int list" where
  "ivector_push v x = v @ [x]"

definition ivector_pop :: "int list \<Rightarrow> int list" where
  "ivector_pop v = butlast v"

definition mgr :: "'m ef_skolemize \<Rightarrow> 'm" where
  "mgr sk = manager (analyzer sk)"

definition set_mgr :: "'m ef_skolemize \<Rightarrow> 'm \<Rightarrow> 'm ef_skolemize" where
  "set_mgr sk m = sk\<lparr>analyzer := (analyzer sk)\<lparr>manager := m\<rparr>\<rparr>"

text \<open>Initialize the skolemize object.\<close>

definition init_ef_skolemize :: "'m ef_analyzer \<Rightarrow> bool \<Rightarrow> bool \<Rightarrow> 'm ef_skolemize" where
  "init_ef_skolemize an f_ite f_iff =
     \<lparr>analyzer = an, flatten_ite = f_ite, flatten_iff = f_iff, uvars = []\<rparr>"

text \<open>
  Construct a composite term by updating its children. The assertions of this file
  are debugging checks and are not branches of the models: after \<open>assert(false)\<close>
  the result is the \<open>NULL_TERM\<close> that \<open>result\<close> was initialized with. \<open>n - 1\<close> is
  computed on \<open>uint32_t\<close>.
\<close>

definition ef_update_composite ::
  "('m, 'a) ef_lib_scheme \<Rightarrow> 'm \<Rightarrow> term_t \<Rightarrow> term_t list \<Rightarrow> term_t \<times> 'm" where
  "ef_update_composite lib m t c =
     (let knd = term_kind_tbl lib m t; n = length c
      in if knd = EQ_TERM then mk_eq lib m (arr c 0) (arr c 1)
         else if knd = OR_TERM then mk_or_mgr lib m n c
         else if knd = XOR_TERM then mk_xor_mgr lib m n c
         else if knd = BV_ARRAY then mk_bvarray lib m n c
         else if knd = BV_DIV then mk_bvdiv lib m (arr c 0) (arr c 1)
         else if knd = BV_REM then mk_bvrem lib m (arr c 0) (arr c 1)
         else if knd = BV_SDIV then mk_bvsdiv lib m (arr c 0) (arr c 1)
         else if knd = BV_SREM then mk_bvsrem lib m (arr c 0) (arr c 1)
         else if knd = BV_SMOD then mk_bvsmod lib m (arr c 0) (arr c 1)
         else if knd = BV_SHL then mk_bvshl lib m (arr c 0) (arr c 1)
         else if knd = BV_LSHR then mk_bvlshr lib m (arr c 0) (arr c 1)
         else if knd = BV_ASHR then mk_bvashr lib m (arr c 0) (arr c 1)
         else if knd = BV_EQ_ATOM then mk_bveq_mgr lib m (arr c 0) (arr c 1)
         else if knd = BV_GE_ATOM then mk_bvge lib m (arr c 0) (arr c 1)
         else if knd = BV_SGE_ATOM then mk_bvsge lib m (arr c 0) (arr c 1)
         else if knd = ITE_TERM
         then mk_ite lib m (arr c 0) (arr c 1) (arr c 2) (term_type_tbl lib m (arr c 1))
         else if knd = APP_TERM
         then mk_application lib m (arr c 0) ((n + 4294967295) mod 4294967296) (drop 1 c)
         else (NULL_TERM, m))"

text \<open>Skolemize variable x using uvars as skolem arguments.\<close>

definition ef_skolem_term ::
  "('m, 'a) ef_lib_scheme \<Rightarrow> 'm ef_analyzer \<Rightarrow> term_t \<Rightarrow> nat \<Rightarrow> term_t list
     \<Rightarrow> ef_skolem \<times> 'm ef_analyzer" where
  "ef_skolem_term lib ef x n uv =
     (let ef1 = ef\<lparr>num_skolem := num_skolem ef + 1\<rparr>;
          domt = map (\<lambda>i. term_type_tbl lib (manager ef1) (arr uv i)) [0 ..< n];
          rt = term_type_tbl lib (manager ef1) x;
          (funct, m1) = yices_function_type lib (manager ef1) n domt rt;
          (f, m2) = yices_new_uninterpreted_term_lib lib m1 funct;
          m3 = yices_set_term_name lib m2 f
                 (skolem_name lib (num_skolem ef1) (yices_get_term_name lib m2 x));
          (fa, m4) = yices_application_lib lib m3 f n uv
      in (\<lparr>func = f, fapp = fa\<rparr>, ef1\<lparr>manager := m4\<rparr>))"

text \<open>
  Skolemize existentials in an analyzer: the two loops of \<open>ef_skolem_body\<close> over the
  variables \<open>a[0 .. n-1]\<close>.
\<close>

fun add_existentials :: "term_t list \<Rightarrow> 'm ef_analyzer \<Rightarrow> 'm ef_analyzer" where
  "add_existentials [] ef = ef"
| "add_existentials (x # xs) ef =
     add_existentials xs (ef\<lparr>existentials := (x, x) # existentials ef\<rparr>)"

fun add_skolems ::
  "('m, 'a) ef_lib_scheme \<Rightarrow> term_t list \<Rightarrow> term_t list \<Rightarrow> 'm ef_analyzer
     \<Rightarrow> term_t list \<times> 'm ef_analyzer" where
  "add_skolems lib uv [] ef = ([], ef)"
| "add_skolems lib uv (x # xs) ef =
     (let (s, ef1) = ef_skolem_term lib ef x (length uv) uv;
          ef2 = ef1\<lparr>existentials := (x, func s) # existentials ef1\<rparr>;
          (ss, ef3) = add_skolems lib uv xs ef2
      in (fapp s # ss, ef3))"

definition ef_skolem_body ::
  "('m, 'a) ef_lib_scheme \<Rightarrow> 'm ef_skolemize \<Rightarrow> term_t \<Rightarrow> term_t \<times> 'm ef_skolemize" where
  "ef_skolem_body lib sk t =
     (let ef = analyzer sk;
          d = forall_term_desc lib (manager ef) t;
          n = (length d + 4294967295) mod 4294967296;
          a = map (arr d) [0 ..< n];
          body = opposite_term (arr d n)
      in if length (uvars sk) = 0
         then (body, sk\<lparr>analyzer := add_existentials a ef\<rparr>)
         else
           (let (skolems, ef1) = add_skolems lib (uvars sk) a ef;
                (body', m) = apply_term_subst lib (manager ef1) n a skolems body
            in (body', sk\<lparr>analyzer := ef1\<lparr>manager := m\<rparr>\<rparr>)))"

text \<open>
  Convert a term to negated normal form and skolemize. The recursion is not on the
  structure of a datatype (it goes through the terms that \<open>mk_implies\<close> and the
  substitution build), so \<open>ef_skolemize_term\<close> has a bound on the depth of its calls
  as first argument, and its result is \<open>None\<close> when the bound is reached. The body
  of the function is split in three: the loop over the children, the case of a
  negated term and the case of a term of positive polarity; \<open>rec\<close> is the function
  they call back.
\<close>

type_synonym 'm skolemizer = "'m ef_skolemize \<Rightarrow> term_t \<Rightarrow> (term_t \<times> 'm ef_skolemize) option"

text \<open>
  \<^verbatim>\<open>for (i...) { u = ef_skolemize_term(sk, a[i]); ivector_push(&args, u); }\<close>
  over the terms \<open>a\<close>, and the same loop over the children \<open>term_child(terms, v, i)\<close>,
  read in the table as it is when the loop gets to \<open>i\<close>.
\<close>

fun skolemize_terms ::
  "'m skolemizer \<Rightarrow> 'm ef_skolemize \<Rightarrow> term_t list \<Rightarrow> term_t list
     \<Rightarrow> (term_t list \<times> 'm ef_skolemize) option" where
  "skolemize_terms rec sk vec [] = Some (vec, sk)"
| "skolemize_terms rec sk vec (u # us) =
     do {
       (v, sk1) \<leftarrow> rec sk u;
       skolemize_terms rec sk1 (ivector_push vec v) us
     }"

fun skolemize_children ::
  "'m skolemizer \<Rightarrow> ('m, 'a) ef_lib_scheme \<Rightarrow> 'm ef_skolemize \<Rightarrow> term_t \<Rightarrow> term_t list
     \<Rightarrow> nat list \<Rightarrow> (term_t list \<times> 'm ef_skolemize) option" where
  "skolemize_children rec lib sk v vec [] = Some (vec, sk)"
| "skolemize_children rec lib sk v vec (i # js) =
     do {
       (u, sk1) \<leftarrow> rec sk (term_child lib (mgr sk) v i);
       skolemize_children rec lib sk1 v (ivector_push vec u) js
     }"

text \<open>
  The cases of the two \<open>switch\<close> statements. Each returns \<open>result\<close>, the vector
  \<open>args\<close> and the skolemizer; the positive one also returns \<open>n\<close>, which the case
  \<open>FORALL_TERM\<close> overwrites.
\<close>

definition flatten_ite_case ::
  "'m skolemizer \<Rightarrow> ('m, 'a) ef_lib_scheme \<Rightarrow> 'm ef_skolemize \<Rightarrow> term_t \<Rightarrow> bool
     \<Rightarrow> (term_t \<times> term_t list \<times> 'm ef_skolemize) option" where
  "flatten_ite_case rec lib sk t neg =
     (let d = ite_term_desc lib (mgr sk) t
      in if flatten_ite sk \<and> is_boolean_term_tbl lib (mgr sk) (arr d 1) then
           (let u0 = (if neg then opposite_term (arr d 1) else arr d 1);
                v0 = (if neg then opposite_term (arr d 2) else arr d 2);
                (u1, m1) = mk_implies_mgr lib (mgr sk) (arr d 0) u0;
                (v1, m2) = mk_implies_mgr lib m1 (opposite_term (arr d 0)) v0
            in do {
                 (u, sk1) \<leftarrow> rec (set_mgr sk m2) u1;
                 (v, sk2) \<leftarrow> rec sk1 v1;
                 let vec = ivector_push (ivector_push [] u) v;
                 let (r, m3) = mk_and_mgr lib (mgr sk2) 2 vec;
                 Some (r, vec, set_mgr sk2 m3)
               })
         else Some (NULL_TERM, [], sk))"

definition flatten_iff_case ::
  "'m skolemizer \<Rightarrow> ('m, 'a) ef_lib_scheme \<Rightarrow> 'm ef_skolemize \<Rightarrow> term_t \<Rightarrow> bool
     \<Rightarrow> (term_t \<times> term_t list \<times> 'm ef_skolemize) option" where
  "flatten_iff_case rec lib sk t neg =
     (let d = eq_term_desc lib (mgr sk) t
      in if flatten_iff sk \<and> is_boolean_term_tbl lib (mgr sk) (arr d 0) then
           (let (u0, m1) = mk_implies_mgr lib (mgr sk) (arr d 0) (arr d 1);
                (v0, m2) = mk_implies_mgr lib m1 (arr d 1) (arr d 0);
                u1 = (if neg then opposite_term u0 else u0);
                v1 = (if neg then opposite_term v0 else v0)
            in do {
                 (u, sk1) \<leftarrow> rec (set_mgr sk m2) u1;
                 (v, sk2) \<leftarrow> rec sk1 v1;
                 let vec = ivector_push (ivector_push [] u) v;
                 let (r, m3) = (if neg then mk_or_mgr lib (mgr sk2) 2 vec
                                else mk_and_mgr lib (mgr sk2) 2 vec);
                 Some (r, vec, set_mgr sk2 m3)
               })
         else Some (NULL_TERM, [], sk))"

definition ef_skolemize_neg ::
  "'m skolemizer \<Rightarrow> ('m, 'a) ef_lib_scheme \<Rightarrow> 'm ef_skolemize \<Rightarrow> term_t
     \<Rightarrow> (term_t \<times> 'm ef_skolemize) option" where
  "ef_skolemize_neg rec lib sk t =
     (let knd = term_kind_tbl lib (mgr sk) t
      in do {
           (result, vec, sk1) \<leftarrow>
             (if knd = ITE_TERM \<or> knd = ITE_SPECIAL then flatten_ite_case rec lib sk t True
              else if knd = EQ_TERM then flatten_iff_case rec lib sk t True
              else if knd = OR_TERM then
                (let d = or_term_desc lib (mgr sk) t; n = length d
                 in do {
                      (vec, sk1) \<leftarrow> skolemize_terms rec sk [] (map opposite_term d);
                      let (r, m) = mk_and_mgr lib (mgr sk1) n vec;
                      Some (r, vec, set_mgr sk1 m)
                    })
              else if knd = FORALL_TERM then
                (let (u, sk1) = ef_skolem_body lib sk t
                 in do {
                      (r, sk2) \<leftarrow> rec sk1 u;
                      Some (r, [], sk2)
                    })
              else Some (NULL_TERM, [], sk));
           let v = unsigned_term t;
           let n = term_num_children lib (mgr sk1) v;
           if result = NULL_TERM then
             do {
               (vec', sk2) \<leftarrow> skolemize_children rec lib sk1 v vec [0 ..< n];
               let (r, m) = ef_update_composite lib (mgr sk2) v vec';
               Some (opposite_term r, set_mgr sk2 m)
             }
           else Some (result, sk1)
         })"

definition ef_skolemize_pos ::
  "'m skolemizer \<Rightarrow> ('m, 'a) ef_lib_scheme \<Rightarrow> 'm ef_skolemize \<Rightarrow> term_t
     \<Rightarrow> (term_t \<times> 'm ef_skolemize) option" where
  "ef_skolemize_pos rec lib sk t =
     (let knd = term_kind_tbl lib (mgr sk) t;
          n0 = term_num_children lib (mgr sk) t
      in do {
           (result, vec, n, sk1) \<leftarrow>
             (if knd = ITE_TERM \<or> knd = ITE_SPECIAL then
                do {
                  (r, vec, sk1) \<leftarrow> flatten_ite_case rec lib sk t False;
                  Some (r, vec, n0, sk1)
                }
              else if knd = EQ_TERM then
                do {
                  (r, vec, sk1) \<leftarrow> flatten_iff_case rec lib sk t False;
                  Some (r, vec, n0, sk1)
                }
              else if knd = FORALL_TERM then
                (let d = forall_term_desc lib (mgr sk) t;
                     n = (length d + 4294967295) mod 4294967296;
                     sk1 = sk\<lparr>uvars := fold (\<lambda>i v. ivector_push v (arr d i)) [0 ..< n] (uvars sk)\<rparr>
                 in do {
                      (r, sk2) \<leftarrow> rec sk1 (arr d n);
                      Some (r, [], n, sk2\<lparr>uvars := (ivector_pop ^^ n) (uvars sk2)\<rparr>)
                    })
              else Some (NULL_TERM, [], n0, sk));
           if result = NULL_TERM then
             do {
               (vec', sk2) \<leftarrow> skolemize_children rec lib sk1 t vec [0 ..< n];
               let (r, m) = ef_update_composite lib (mgr sk2) (unsigned_term t) vec';
               Some (r, set_mgr sk2 m)
             }
           else Some (result, sk1)
         })"

fun ef_skolemize_term ::
  "nat \<Rightarrow> ('m, 'a) ef_lib_scheme \<Rightarrow> 'm ef_skolemize \<Rightarrow> term_t
     \<Rightarrow> (term_t \<times> 'm ef_skolemize) option" where
  "ef_skolemize_term 0 lib sk t = None"
| "ef_skolemize_term (Suc k) lib sk t =
     (if term_is_atomic lib (mgr sk) (unsigned_term t) then Some (t, sk)
      else if is_neg_term t then ef_skolemize_neg (ef_skolemize_term k lib) lib sk t
      else ef_skolemize_pos (ef_skolemize_term k lib) lib sk t)"

text \<open>Get the skolemized version of term t.\<close>

definition ef_skolemize ::
  "nat \<Rightarrow> ('m, 'a) ef_lib_scheme \<Rightarrow> 'm ef_skolemize \<Rightarrow> term_t
     \<Rightarrow> (term_t \<times> 'm ef_skolemize) option" where
  "ef_skolemize k lib sk t = ef_skolemize_term k lib sk t"

text \<open>
  Invariant K-2 for a function that skolemizes: when it returns, \<open>sk->uvars\<close> is
  the sequence it was on entry.
\<close>

definition keeps_uvars :: "'m skolemizer \<Rightarrow> bool" where
  "keeps_uvars rec = (\<forall>sk t r sk'. rec sk t = Some (r, sk') \<longrightarrow> uvars sk' = uvars sk)"

text \<open>
  A term table to run the skolemizer on: the atoms \<open>p\<close> (8) and the variables
  \<open>x, y, z\<close> (4, 6, 2); \<open>forall x y. p\<close> (10); \<open>forall z. forall x y. p\<close> (12);
  \<open>forall y. p\<close> (16) and \<open>forall x. not (forall y. p)\<close> (14), whose body is the
  negated reference 17. The constructors are not used by these terms, except for
  those of the skolem function, whose term is 20 and whose application is 22, and
  the substitution, which returns the body as it is.
\<close>

definition example_ef_lib :: "unit ef_lib" where
  "example_ef_lib =
     \<lparr>term_kind_tbl =
        (\<lambda>m t. if unsigned_term t \<in> {10, 12, 14, 16} then FORALL_TERM else UNINTERPRETED_TERM),
      term_is_atomic = (\<lambda>m t. t \<notin> {10, 12, 14, 16}),
      term_num_children = (\<lambda>m t. if unsigned_term t = 10 then 3 else 2),
      term_child = (\<lambda>m t i. NULL_TERM),
      term_type_tbl = (\<lambda>m t. 0),
      is_boolean_term_tbl = (\<lambda>m t. True),
      ite_term_desc = (\<lambda>m t. []),
      eq_term_desc = (\<lambda>m t. []),
      or_term_desc = (\<lambda>m t. []),
      forall_term_desc =
        (\<lambda>m t. if unsigned_term t = 10 then [4, 6, 8]
                else if unsigned_term t = 12 then [2, 10]
                else if unsigned_term t = 14 then [4, 17]
                else [6, 8]),
      mk_eq = (\<lambda>m x y. (NULL_TERM, m)),
      mk_or_mgr = (\<lambda>m n a. (NULL_TERM, m)),
      mk_and_mgr = (\<lambda>m n a. (NULL_TERM, m)),
      mk_xor_mgr = (\<lambda>m n a. (NULL_TERM, m)),
      mk_implies_mgr = (\<lambda>m x y. (NULL_TERM, m)),
      mk_bvarray = (\<lambda>m n a. (NULL_TERM, m)),
      mk_bvdiv = (\<lambda>m x y. (NULL_TERM, m)),
      mk_bvrem = (\<lambda>m x y. (NULL_TERM, m)),
      mk_bvsdiv = (\<lambda>m x y. (NULL_TERM, m)),
      mk_bvsrem = (\<lambda>m x y. (NULL_TERM, m)),
      mk_bvsmod = (\<lambda>m x y. (NULL_TERM, m)),
      mk_bvshl = (\<lambda>m x y. (NULL_TERM, m)),
      mk_bvlshr = (\<lambda>m x y. (NULL_TERM, m)),
      mk_bvashr = (\<lambda>m x y. (NULL_TERM, m)),
      mk_bveq_mgr = (\<lambda>m x y. (NULL_TERM, m)),
      mk_bvge = (\<lambda>m x y. (NULL_TERM, m)),
      mk_bvsge = (\<lambda>m x y. (NULL_TERM, m)),
      mk_ite = (\<lambda>m c x y tau. (NULL_TERM, m)),
      mk_application = (\<lambda>m f n a. (NULL_TERM, m)),
      yices_function_type = (\<lambda>m n dom r. (3, m)),
      yices_new_uninterpreted_term_lib = (\<lambda>m tau. (20, m)),
      yices_get_term_name = (\<lambda>m t. ''y''),
      yices_set_term_name = (\<lambda>m t name. m),
      yices_application_lib = (\<lambda>m f n a. (22, m)),
      apply_term_subst = (\<lambda>m n a s body. (body, m)),
      skolem_name = (\<lambda>n x. ''skolem_'' @ x)\<rparr>"

definition example_ef_skolemize :: "unit ef_skolemize" where
  "example_ef_skolemize =
     init_ef_skolemize \<lparr>manager = (), existentials = [], num_skolem = 0\<rparr> True True"

section \<open>The public term constructors and their checks (term_api.c, lines 2755 to 6925)\<close>

text \<open>
  Every public constructor starts with its checks and returns \<open>NULL_TERM\<close> when one
  fails. The constructors of the sections above are modelled with what follows the
  checks. For the others, what follows the checks goes through the libraries of
  arithmetic and bitvector buffers, which are not in src: it is the parameter
  \<open>rest\<close> of the model, a function of the state that the statements after the checks
  start in. \<open>check_arith_term_degree\<close> and \<open>check_bvterm_degree\<close> are called (lines
  3902 and 5686) but not defined in src; they are modelled on \<open>check_term_degree\<close>
  (line 1821), which is \<open>check_maxdegree\<close> of the degree of the term, the degree
  being a parameter.
\<close>

definition check_term_degree ::
  "limits \<Rightarrow> (term_table \<Rightarrow> term_t \<Rightarrow> nat) \<Rightarrow> term_table \<Rightarrow> term_t \<Rightarrow> check" where
  "check_term_degree lm term_degree tbl t = check_maxdegree lm (term_degree tbl t)"

definition check_arith_term_degree ::
  "limits \<Rightarrow> (term_table \<Rightarrow> term_t \<Rightarrow> nat) \<Rightarrow> term_table \<Rightarrow> term_t \<Rightarrow> check" where
  "check_arith_term_degree lm term_degree tbl t = check_maxdegree lm (term_degree tbl t)"

definition check_bvterm_degree ::
  "limits \<Rightarrow> (term_table \<Rightarrow> term_t \<Rightarrow> nat) \<Rightarrow> term_table \<Rightarrow> term_t \<Rightarrow> check" where
  "check_bvterm_degree lm term_degree tbl t = check_maxdegree lm (term_degree tbl t)"

definition yices_constant ::
  "(state \<Rightarrow> term_t \<times> state) \<Rightarrow> state \<Rightarrow> type_t \<Rightarrow> int \<Rightarrow> term_t \<times> state" where
  "yices_constant rest st tau idx =
     checked st
       (check_good_constant (types (terms st)) tau idx)
       rest"

definition yices_variable ::
  "(state \<Rightarrow> term_t \<times> state) \<Rightarrow> state \<Rightarrow> type_t \<Rightarrow> int \<Rightarrow> term_t \<times> state" where
  "yices_variable rest st tau idx =
     checked st
       (andalso (check_nonneg idx)
          (check_good_type (types (terms st)) tau))
       rest"

definition yices_application ::
  "(state \<Rightarrow> term_t \<times> state) \<Rightarrow> state \<Rightarrow> term_t \<Rightarrow> int \<Rightarrow> term_t list \<Rightarrow> term_t \<times> state" where
  "yices_application rest st f n arg =
     checked st
       (check_good_application (terms st) f (to_uint32 n) arg)
       rest"

definition yices_tuple ::
  "limits \<Rightarrow> (state \<Rightarrow> term_t \<times> state) \<Rightarrow> state \<Rightarrow> int \<Rightarrow> term_t list \<Rightarrow> term_t \<times> state" where
  "yices_tuple lm rest st n arg =
     checked st
       (andalso (check_positive (to_uint32 n))
          (andalso (check_arity lm (to_uint32 n))
          (check_good_terms (terms st) (to_uint32 n) arg)))
       rest"

definition yices_select ::
  "(state \<Rightarrow> term_t \<times> state) \<Rightarrow> state \<Rightarrow> int \<Rightarrow> term_t \<Rightarrow> term_t \<times> state" where
  "yices_select rest st idx tuple =
     checked st
       (check_good_select (terms st) (to_uint32 idx) tuple)
       rest"

definition yices_update ::
  "(state \<Rightarrow> term_t \<times> state) \<Rightarrow> state \<Rightarrow> term_t \<Rightarrow> int \<Rightarrow> term_t list \<Rightarrow> term_t \<Rightarrow> term_t \<times> state" where
  "yices_update rest st f n arg new_v =
     checked st
       (check_good_update (terms st) f (to_uint32 n) arg new_v)
       rest"

definition yices_tuple_update ::
  "(state \<Rightarrow> term_t \<times> state) \<Rightarrow> state \<Rightarrow> term_t \<Rightarrow> int \<Rightarrow> term_t \<Rightarrow> term_t \<times> state" where
  "yices_tuple_update rest st tuple idx new_v =
     checked st
       (check_good_tuple_update (terms st) (to_uint32 idx) tuple new_v)
       rest"

definition yices_add ::
  "(state \<Rightarrow> term_t \<times> state) \<Rightarrow> state \<Rightarrow> term_t \<Rightarrow> term_t \<Rightarrow> term_t \<times> state" where
  "yices_add rest st t1 t2 =
     checked st
       (check_both_arith_terms (terms st) t1 t2)
       rest"

definition yices_sub ::
  "(state \<Rightarrow> term_t \<times> state) \<Rightarrow> state \<Rightarrow> term_t \<Rightarrow> term_t \<Rightarrow> term_t \<times> state" where
  "yices_sub rest st t1 t2 =
     checked st
       (check_both_arith_terms (terms st) t1 t2)
       rest"

definition yices_neg ::
  "(state \<Rightarrow> term_t \<times> state) \<Rightarrow> state \<Rightarrow> term_t \<Rightarrow> term_t \<times> state" where
  "yices_neg rest st t1 =
     checked st
       (andalso (check_good_term (terms st) t1)
          (check_arith_term (terms st) t1))
       rest"

definition yices_mul ::
  "limits \<Rightarrow> (term_table \<Rightarrow> term_t \<Rightarrow> nat) \<Rightarrow> (state \<Rightarrow> term_t \<times> state) \<Rightarrow> state \<Rightarrow> term_t \<Rightarrow> term_t \<Rightarrow> term_t \<times> state" where
  "yices_mul lm term_degree rest st t1 t2 =
     checked st
       (andalso (check_both_arith_terms (terms st) t1 t2)
          (andalso (check_arith_term_degree lm term_degree (terms st) t1)
          (check_arith_term_degree lm term_degree (terms st) t2)))
       rest"

definition yices_square ::
  "limits \<Rightarrow> (term_table \<Rightarrow> term_t \<Rightarrow> nat) \<Rightarrow> (state \<Rightarrow> term_t \<times> state) \<Rightarrow> state \<Rightarrow> term_t \<Rightarrow> term_t \<times> state" where
  "yices_square lm term_degree rest st t1 =
     checked st
       (andalso (check_good_term (terms st) t1)
          (andalso (check_arith_term (terms st) t1)
          (check_arith_term_degree lm term_degree (terms st) t1)))
       rest"

definition yices_arithgeq_atom ::
  "(state \<Rightarrow> term_t \<times> state) \<Rightarrow> state \<Rightarrow> term_t \<Rightarrow> term_t \<Rightarrow> term_t \<times> state" where
  "yices_arithgeq_atom rest st t1 t2 =
     checked st
       (check_both_arith_terms (terms st) t1 t2)
       rest"

definition yices_arithlt_atom ::
  "(state \<Rightarrow> term_t \<times> state) \<Rightarrow> state \<Rightarrow> term_t \<Rightarrow> term_t \<Rightarrow> term_t \<times> state" where
  "yices_arithlt_atom rest st t1 t2 =
     checked st
       (check_both_arith_terms (terms st) t1 t2)
       rest"

definition yices_bvadd ::
  "(state \<Rightarrow> term_t \<times> state) \<Rightarrow> state \<Rightarrow> term_t \<Rightarrow> term_t \<Rightarrow> term_t \<times> state" where
  "yices_bvadd rest st t1 t2 =
     checked st
       (check_compatible_bv_terms (terms st) t1 t2)
       rest"

definition yices_bvsub ::
  "(state \<Rightarrow> term_t \<times> state) \<Rightarrow> state \<Rightarrow> term_t \<Rightarrow> term_t \<Rightarrow> term_t \<times> state" where
  "yices_bvsub rest st t1 t2 =
     checked st
       (check_compatible_bv_terms (terms st) t1 t2)
       rest"

definition yices_bvneg ::
  "(state \<Rightarrow> term_t \<times> state) \<Rightarrow> state \<Rightarrow> term_t \<Rightarrow> term_t \<times> state" where
  "yices_bvneg rest st t1 =
     checked st
       (andalso (check_good_term (terms st) t1)
          (check_bitvector_term (terms st) t1))
       rest"

definition yices_bvmul ::
  "limits \<Rightarrow> (term_table \<Rightarrow> term_t \<Rightarrow> nat) \<Rightarrow> (state \<Rightarrow> term_t \<times> state) \<Rightarrow> state \<Rightarrow> term_t \<Rightarrow> term_t \<Rightarrow> term_t \<times> state" where
  "yices_bvmul lm term_degree rest st t1 t2 =
     checked st
       (andalso (check_compatible_bv_terms (terms st) t1 t2)
          (andalso (check_bvterm_degree lm term_degree (terms st) t1)
          (check_bvterm_degree lm term_degree (terms st) t2)))
       rest"

definition yices_bvsquare ::
  "limits \<Rightarrow> (term_table \<Rightarrow> term_t \<Rightarrow> nat) \<Rightarrow> (state \<Rightarrow> term_t \<times> state) \<Rightarrow> state \<Rightarrow> term_t \<Rightarrow> term_t \<times> state" where
  "yices_bvsquare lm term_degree rest st t1 =
     checked st
       (andalso (check_good_term (terms st) t1)
          (andalso (check_bitvector_term (terms st) t1)
          (check_bvterm_degree lm term_degree (terms st) t1)))
       rest"

definition yices_bvnot ::
  "(state \<Rightarrow> term_t \<times> state) \<Rightarrow> state \<Rightarrow> term_t \<Rightarrow> term_t \<times> state" where
  "yices_bvnot rest st t1 =
     checked st
       (andalso (check_good_term (terms st) t1)
          (check_bitvector_term (terms st) t1))
       rest"

definition yices_bvand ::
  "(state \<Rightarrow> term_t \<times> state) \<Rightarrow> state \<Rightarrow> term_t \<Rightarrow> term_t \<Rightarrow> term_t \<times> state" where
  "yices_bvand rest st t1 t2 =
     checked st
       (check_compatible_bv_terms (terms st) t1 t2)
       rest"

definition yices_bvor ::
  "(state \<Rightarrow> term_t \<times> state) \<Rightarrow> state \<Rightarrow> term_t \<Rightarrow> term_t \<Rightarrow> term_t \<times> state" where
  "yices_bvor rest st t1 t2 =
     checked st
       (check_compatible_bv_terms (terms st) t1 t2)
       rest"

definition yices_bvxor ::
  "(state \<Rightarrow> term_t \<times> state) \<Rightarrow> state \<Rightarrow> term_t \<Rightarrow> term_t \<Rightarrow> term_t \<times> state" where
  "yices_bvxor rest st t1 t2 =
     checked st
       (check_compatible_bv_terms (terms st) t1 t2)
       rest"

definition yices_bvnand ::
  "(state \<Rightarrow> term_t \<times> state) \<Rightarrow> state \<Rightarrow> term_t \<Rightarrow> term_t \<Rightarrow> term_t \<times> state" where
  "yices_bvnand rest st t1 t2 =
     checked st
       (check_compatible_bv_terms (terms st) t1 t2)
       rest"

definition yices_bvnor ::
  "(state \<Rightarrow> term_t \<times> state) \<Rightarrow> state \<Rightarrow> term_t \<Rightarrow> term_t \<Rightarrow> term_t \<times> state" where
  "yices_bvnor rest st t1 t2 =
     checked st
       (check_compatible_bv_terms (terms st) t1 t2)
       rest"

definition yices_bvxnor ::
  "(state \<Rightarrow> term_t \<times> state) \<Rightarrow> state \<Rightarrow> term_t \<Rightarrow> term_t \<Rightarrow> term_t \<times> state" where
  "yices_bvxnor rest st t1 t2 =
     checked st
       (check_compatible_bv_terms (terms st) t1 t2)
       rest"

definition yices_shift_left0 ::
  "(state \<Rightarrow> term_t \<times> state) \<Rightarrow> state \<Rightarrow> term_t \<Rightarrow> int \<Rightarrow> term_t \<times> state" where
  "yices_shift_left0 rest st t n =
     checked st
       (andalso (check_good_term (terms st) t)
          (andalso (check_bitvector_term (terms st) t)
          (check_bitshift (to_uint32 n) (term_bitsize (terms st) t))))
       rest"

definition yices_shift_left1 ::
  "(state \<Rightarrow> term_t \<times> state) \<Rightarrow> state \<Rightarrow> term_t \<Rightarrow> int \<Rightarrow> term_t \<times> state" where
  "yices_shift_left1 rest st t n =
     checked st
       (andalso (check_good_term (terms st) t)
          (andalso (check_bitvector_term (terms st) t)
          (check_bitshift (to_uint32 n) (term_bitsize (terms st) t))))
       rest"

definition yices_shift_right0 ::
  "(state \<Rightarrow> term_t \<times> state) \<Rightarrow> state \<Rightarrow> term_t \<Rightarrow> int \<Rightarrow> term_t \<times> state" where
  "yices_shift_right0 rest st t n =
     checked st
       (andalso (check_good_term (terms st) t)
          (andalso (check_bitvector_term (terms st) t)
          (check_bitshift (to_uint32 n) (term_bitsize (terms st) t))))
       rest"

definition yices_shift_right1 ::
  "(state \<Rightarrow> term_t \<times> state) \<Rightarrow> state \<Rightarrow> term_t \<Rightarrow> int \<Rightarrow> term_t \<times> state" where
  "yices_shift_right1 rest st t n =
     checked st
       (andalso (check_good_term (terms st) t)
          (andalso (check_bitvector_term (terms st) t)
          (check_bitshift (to_uint32 n) (term_bitsize (terms st) t))))
       rest"

definition yices_ashift_right ::
  "(state \<Rightarrow> term_t \<times> state) \<Rightarrow> state \<Rightarrow> term_t \<Rightarrow> int \<Rightarrow> term_t \<times> state" where
  "yices_ashift_right rest st t n =
     checked st
       (andalso (check_good_term (terms st) t)
          (andalso (check_bitvector_term (terms st) t)
          (check_bitshift (to_uint32 n) (term_bitsize (terms st) t))))
       rest"

definition yices_rotate_left ::
  "(state \<Rightarrow> term_t \<times> state) \<Rightarrow> state \<Rightarrow> term_t \<Rightarrow> int \<Rightarrow> term_t \<times> state" where
  "yices_rotate_left rest st t n =
     checked st
       (andalso (check_good_term (terms st) t)
          (andalso (check_bitvector_term (terms st) t)
          (check_bitshift (to_uint32 n) (term_bitsize (terms st) t))))
       rest"

definition yices_rotate_right ::
  "(state \<Rightarrow> term_t \<times> state) \<Rightarrow> state \<Rightarrow> term_t \<Rightarrow> int \<Rightarrow> term_t \<times> state" where
  "yices_rotate_right rest st t n =
     checked st
       (andalso (check_good_term (terms st) t)
          (andalso (check_bitvector_term (terms st) t)
          (check_bitshift (to_uint32 n) (term_bitsize (terms st) t))))
       rest"

definition yices_bvextract ::
  "(state \<Rightarrow> term_t \<times> state) \<Rightarrow> state \<Rightarrow> term_t \<Rightarrow> int \<Rightarrow> int \<Rightarrow> term_t \<times> state" where
  "yices_bvextract rest st t i j =
     checked st
       (andalso (check_good_term (terms st) t)
          (andalso (check_bitvector_term (terms st) t)
          (check_bitextract (to_uint32 i) (to_uint32 j) (term_bitsize (terms st) t))))
       rest"

definition yices_bvconcat ::
  "(state \<Rightarrow> term_t \<times> state) \<Rightarrow> state \<Rightarrow> term_t \<Rightarrow> term_t \<Rightarrow> term_t \<times> state" where
  "yices_bvconcat rest st t1 t2 =
     checked st
       (andalso (check_good_term (terms st) t1)
          (andalso (check_good_term (terms st) t2)
          (andalso (check_bitvector_term (terms st) t1)
          (check_bitvector_term (terms st) t2))))
       rest"

definition yices_bvrepeat ::
  "(state \<Rightarrow> term_t \<times> state) \<Rightarrow> state \<Rightarrow> term_t \<Rightarrow> int \<Rightarrow> term_t \<times> state" where
  "yices_bvrepeat rest st t n =
     checked st
       (andalso (check_good_term (terms st) t)
          (andalso (check_bitvector_term (terms st) t)
          (check_positive (to_uint32 n))))
       rest"

definition yices_sign_extend ::
  "(state \<Rightarrow> term_t \<times> state) \<Rightarrow> state \<Rightarrow> term_t \<Rightarrow> int \<Rightarrow> term_t \<times> state" where
  "yices_sign_extend rest st t n =
     checked st
       (andalso (check_good_term (terms st) t)
          (andalso (check_bitvector_term (terms st) t)
          (check_nonneg n)))
       rest"

definition yices_zero_extend ::
  "(state \<Rightarrow> term_t \<times> state) \<Rightarrow> state \<Rightarrow> term_t \<Rightarrow> int \<Rightarrow> term_t \<times> state" where
  "yices_zero_extend rest st t n =
     checked st
       (andalso (check_good_term (terms st) t)
          (andalso (check_bitvector_term (terms st) t)
          (check_nonneg n)))
       rest"

definition yices_redand ::
  "(state \<Rightarrow> term_t \<times> state) \<Rightarrow> state \<Rightarrow> term_t \<Rightarrow> term_t \<times> state" where
  "yices_redand rest st t =
     checked st
       (andalso (check_good_term (terms st) t)
          (check_bitvector_term (terms st) t))
       rest"

definition yices_redor ::
  "(state \<Rightarrow> term_t \<times> state) \<Rightarrow> state \<Rightarrow> term_t \<Rightarrow> term_t \<times> state" where
  "yices_redor rest st t =
     checked st
       (andalso (check_good_term (terms st) t)
          (check_bitvector_term (terms st) t))
       rest"

definition yices_redcomp ::
  "(state \<Rightarrow> term_t \<times> state) \<Rightarrow> state \<Rightarrow> term_t \<Rightarrow> term_t \<Rightarrow> term_t \<times> state" where
  "yices_redcomp rest st t1 t2 =
     checked st
       (check_compatible_bv_terms (terms st) t1 t2)
       rest"

definition yices_bvge_atom ::
  "(state \<Rightarrow> term_t \<times> state) \<Rightarrow> state \<Rightarrow> term_t \<Rightarrow> term_t \<Rightarrow> term_t \<times> state" where
  "yices_bvge_atom rest st t1 t2 =
     checked st
       (check_compatible_bv_terms (terms st) t1 t2)
       rest"

definition yices_bvgt_atom ::
  "(state \<Rightarrow> term_t \<times> state) \<Rightarrow> state \<Rightarrow> term_t \<Rightarrow> term_t \<Rightarrow> term_t \<times> state" where
  "yices_bvgt_atom rest st t1 t2 =
     checked st
       (check_compatible_bv_terms (terms st) t1 t2)
       rest"

definition yices_bvsge_atom ::
  "(state \<Rightarrow> term_t \<times> state) \<Rightarrow> state \<Rightarrow> term_t \<Rightarrow> term_t \<Rightarrow> term_t \<times> state" where
  "yices_bvsge_atom rest st t1 t2 =
     checked st
       (check_compatible_bv_terms (terms st) t1 t2)
       rest"

definition yices_bvsgt_atom ::
  "(state \<Rightarrow> term_t \<times> state) \<Rightarrow> state \<Rightarrow> term_t \<Rightarrow> term_t \<Rightarrow> term_t \<times> state" where
  "yices_bvsgt_atom rest st t1 t2 =
     checked st
       (check_compatible_bv_terms (terms st) t1 t2)
       rest"

text \<open>The constructors that call another one with the arguments swapped.\<close>

definition yices_arithgt_atom :: "(state \<Rightarrow> term_t \<times> state) \<Rightarrow> state \<Rightarrow> term_t \<Rightarrow> term_t \<Rightarrow> term_t \<times> state" where
  "yices_arithgt_atom rest st t1 t2 = yices_arithlt_atom rest st t2 t1"

definition yices_arithleq_atom :: "(state \<Rightarrow> term_t \<times> state) \<Rightarrow> state \<Rightarrow> term_t \<Rightarrow> term_t \<Rightarrow> term_t \<times> state" where
  "yices_arithleq_atom rest st t1 t2 = yices_arithgeq_atom rest st t2 t1"

definition yices_bvle_atom :: "(state \<Rightarrow> term_t \<times> state) \<Rightarrow> state \<Rightarrow> term_t \<Rightarrow> term_t \<Rightarrow> term_t \<times> state" where
  "yices_bvle_atom rest st t1 t2 = yices_bvge_atom rest st t2 t1"

definition yices_bvlt_atom :: "(state \<Rightarrow> term_t \<times> state) \<Rightarrow> state \<Rightarrow> term_t \<Rightarrow> term_t \<Rightarrow> term_t \<times> state" where
  "yices_bvlt_atom rest st t1 t2 = yices_bvgt_atom rest st t2 t1"

definition yices_bvsle_atom :: "(state \<Rightarrow> term_t \<times> state) \<Rightarrow> state \<Rightarrow> term_t \<Rightarrow> term_t \<Rightarrow> term_t \<times> state" where
  "yices_bvsle_atom rest st t1 t2 = yices_bvsge_atom rest st t2 t1"

definition yices_bvslt_atom :: "(state \<Rightarrow> term_t \<times> state) \<Rightarrow> state \<Rightarrow> term_t \<Rightarrow> term_t \<Rightarrow> term_t \<times> state" where
  "yices_bvslt_atom rest st t1 t2 = yices_bvsgt_atom rest st t2 t1"

text \<open>
  \<open>yices_forall\<close> and \<open>yices_exists\<close> sort the array \<open>var\<close> of the caller before the
  check; the statements that follow the check get the sorted array.
\<close>

definition yices_forall ::
  "limits \<Rightarrow> (term_t list \<Rightarrow> state \<Rightarrow> term_t \<times> state) \<Rightarrow> state \<Rightarrow> int \<Rightarrow> term_t list \<Rightarrow> term_t
     \<Rightarrow> term_t \<times> state" where
  "yices_forall lm rest st n var body =
     (let var1 = (if n > 1 then sort (take (nat n) var) @ drop (nat n) var else var)
      in checked st (check_good_quantified_term lm (terms st) (to_uint32 n) var1 body)
           (rest var1))"

definition yices_exists ::
  "limits \<Rightarrow> (term_t list \<Rightarrow> state \<Rightarrow> term_t \<times> state) \<Rightarrow> state \<Rightarrow> int \<Rightarrow> term_t list \<Rightarrow> term_t
     \<Rightarrow> term_t \<times> state" where
  "yices_exists lm rest st n var body =
     (let var1 = (if n > 1 then sort (take (nat n) var) @ drop (nat n) var else var)
      in checked st (check_good_quantified_term lm (terms st) (to_uint32 n) var1 body)
           (rest var1))"

text \<open>The constructors whose statements after the checks are in src.\<close>

definition yices_new_uninterpreted_term :: "state \<Rightarrow> type_t \<Rightarrow> term_t \<times> state" where
  "yices_new_uninterpreted_term st tau =
     checked st (check_good_type (types (terms st)) tau)
       (\<lambda>st. on_terms st (\<lambda>tbl. new_uninterpreted_term tbl tau))"

definition yices_aritheq_atom :: "state \<Rightarrow> term_t \<Rightarrow> term_t \<Rightarrow> term_t \<times> state" where
  "yices_aritheq_atom st t1 t2 =
     checked st (check_both_arith_terms (terms st) t1 t2) (\<lambda>st. mk_aritheq st t1 t2)"

definition yices_arithneq_atom :: "state \<Rightarrow> term_t \<Rightarrow> term_t \<Rightarrow> term_t \<times> state" where
  "yices_arithneq_atom st t1 t2 =
     checked st (check_both_arith_terms (terms st) t1 t2)
       (\<lambda>st. let (t, st1) = mk_aritheq st t1 t2 in (mk_not (terms st1) t, st1))"

definition yices_bvconst_term :: "state \<Rightarrow> nat \<Rightarrow> 32 word list \<Rightarrow> term_t \<times> state" where
  "yices_bvconst_term st n bv =
     (if n = 0 then (NULL_TERM, st\<lparr>error := (error st)\<lparr>code := EMPTY_BITVECTOR\<rparr>\<rparr>)
      else on_terms st (\<lambda>tbl. bvconst_term tbl n bv))"

text \<open>\<open>yices_bvconstant\<close>: the constant \<open>a\<close> is its \<open>bitsize\<close> and its \<open>data\<close>.\<close>

definition yices_bvconstant :: "state \<Rightarrow> nat \<times> 32 word list \<Rightarrow> term_t \<times> state" where
  "yices_bvconstant st a = yices_bvconst_term st (fst a) (snd a)"

definition yices_bvoperator :: "state \<Rightarrow> bvop \<Rightarrow> term_t \<Rightarrow> term_t \<Rightarrow> term_t \<times> state" where
  "yices_bvoperator st op t1 t2 =
     checked st (check_compatible_bv_terms (terms st) t1 t2)
       (\<lambda>st. on_terms st (\<lambda>tbl. bvapply_term tbl op t1 t2))"

definition yices_bvdiv :: "state \<Rightarrow> term_t \<Rightarrow> term_t \<Rightarrow> term_t \<times> state" where
  "yices_bvdiv st t1 t2 = yices_bvoperator st BVOP_DIV t1 t2"

definition yices_bvrem :: "state \<Rightarrow> term_t \<Rightarrow> term_t \<Rightarrow> term_t \<times> state" where
  "yices_bvrem st t1 t2 = yices_bvoperator st BVOP_REM t1 t2"

definition yices_bvsdiv :: "state \<Rightarrow> term_t \<Rightarrow> term_t \<Rightarrow> term_t \<times> state" where
  "yices_bvsdiv st t1 t2 = yices_bvoperator st BVOP_SDIV t1 t2"

definition yices_bvsrem :: "state \<Rightarrow> term_t \<Rightarrow> term_t \<Rightarrow> term_t \<times> state" where
  "yices_bvsrem st t1 t2 = yices_bvoperator st BVOP_SREM t1 t2"

definition yices_bvsmod :: "state \<Rightarrow> term_t \<Rightarrow> term_t \<Rightarrow> term_t \<times> state" where
  "yices_bvsmod st t1 t2 = yices_bvoperator st BVOP_SMOD t1 t2"

definition yices_bveq_atom :: "compare_lib \<Rightarrow> state \<Rightarrow> term_t \<Rightarrow> term_t \<Rightarrow> term_t \<times> state" where
  "yices_bveq_atom orc st t1 t2 =
     checked st (check_compatible_bv_terms (terms st) t1 t2) (\<lambda>st. mk_bveq orc st t1 t2)"

definition yices_bvneq_atom :: "compare_lib \<Rightarrow> state \<Rightarrow> term_t \<Rightarrow> term_t \<Rightarrow> term_t \<times> state" where
  "yices_bvneq_atom orc st t1 t2 =
     checked st (check_compatible_bv_terms (terms st) t1 t2) (\<lambda>st. mk_bvneq orc st t1 t2)"

text \<open>
  What a failed validation is: the call returns \<open>NULL_TERM\<close>, the error report has an
  error code, and the rest of the state (the term table with its type table, the
  internal buffers) is what it was before the call. \<open>validates bad st rest r\<close> says
  of the result \<open>r\<close> of a constructor called in \<open>st\<close>: when \<open>bad\<close> holds the
  validation fails; and in any case either the validation fails or \<open>r\<close> is the
  result of the statements that follow the checks, started in \<open>st\<close> itself.
\<close>

definition failed :: "state \<Rightarrow> term_t \<times> state \<Rightarrow> bool" where
  "failed st r =
     (fst r = NULL_TERM \<and> code (error (snd r)) \<noteq> NO_ERROR
      \<and> snd r = st\<lparr>error := error (snd r)\<rparr>)"

definition failed_opt :: "state \<Rightarrow> (term_t \<times> state) option \<Rightarrow> bool" where
  "failed_opt st ro = (case ro of None \<Rightarrow> False | Some r \<Rightarrow> failed st r)"

definition validates ::
  "bool \<Rightarrow> state \<Rightarrow> (state \<Rightarrow> term_t \<times> state) \<Rightarrow> term_t \<times> state \<Rightarrow> bool" where
  "validates bad st rest r = ((bad \<longrightarrow> failed st r) \<and> (failed st r \<or> r = rest st))"

text \<open>
  A check is well behaved when its answer does not depend on the error report it
  starts from, it leaves the report as it is when it passes, and writes an error
  code when it fails; it always fails when it does so from every report.
\<close>

definition wf_check :: "check \<Rightarrow> bool" where
  "wf_check c =
     ((\<forall>e. c e = (True, e)) \<or> (\<forall>e. \<not> fst (c e) \<and> code (snd (c e)) \<noteq> NO_ERROR))"

definition always_fails :: "check \<Rightarrow> bool" where
  "always_fails c = (\<forall>e. \<not> fst (c e))"

section \<open>Theorems: buffer pool\<close>

lemma map_of_store_remove:
  "map_of (store_remove a s) b = (if a = b then None else map_of s b)"
  by (induction s) auto

lemma chain_store_remove:
  "x \<notin> set xs \<Longrightarrow> chain s a xs e \<Longrightarrow> chain (store_remove x s) a xs e"
proof (induction xs arbitrary: a)
  case Nil
  then show ?case by simp
next
  case (Cons y ys)
  then show ?case
    by (auto simp: map_of_store_remove split: option.splits)
qed

lemma free_elems_reaches_header:
  assumes "chain s a xs bvarith64_buffer_list"
    and "distinct xs"
    and "list_all (\<lambda>x. \<not> static_header x) xs"
    and "map_of s bvarith64_buffer_list = Some h"
  shows "free_elems bvarith_buffer_list s a = Inl (Invalid_free bvarith64_buffer_list)"
  using assms
proof (induction xs arbitrary: s a)
  case Nil
  then have a: "a = bvarith64_buffer_list" by simp
  have ne: "bvarith64_buffer_list \<noteq> bvarith_buffer_list"
    by (simp add: bvarith64_buffer_list_def bvarith_buffer_list_def)
  have st: "static_header bvarith64_buffer_list"
    by (simp add: static_header_def)
  show ?case
    unfolding a
    by (subst free_elems.simps) (simp add: Nil.prems(4) ne st)
next
  case (Cons x xs)
  from Cons.prems(1) obtain l where l: "map_of s x = Some l" and a: "a = x"
    and ch: "chain s (nxt l) xs bvarith64_buffer_list"
    by (auto split: option.splits)
  from Cons.prems(3) have nx: "\<not> static_header x" by simp
  then have ne: "x \<noteq> bvarith_buffer_list" and ne64: "x \<noteq> bvarith64_buffer_list"
    by (auto simp: static_header_def)
  from Cons.prems(2) have xx: "x \<notin> set xs" and dx: "distinct xs" by auto
  have ch': "chain (store_remove x s) (nxt l) xs bvarith64_buffer_list"
    using chain_store_remove [OF xx ch] .
  have h': "map_of (store_remove x s) bvarith64_buffer_list = Some h"
    using Cons.prems(4) ne64 by (simp add: map_of_store_remove)
  have la: "list_all (\<lambda>x. \<not> static_header x) xs" using Cons.prems(3) by simp
  have step: "free_elems bvarith_buffer_list s a
      = free_elems bvarith_buffer_list (store_remove x s) (nxt l)"
    unfolding a by (subst free_elems.simps) (simp add: l nx ne)
  show ?case
    unfolding step using Cons.IH [OF ch' dx la h'] .
qed

text \<open>
  C2 (as the code behaves). The claim asks that \<open>free_bvarith64_buffer_list\<close> terminates,
  frees every element and leaves the list empty. On every well-formed 64-bit list
  (any number of elements, none included) the loop walks past the last element to
  the list's own header, which is not the sentinel \<open>&bvarith_buffer_list\<close> it is
  compared with, and hands that static header to \<open>delete_bvarith64_buffer\<close> and
  \<open>safe_free\<close>: the function never returns normally.
\<close>

theorem free_bvarith64_buffer_list_faults:
  assumes "ring64 s xs"
  shows "free_bvarith64_buffer_list s = Inl (Invalid_free bvarith64_buffer_list)"
proof -
  from assms obtain h where h: "map_of s bvarith64_buffer_list = Some h"
    and ch: "chain s (nxt h) xs bvarith64_buffer_list"
    and d: "distinct xs" and la: "list_all (\<lambda>x. \<not> static_header x) xs"
    by (auto simp: ring64_def split: option.splits)
  have "free_elems bvarith_buffer_list s (nxt h) = Inl (Invalid_free bvarith64_buffer_list)"
    using free_elems_reaches_header [OF ch d la h] .
  then show ?thesis
    by (simp add: free_bvarith64_buffer_list_def free_list_with_def h)
qed

text \<open>Witness: the pool right after \<open>yices_init\<close>, whose 64-bit list is empty.\<close>

theorem free_bvarith64_buffer_list_faults_witness:
  "ring64 yices_init_lists []
   \<and> free_bvarith64_buffer_list yices_init_lists = Inl (Invalid_free bvarith64_buffer_list)"
proof -
  have r: "ring64 yices_init_lists []"
    by (simp add: ring64_def yices_init_lists_def clear_list_def arith_buffer_list_def
        bvarith_buffer_list_def bvarith64_buffer_list_def bvlogic_buffer_list_def)
  show ?thesis using r free_bvarith64_buffer_list_faults [OF r] by simp
qed


section \<open>Lemmas: polarity, tables and checks\<close>

lemma opposite_term_neq [simp]: "opposite_term t \<noteq> t" "t \<noteq> opposite_term t"
  by (auto simp: opposite_term_def)

lemma opposite_opposite [simp]: "opposite_term (opposite_term t) = t"
  unfolding opposite_term_def by presburger

lemma index_of_opposite [simp]: "index_of (opposite_term t) = index_of t"
  unfolding opposite_term_def index_of_def by presburger

lemma is_neg_opposite [simp]: "is_neg_term (opposite_term t) = (\<not> is_neg_term t)"
  unfolding opposite_term_def is_neg_term_def by presburger

lemma is_pos_neg: "is_pos_term t = (\<not> is_neg_term t)"
  unfolding is_pos_term_def is_neg_term_def by presburger

lemma opposite_sign: "0 \<le> t \<Longrightarrow> 0 \<le> opposite_term t"
  unfolding opposite_term_def by presburger

lemma opposite_sign_iff [simp]: "(0 \<le> opposite_term t) = (0 \<le> t)"
  unfolding opposite_term_def by presburger

lemma desc_of_opposite [simp]: "desc_of tbl (opposite_term t) = desc_of tbl t"
  by (simp add: desc_of_def)

lemma term_type_opposite [simp]: "term_type tbl (opposite_term t) = term_type tbl t"
  by (simp add: term_type_def)

lemma is_boolean_opposite [simp]: "is_boolean_term tbl (opposite_term t) = is_boolean_term tbl t"
  by (simp add: is_boolean_term_def)

lemma good_term_opposite:
  "is_boolean_term tbl t \<Longrightarrow> good_term tbl (opposite_term t) = good_term tbl t"
  by (auto simp: good_term_def is_boolean_term_def)

lemma term_kind_opposite: "term_kind tbl (opposite_term t) = term_kind tbl t"
  by (simp add: term_kind_def)

lemma term_kind_good: "good_term tbl t \<Longrightarrow> term_kind tbl t \<noteq> NOT_TERM"
  by (simp add: term_kind_def good_term_def)

lemma true_false_terms [simp]:
  "opposite_term (true_term tbl) = false_term tbl"
  "opposite_term (false_term tbl) = true_term tbl"
  "true_term tbl \<noteq> false_term tbl"
  by (simp_all add: opposite_term_def true_term_def false_term_def)

lemma bool_negate_opposite: "bool_negate tbl x = opposite_term x"
  by (simp add: bool_negate_def not_term_def not_term_arg_def)

lemma mk_not_opposite: "mk_not tbl x = opposite_term x"
  by (auto simp: mk_not_def bool_negate_opposite)

lemma checked_pass: "c (error st) = (True, error st) \<Longrightarrow> checked st c body = body st"
  by (simp add: checked_def)

lemma check_good_term_pass: "good_term tbl t \<Longrightarrow> check_good_term tbl t e = (True, e)"
  by (simp add: check_good_term_def bad_term_def)

lemma check_boolean_term_pass: "is_boolean_term tbl t \<Longrightarrow> check_boolean_term tbl t e = (True, e)"
  by (simp add: check_boolean_term_def)


lemmas ex_defs = example_state_def example_terms_def example_types_def init_term_table_def
  init_type_table_def mk_desc_def prim_type_def no_error_report_def example_limits_def
  no_compare_def

lemmas tbl_defs = desc_of_def index_of_def term_type_def term_kind_def is_neg_term_def
  is_pos_term_def good_term_def bad_term_def is_boolean_term_def is_arithmetic_term_def
  is_bitvector_term_def bool_type_def int_type_def real_type_def type_kind_def
  type_desc_of_def true_term_def false_term_def opposite_term_def unused_term_desc_def
  unused_type_desc_def NULL_TERM_def NULL_TYPE_def not_term_def not_term_arg_def
  hash_cons_def pos_term_def scalar_type_cardinal_def bv_type_size_def term_bitsize_def


section \<open>Theorems: conversion of bvlogic buffers to terms\<close>

lemma abort_unique: "(a::abort) = Assertion_failed"
  by (cases a) simp

text \<open>
  C1 (as the code behaves). The claim asks that \<open>bvlogic_buffer_get_term\<close> return the
  term it has constructed. Whatever the buffer library and the table are, a call
  that does not stop at an assertion returns the bitsize \<open>n\<close> of the buffer as its
  term handle: the term \<open>t\<close> built in the three branches is used by the assertion
  only.
\<close>

theorem bvlogic_buffer_get_term_returns_bitsize:
  "(case bvlogic_buffer_get_term lib tbl b of
      Inl a \<Rightarrow> a = Assertion_failed
    | Inr (r, tbl', b') \<Rightarrow> r = int (bitsize b))"
  by (auto simp: bvlogic_buffer_get_term_def Let_def abort_unique
      split: sum.splits if_splits prod.splits)

text \<open>
  At a concrete input: the 8-bit buffer holding the constant 1, on the initial table.
  The constant term is built at index 2 (handle 4) with the new type 3 of 8-bit
  vectors; the handle returned is 8.
\<close>

lemma bvlogic_buffer_get_term_constant_8:
  "bvlogic_buffer_get_term term_bits_lib init_term_table
     \<lparr>bitsize = 8, bit = [2, 3, 3, 3, 3, 3, 3, 3]\<rparr>
   = Inr (8,
          \<lparr>types = init_type_table @ [\<lparr>tkind = BITVECTOR_TYPE, tsize = 8, telem = [], trange = - 1\<rparr>],
           desc = desc init_term_table @ [mk_desc BV64_CONSTANT 3 [] [8, 1]]\<rparr>,
          \<lparr>bitsize = 0, bit = []\<rparr>)"
  by (simp add: bvlogic_buffer_get_term_def term_bits_lib_def bv64_constant_def bv_type_def
      intern_type_def hash_cons_def init_term_table_def init_type_table_def prim_type_def
      mk_desc_def is_bitvector_term_def term_bitsize_def term_type_def desc_of_def
      index_of_def pos_term_def type_kind_def type_desc_of_def bv_type_size_def)

lemma bv64_constant_8_handle:
  "fst (bv64_constant init_term_table 8 1) = 4"
  by (simp add: bv64_constant_def bv_type_def intern_type_def hash_cons_def init_term_table_def
      init_type_table_def prim_type_def mk_desc_def pos_term_def)

theorem bvlogic_buffer_get_term_returns_bitsize_witness:
  "(case bvlogic_buffer_get_term term_bits_lib init_term_table
           \<lparr>bitsize = 8, bit = [2, 3, 3, 3, 3, 3, 3, 3]\<rparr> of
      Inl a \<Rightarrow> False
    | Inr (r, tbl', b') \<Rightarrow> r = 8)
   \<and> fst (bv64_constant init_term_table 8 1) = 4"
  using bvlogic_buffer_get_term_returns_bitsize
          [where lib = term_bits_lib and tbl = init_term_table
             and b = "\<lparr>bitsize = 8, bit = [2, 3, 3, 3, 3, 3, 3, 3]\<rparr>"]
  by (simp add: bvlogic_buffer_get_term_constant_8 bv64_constant_8_handle)


section \<open>Lemmas: boolean constructors\<close>

lemma opposite_eq_iff: "(x = opposite_term y) = (opposite_term x = y)"
  by (metis opposite_opposite)

lemma opposite_inj [simp]: "(opposite_term x = opposite_term y) = (x = y)"
  by (metis opposite_opposite)

lemma opp_numeral [simp]:
  "(opposite_term c = 2) = (c = 3)" "(opposite_term c = 3) = (c = 2)"
  "opposite_term 2 = 3" "opposite_term 3 = 2"
  unfolding opposite_term_def by presburger+

lemmas tf = true_term_def false_term_def

text \<open>
  No valid reference has the kind \<open>NOT_TERM\<close>, so the test of \<open>opposite_bool_terms\<close>
  fails on every pair of valid terms, and \<open>not_bool_var\<close> on every valid term.
\<close>

lemma opposite_bool_terms_good:
  "good_term tbl x \<Longrightarrow> good_term tbl y \<Longrightarrow> \<not> opposite_bool_terms tbl x y"
  by (simp add: opposite_bool_terms_def term_kind_good)

lemma not_bool_var_good: "good_term tbl x \<Longrightarrow> \<not> not_bool_var tbl x"
  by (simp add: not_bool_var_def term_kind_good)

section \<open>Theorems: boolean constructors\<close>

lemma andalso_True: "c1 e = (True, e) \<Longrightarrow> andalso c1 c2 e = c2 e"
  by (simp add: andalso_def)

text \<open>
  C10. The n-ary connectives accept the empty argument list: with \<open>n = 0\<close> all four
  checks pass, whatever the arity limit, the array and the state are; \<open>yices_or\<close>
  returns the false term and \<open>yices_and\<close> the true term, and the state, the error
  report included, is unchanged.
\<close>

theorem yices_or_and_empty:
  "yices_or lm st 0 arg = (false_term (terms st), st)
   \<and> yices_and lm st 0 arg = (true_term (terms st), st)"
  by (simp add: yices_or_def yices_and_def checked_def andalso_def check_nonneg_def
      check_arity_def check_good_terms_def check_boolean_args_def to_uint32_def)

text \<open>The only arity error is \<open>n\<close> over the limit.\<close>

lemma yices_or_too_many:
  "0 \<le> n \<Longrightarrow> n < 4294967296 \<Longrightarrow> nat n > YICES_MAX_ARITY lm \<Longrightarrow>
   yices_or lm st n arg
     = (NULL_TERM, st\<lparr>error := (error st)\<lparr>code := TOO_MANY_ARGUMENTS, badval := n\<rparr>\<rparr>)"
  by (simp add: yices_or_def checked_def andalso_def check_nonneg_def check_arity_def
      to_uint32_def)


text \<open>
  C4. For every valid boolean term \<open>t\<close>, \<open>yices_not\<close> returns the reference of
  opposite polarity to the same index, and the state (the term table in it) is the
  one it was called in: no node is allocated. The computation is the two checks and
  the flip of the polarity bit, with no traversal of the term.
\<close>

theorem yices_not_flips_polarity:
  assumes "good_term (terms st) t" and "is_boolean_term (terms st) t"
  shows "yices_not st t = (opposite_term t, st)
         \<and> index_of (opposite_term t) = index_of t
         \<and> is_neg_term (opposite_term t) = (\<not> is_neg_term t)"
  using assms
  by (simp add: yices_not_def checked_def andalso_def check_good_term_pass
      check_boolean_term_pass mk_not_opposite)

theorem yices_not_flips_polarity_witness:
  "good_term (terms yices_init) 2 \<and> is_boolean_term (terms yices_init) 2
   \<and> yices_not yices_init 2 = (3, yices_init)
   \<and> index_of 3 = index_of 2 \<and> is_neg_term 3 \<and> \<not> is_neg_term 2"
proof -
  have g: "good_term (terms yices_init) 2"
    by (simp add: yices_init_def init_term_table_def good_term_def desc_of_def index_of_def
        mk_desc_def is_pos_term_def)
  have b: "is_boolean_term (terms yices_init) 2"
    by (simp add: yices_init_def init_term_table_def is_boolean_term_def term_type_def
        desc_of_def index_of_def mk_desc_def bool_type_def)
  have o: "opposite_term 2 = 3" by (simp add: opposite_term_def)
  show ?thesis
    using g b yices_not_flips_polarity [OF g b] by (simp add: o is_neg_term_def)
qed

section \<open>Theorems: equality and if-then-else\<close>

lemma coeff_in_append: "coeff_in (a @ b) v = coeff_in a v + coeff_in b v"
  by (simp add: coeff_in_def)

lemma coeff_in_neg: "coeff_in (map (\<lambda>p. (fst p, - snd p)) m) v = - coeff_in m v"
  by (induction m) (auto simp: coeff_in_def)

lemma normalize_zero:
  assumes "\<And>v. coeff_in b v = 0"
  shows "arith_buffer_normalize b = []"
  using assms by (simp add: arith_buffer_normalize_def filter_empty_conv)

lemma arith_diff_same: "arith_buffer_normalize (arith_sub tbl (arith_add tbl [] t) t) = []"
proof (rule normalize_zero)
  fix v
  show "coeff_in (arith_sub tbl (arith_add tbl [] t) t) v = 0"
    by (simp add: arith_sub_def arith_add_def arith_buffer_add_monarray_def
        arith_buffer_sub_monarray_def arith_buffer_add_var_def arith_buffer_sub_var_def
        coeff_in_append coeff_in_neg)
       (simp add: coeff_in_def)
qed

lemma mk_arith_diff_fields:
  "internal_arith_buffer (mk_arith_diff st t1 t2)
     = Some (arith_sub (terms st) (arith_add (terms st) [] t1) t2)"
  "terms (mk_arith_diff st t1 t2) = terms st"
  "error (mk_arith_diff st t1 t2) = error st"
  by (simp_all add: mk_arith_diff_def get_internal_arith_buffer_def arith_buffer_reset_def
      split: option.splits)

lemma eq0_diff_same:
  "\<exists>st'. yices_arith_eq0_atom (mk_arith_diff st t t) = (true_term (terms st), st')
         \<and> terms st' = terms st \<and> error st' = error st"
  unfolding yices_arith_eq0_atom_def mk_arith_diff_fields
  by (simp add: arith_diff_same arith_buffer_is_zero_def mk_arith_diff_fields)

lemma mk_aritheq_same:
  "\<exists>st'. mk_aritheq st t t = (true_term (terms st), st') \<and> terms st' = terms st
         \<and> error st' = error st"
proof (cases "check_for_lift_if (terms st) t t")
  case None
  then show ?thesis using eq0_diff_same [of st t] by (simp add: mk_aritheq_def)
next
  case (Some tmp)
  then have l: "left2 tmp = left1 tmp" and r: "right2 tmp = right1 tmp"
    by (auto simp: check_for_lift_if_def split: if_splits)
  obtain st1 where 1: "yices_arith_eq0_atom (mk_arith_diff st (left1 tmp) (left1 tmp))
      = (true_term (terms st), st1)" and t1: "terms st1 = terms st" and e1: "error st1 = error st"
    using eq0_diff_same [of st "left1 tmp"] by blast
  obtain st2 where 2: "yices_arith_eq0_atom (mk_arith_diff st1 (right1 tmp) (right1 tmp))
      = (true_term (terms st1), st2)" and t2: "terms st2 = terms st1" and e2: "error st2 = error st1"
    using eq0_diff_same [of st1 "right1 tmp"] by blast
  show ?thesis
    using Some
    by (simp add: mk_aritheq_def mk_lifted_aritheq_def l r 1 2 t1 t2 e1 e2 on_terms_def
        mk_bool_ite_def tf)
qed

lemma check_good_eq_same:
  assumes "good_term tbl t" and "term_type tbl t \<noteq> NULL_TYPE"
  shows "check_good_eq tbl t t e = (True, e)"
  using assms
  by (simp add: check_good_eq_def andalso_def check_good_term_pass check_compatible_terms_def
      compatible_types_def super_type_def)

text \<open>
  C9. Equality is reflexive: for every valid term \<open>t\<close>, of any type of the table,
  \<open>yices_eq(t, t)\<close> returns the true term, whatever the depth bound \<open>k\<close> of the
  disequality check and the comparison library are, and it leaves the term table and
  the error report as they were. For an arithmetic \<open>t\<close> the result comes from
  \<open>mk_aritheq\<close>: either the difference \<open>t - t\<close> normalizes to the zero polynomial,
  or \<open>t\<close> is an if-then-else term, \<open>check_for_lift_if\<close> splits it, and both
  branches of the lifted equality are the true term.
\<close>

theorem yices_eq_reflexive:
  assumes "good_term (terms st) t" and "term_type (terms st) t \<noteq> NULL_TYPE"
  shows "\<exists>st'. yices_eq k orc st t t = Some (true_term (terms st), st')
               \<and> terms st' = terms st \<and> error st' = error st"
proof -
  have c: "check_good_eq (terms st) t t (error st) = (True, error st)"
    using assms by (rule check_good_eq_same)
  have s: "st\<lparr>error := error st\<rparr> = st" by simp
  show ?thesis
    using mk_aritheq_same [of st t]
    by (auto simp: yices_eq_def c s on_terms_def mk_iff_def mk_bveq_def)
qed

theorem yices_eq_reflexive_witness:
  "good_term (terms example_state) 12 \<and> term_type (terms example_state) 12 \<noteq> NULL_TYPE
   \<and> term_kind (terms example_state) 12 = ITE_TERM
   \<and> (\<exists>st'. yices_eq 0 no_compare example_state 12 12 = Some (2, st'))"
proof -
  have g: "good_term (terms example_state) 12" by (simp add: ex_defs tbl_defs)
  have t: "term_type (terms example_state) 12 \<noteq> NULL_TYPE" by (simp add: ex_defs tbl_defs)
  have k: "term_kind (terms example_state) 12 = ITE_TERM" by (simp add: ex_defs tbl_defs)
  show ?thesis
    using g t k yices_eq_reflexive [OF g t, of 0 no_compare]
    by (auto simp: true_term_def)
qed


section \<open>Polarity normalization (invariant T-4)\<close>

text \<open>
  Hash-consing returns a reference of positive polarity to an index that holds the
  descriptor.
\<close>

lemma desc_index_correct:
  "desc_index xs d i = Some j \<Longrightarrow> i \<le> j \<and> j - i < length xs \<and> xs ! (j - i) = d"
proof (induction xs arbitrary: i)
  case Nil
  then show ?case by simp
next
  case (Cons x xs)
  show ?case
  proof (cases "x = d")
    case True
    with Cons.prems show ?thesis by simp
  next
    case False
    with Cons.prems have "desc_index xs d (Suc i) = Some j" by simp
    from Cons.IH [OF this]
    have a: "Suc i \<le> j" "j - Suc i < length xs" "xs ! (j - Suc i) = d" by simp_all
    from a(1) have e: "j - i = Suc (j - Suc i)" by arith
    show ?thesis using a by (simp add: e)
  qed
qed

lemma hash_cons_desc: "desc_of (snd (hash_cons tbl d)) (fst (hash_cons tbl d)) = d"
proof (cases "desc_index (desc tbl) d 0")
  case None
  then show ?thesis by (simp add: hash_cons_def desc_of_def index_of_def pos_term_def)
next
  case (Some j)
  from desc_index_correct [OF this] show ?thesis
    using Some by (simp add: hash_cons_def desc_of_def index_of_def pos_term_def)
qed

lemma hash_cons_mem: "d \<in> set (desc (snd (hash_cons tbl d)))"
proof (cases "desc_index (desc tbl) d 0")
  case None
  then show ?thesis by (simp add: hash_cons_def)
next
  case (Some j)
  from desc_index_correct [OF this] show ?thesis
    using Some by (auto simp: hash_cons_def)
qed

lemma pos_term_neq_false: "pos_term i \<noteq> false_term tbl"
  unfolding pos_term_def false_term_def by presburger

lemma hash_cons_pos: "fst (hash_cons tbl d) \<noteq> false_term tbl'"
  by (simp add: hash_cons_def pos_term_neq_false split: option.splits)

lemma ite_term_negated:
  assumes "is_neg_term c"
  shows "\<not> ite_conds_positive (snd (ite_term tbl c t e tau))"
proof -
  let ?d = "mk_desc ITE_TERM tau [c, t, e] []"
  have "?d \<in> set (desc (snd (ite_term tbl c t e tau)))"
    unfolding ite_term_def by (rule hash_cons_mem)
  moreover have "kind ?d = ITE_TERM \<and> \<not> is_pos_term (arr (args ?d) 0)"
    using assms by (simp add: mk_desc_def arr_def is_pos_neg)
  ultimately show ?thesis
    unfolding ite_conds_positive_def list_all_iff by blast
qed

lemma index_neq: "index_of x \<noteq> index_of y \<Longrightarrow> x \<noteq> y \<and> x \<noteq> opposite_term y"
  by (metis index_of_opposite)

lemma index_const: "index_of x \<noteq> 1 \<Longrightarrow> x \<noteq> 2 \<and> x \<noteq> 3"
  by (auto simp: index_of_def)

lemma pos_opposite_gt: "is_pos_term c \<Longrightarrow> c < opposite_term c"
  by (simp add: is_pos_term_def opposite_term_def)

lemma yices_eq_negation:
  assumes g: "good_term (terms st) c" and b: "is_boolean_term (terms st) c"
    and p: "is_pos_term c" and i: "index_of c \<noteq> 1"
  shows "yices_eq k orc st (opposite_term c) c
           = Some (on_terms st (\<lambda>tbl. eq_term tbl c (opposite_term c)))"
proof -
  have gn: "good_term (terms st) (opposite_term c)"
    using g b by (simp add: good_term_opposite)
  have chk: "check_good_eq (terms st) (opposite_term c) c (error st) = (True, error st)"
    using g gn b
    by (simp add: check_good_eq_def andalso_def check_good_term_pass check_compatible_terms_def
        compatible_types_def super_type_def is_boolean_term_def bool_type_def NULL_TYPE_def)
  have o: "\<not> opposite_bool_terms (terms st) (opposite_term c) c"
    using gn g by (rule opposite_bool_terms_good)
  have v: "\<not> not_bool_var (terms st) (opposite_term c)" "\<not> not_bool_var (terms st) c"
    using gn g by (simp_all add: not_bool_var_good)
  have kk: "term_kind (terms st) c \<noteq> NOT_TERM" using g by (rule term_kind_good)
  have cc: "c \<noteq> 2" "c \<noteq> 3" using index_const [OF i] by simp_all
  show ?thesis
    using b cc pos_opposite_gt [OF p]
    by (simp add: yices_eq_def chk mk_iff_def o v kk tf Let_def on_terms_def)
qed

lemma yices_ite_negated_condition:
  assumes gc: "good_term (terms st) c" and bc: "is_boolean_term (terms st) c"
    and ic: "index_of c \<noteq> 1"
    and gx: "good_term (terms st) x" and ix: "index_of x \<noteq> 1" "index_of x \<noteq> index_of c"
    and gy: "good_term (terms st) y" and iy: "index_of y \<noteq> 1" "index_of y \<noteq> index_of c"
      "index_of y \<noteq> index_of x"
    and tau: "super_type (types (terms st)) (term_type (terms st) x) (term_type (terms st) y) = tau"
      "tau \<noteq> NULL_TYPE"
    and kx: "term_kind (terms st) x \<noteq> BV_EQ_ATOM" "term_kind (terms st) x \<noteq> ARITH_TERM"
  shows "yices_ite st (opposite_term c) x y
           = on_terms st (\<lambda>tbl. ite_term tbl (opposite_term c) x y tau)"
    and "yices_ite st c y x = on_terms st (\<lambda>tbl. ite_term tbl c y x tau)"
proof -
  have gn: "good_term (terms st) (opposite_term c)"
    using gc bc by (simp add: good_term_opposite)
  have s: "st\<lparr>error := error st\<rparr> = st" by simp
  have chk1: "andalso (check_good_term (terms st) (opposite_term c))
        (andalso (check_good_term (terms st) x)
           (andalso (check_good_term (terms st) y)
              (check_boolean_term (terms st) (opposite_term c)))) (error st) = (True, error st)"
    using gn gx gy bc by (simp add: andalso_def check_good_term_pass check_boolean_term_pass)
  have chk2: "andalso (check_good_term (terms st) c)
        (andalso (check_good_term (terms st) y)
           (andalso (check_good_term (terms st) x)
              (check_boolean_term (terms st) c))) (error st) = (True, error st)"
    using gc gx gy bc by (simp add: andalso_def check_good_term_pass check_boolean_term_pass)
  have tau': "super_type (types (terms st)) (term_type (terms st) y) (term_type (terms st) x) = tau"
    using tau(1) by (auto simp: super_type_def)
  have bb: "is_boolean_term (terms st) y = is_boolean_term (terms st) x"
    using tau by (auto simp: super_type_def is_boolean_term_def bool_type_def int_type_def
        real_type_def split: if_splits)
  have tb: "is_boolean_term (terms st) x \<Longrightarrow> tau = bool_type (types (terms st))"
    using tau bb by (auto simp: super_type_def is_boolean_term_def split: if_splits)
  have o: "\<And>a b. good_term (terms st) a \<Longrightarrow> good_term (terms st) b
             \<Longrightarrow> \<not> opposite_bool_terms (terms st) a b"
    by (rule opposite_bool_terms_good)
  have k: "term_kind (terms st) c \<noteq> NOT_TERM" "term_kind (terms st) (opposite_term c) \<noteq> NOT_TERM"
    using gc gn by (simp_all add: term_kind_good)
  have ne: "c \<noteq> 2" "c \<noteq> 3" "x \<noteq> 2" "x \<noteq> 3" "y \<noteq> 2" "y \<noteq> 3"
    using index_const [OF ic] index_const [OF ix(1)] index_const [OF iy(1)] by simp_all
  have d: "x \<noteq> c" "x \<noteq> opposite_term c" "y \<noteq> c" "y \<noteq> opposite_term c" "y \<noteq> x"
    using index_neq [OF ix(2)] index_neq [OF iy(2)] index_neq [OF iy(3)] by simp_all
  have d': "c \<noteq> x" "opposite_term c \<noteq> x" "c \<noteq> y" "opposite_term c \<noteq> y" "x \<noteq> y"
    using d by auto
  show "yices_ite st (opposite_term c) x y
           = on_terms st (\<lambda>tbl. ite_term tbl (opposite_term c) x y tau)"
    using tau(2) ne d d' kx k tb
    by (simp add: yices_ite_def checked_def chk1 s tau(1) Let_def mk_bool_ite_def
        o gc gn gx gy tf mk_not_opposite on_terms_def)
  show "yices_ite st c y x = on_terms st (\<lambda>tbl. ite_term tbl c y x tau)"
    using tau(2) ne d d' kx k tb bb
    by (simp add: yices_ite_def checked_def chk2 s tau' Let_def mk_bool_ite_def
        o gc gn gx gy tf mk_not_opposite on_terms_def)
qed


lemmas run_defs = yices_ite_def checked_def andalso_def check_good_term_def check_boolean_term_def
  super_type_def on_terms_def mk_bool_ite_def opposite_bool_terms_def mk_iff_def not_bool_var_def
  mk_not_def bool_negate_def eq_term_def ite_term_def Let_def arr_def


text \<open>
  On the example state, whose table satisfies \<open>ite_conds_positive\<close> and holds
  \<open>ite(c, u, v)\<close> at the reference 12: \<open>yices_eq(not c, c)\<close> returns the new node 36,
  \<open>eq(c, not c)\<close>; \<open>yices_ite(not c, v, u)\<close> returns the new node 36,
  \<open>ite(not c, v, u)\<close>, and \<open>yices_ite(c, u, v)\<close> returns 12. With boolean branches
  (\<open>x\<close> and \<open>w\<close>, the references 6 and 36 of the state with three boolean terms):
  \<open>yices_ite(not c, x, w)\<close> returns the new node 38, \<open>ite(not c, x, w)\<close>, and
  \<open>yices_ite(c, w, x)\<close>, called next, returns another new node, 40.
\<close>

lemma example_ite_conds_positive: "ite_conds_positive (terms example_state)"
  by (simp add: ite_conds_positive_def ex_defs tbl_defs arr_def)

lemma example_eq_not_c:
  "on_terms example_state (\<lambda>tbl. eq_term tbl 4 5)
     = (36, example_state\<lparr>terms := example_terms\<lparr>desc := desc example_terms @
          [mk_desc EQ_TERM 0 [4, 5] []]\<rparr>\<rparr>)"
  by (simp add: run_defs ex_defs tbl_defs)

lemma example_ite_not_c:
  "on_terms example_state (\<lambda>tbl. ite_term tbl 5 10 8 1)
     = (36, example_state\<lparr>terms := example_terms\<lparr>desc := desc example_terms @
          [mk_desc ITE_TERM 1 [5, 10, 8] []]\<rparr>\<rparr>)"
  by (simp add: run_defs ex_defs tbl_defs)

lemma example_ite_c:
  "on_terms example_state (\<lambda>tbl. ite_term tbl 4 8 10 1) = (12, example_state)"
  by (simp add: run_defs ex_defs tbl_defs)

lemma example_bool_state_eq:
  "example_bool_state = example_state\<lparr>terms := example_terms\<lparr>desc := desc example_terms @
          [mk_desc UNINTERPRETED_TERM 0 [] [18]]\<rparr>\<rparr>"
  by (simp add: example_bool_state_def on_terms_def new_uninterpreted_term_def ex_defs tbl_defs)

lemma example_bool_ite_not_c:
  "on_terms example_bool_state (\<lambda>tbl. ite_term tbl 5 6 36 0)
     = (38, example_bool_state\<lparr>terms := (terms example_bool_state)\<lparr>desc :=
          desc (terms example_bool_state) @ [mk_desc ITE_TERM 0 [5, 6, 36] []]\<rparr>\<rparr>)"
  by (simp add: example_bool_state_eq run_defs ex_defs tbl_defs)

lemma example_bool_ite_c_after:
  "fst (yices_ite (example_bool_state\<lparr>terms := (terms example_bool_state)\<lparr>desc :=
          desc (terms example_bool_state) @ [mk_desc ITE_TERM 0 [5, 6, 36] []]\<rparr>\<rparr>) 4 36 6) = 40"
  by (simp add: example_bool_state_eq run_defs ex_defs tbl_defs)

lemma example_bool_valid:
  "good_term (terms example_bool_state) 4" "is_boolean_term (terms example_bool_state) 4"
  "good_term (terms example_bool_state) 6" "good_term (terms example_bool_state) 36"
  "is_boolean_term (terms example_bool_state) 6" "is_boolean_term (terms example_bool_state) 36"
  "super_type (types (terms example_bool_state)) (term_type (terms example_bool_state) 6)
     (term_type (terms example_bool_state) 36) = 0"
  "term_kind (terms example_bool_state) 6 \<noteq> BV_EQ_ATOM"
  "term_kind (terms example_bool_state) 6 \<noteq> ARITH_TERM"
  by (simp_all add: example_bool_state_eq ex_defs tbl_defs super_type_def)


section \<open>Theorems: shifts by a bitvector amount\<close>

lemma bvconst_value_zero: "\<not> list_ex (\<lambda>w. w \<noteq> 0) ws \<Longrightarrow> bvconst_value ws = 0"
  by (induction ws) simp_all

lemma bvconst_value_pos: "list_ex (\<lambda>w. w \<noteq> 0) ws \<Longrightarrow> 0 < bvconst_value ws"
  by (induction ws) (auto simp: unat_gt_0)

lemma get_shift_amount_clamped:
  assumes n: "0 < n" "n + 31 < 4294967296" and len: "length bv = (n + 31) div 32"
  shows "get_shift_amount n bv = min n (bvconst_value bv)"
proof -
  from n len obtain w ws where bv: "bv = w # ws" by (cases bv) auto
  have k: "take (((n + 31) mod 4294967296) div 32 - 1) (drop 1 bv) = ws"
    using n len bv by simp
  have s: "unat (bvconst_get32 bv) = unat w" by (simp add: bv bvconst_get32_def)
  have g: "get_shift_amount n bv
             = (if list_ex (\<lambda>w. w \<noteq> 0) ws then n else if n \<le> unat w then n else unat w)"
    unfolding get_shift_amount_def Let_def k s ..
  show ?thesis
  proof (cases "list_ex (\<lambda>w. w \<noteq> 0) ws")
    case True
    then have "0 < bvconst_value ws" by (rule bvconst_value_pos)
    then have v: "n \<le> bvconst_value bv" using n bv by simp
    show ?thesis using True v by (simp add: g min_def)
  next
    case False
    then have "bvconst_value ws = 0" by (rule bvconst_value_zero)
    then have v: "bvconst_value bv = unat w" using bv by simp
    show ?thesis using False by (simp add: g v min_def)
  qed
qed

lemma copy_term_fields:
  "terms (copy_term_to_internal_bvlogic_buffer lib st t) = terms st"
  "error (copy_term_to_internal_bvlogic_buffer lib st t) = error st"
  "\<exists>b. internal_bvlogic_buffer (copy_term_to_internal_bvlogic_buffer lib st t) = Some b"
  by (simp_all add: copy_term_to_internal_bvlogic_buffer_def get_internal_bvlogic_buffer_def
      Let_def split: option.splits)

lemma check_compatible_bv_terms_pass:
  assumes "good_term tbl t1" "is_bitvector_term tbl t1" "good_term tbl t2"
    "term_type tbl t2 = term_type tbl t1"
  shows "check_compatible_bv_terms tbl t1 t2 e = (True, e)"
proof -
  have "term_type tbl t1 \<noteq> NULL_TYPE"
    using assms(2)
    by (auto simp: is_bitvector_term_def type_kind_def type_desc_of_def NULL_TYPE_def
        unused_type_desc_def)
  then show ?thesis
    using assms
    by (simp add: check_compatible_bv_terms_def andalso_def check_good_term_pass
        check_bitvector_term_def check_compatible_terms_def compatible_types_def super_type_def
        is_bitvector_term_def)
qed

lemma shift_by_constant_clamped:
  assumes d: "bvconst_term_desc (terms st) t2 = (n, bv)"
    and n: "0 < n" "n + 31 < 4294967296" "length bv = (n + 31) div 32"
  shows "\<exists>b. internal_bvlogic_buffer (copy_term_to_internal_bvlogic_buffer lib st t1) = Some b
           \<and> shift_by_constant lib shift st t1 t2
               = yices_bvlogic_term lib
                   ((copy_term_to_internal_bvlogic_buffer lib st t1)
                      \<lparr>internal_bvlogic_buffer := Some (shift b (min n (bvconst_value bv)))\<rparr>)
                   (shift b (min n (bvconst_value bv)))"
proof -
  obtain b where b: "internal_bvlogic_buffer (copy_term_to_internal_bvlogic_buffer lib st t1) = Some b"
    using copy_term_fields(3) by blast
  show ?thesis
    using b by (simp add: shift_by_constant_def copy_term_fields d get_shift_amount_clamped [OF n] Let_def)
qed


text \<open>
  The shifts run on the example state, with the buffer library in which bits are
  boolean terms. \<open>bvshl(t, 4)\<close> is the bit array \<open>(0, 0, 0, 0, t[0], t[1], t[2], t[3])\<close>,
  low-order bit first; a shift by 9, which is more than the width 8, is a shift by 8:
  the zero constant for \<open>bvshl\<close> and \<open>bvlshr\<close>, eight copies of the sign bit \<open>t[7]\<close>
  for \<open>bvashr\<close>.
\<close>

lemmas bv_ex_defs = example_bv_state_def example_bv_terms_def init_term_table_def
  init_type_table_def mk_desc_def prim_type_def no_error_report_def

lemmas shift_lib_defs = term_bits_shift_lib_def term_bits_lib_def bvlogic_lib.extend_def
  false_bit_def true_bit_def select_bit_def

lemmas upt_numeral = upt_rec [of 0] upt_rec [of "Suc _"] upt_rec [of "numeral _"]

lemmas shift_run_defs = yices_bvshl_def yices_bvlshr_def yices_bvashr_def checked_def
  check_compatible_bv_terms_def andalso_def check_good_term_def check_bitvector_term_def
  check_compatible_terms_def compatible_types_def super_type_def shift_by_constant_def
  copy_term_to_internal_bvlogic_buffer_def get_internal_bvlogic_buffer_def
  yices_bvlogic_term_def bvlogic_term_def bvconst_term_def bvapply_term_def on_terms_def
  bvconst_term_desc_def bvlogic_term_desc_def get_shift_amount_def bvconst_get32_def
  bv_type_def intern_type_def Let_def

lemma replicate_numerals:
  "replicate 1 x = [x]"
  "replicate 4 x = [x, x, x, x]"
  "replicate 8 x = [x, x, x, x, x, x, x, x]"
  by (simp_all add: numeral_eq_Suc)

lemma example_bvshl_4:
  "yices_bvshl term_bits_shift_lib example_bv_state 4 8
     = (30, example_bv_state\<lparr>
          terms := example_bv_terms\<lparr>desc := desc example_bv_terms @
            [mk_desc BV_LOGIC_TERM 3 [3, 3, 3, 3, 14, 16, 18, 20] []]\<rparr>,
          internal_bvlogic_buffer :=
            Some \<lparr>bitsize = 8, bit = [3, 3, 3, 3, 14, 16, 18, 20]\<rparr>\<rparr>)"
  by (simp add: shift_run_defs shift_lib_defs bv_ex_defs tbl_defs upt_numeral replicate_numerals)

lemma example_bvshl_9:
  "yices_bvshl term_bits_shift_lib example_bv_state 4 10
     = (30, example_bv_state\<lparr>
          terms := example_bv_terms\<lparr>desc := desc example_bv_terms @
            [mk_desc BV_CONST_TERM 3 [] [8, 0]]\<rparr>,
          internal_bvlogic_buffer :=
            Some \<lparr>bitsize = 8, bit = [3, 3, 3, 3, 3, 3, 3, 3]\<rparr>\<rparr>)"
  by (simp add: shift_run_defs shift_lib_defs bv_ex_defs tbl_defs upt_numeral replicate_numerals)

lemma example_bvshl_1_after_9:
  "fst (yices_bvshl term_bits_shift_lib
         (example_bv_state\<lparr>
            terms := example_bv_terms\<lparr>desc := desc example_bv_terms @
              [mk_desc BV_CONST_TERM 3 [] [8, 0]]\<rparr>,
            internal_bvlogic_buffer :=
              Some \<lparr>bitsize = 8, bit = [3, 3, 3, 3, 3, 3, 3, 3]\<rparr>\<rparr>) 4 12) = 32"
  by (simp add: shift_run_defs shift_lib_defs bv_ex_defs tbl_defs upt_numeral replicate_numerals)

lemma example_bvshl_var:
  "yices_bvshl term_bits_shift_lib example_bv_state 4 6
     = (30, example_bv_state\<lparr>
          terms := example_bv_terms\<lparr>desc := desc example_bv_terms @
            [mk_desc BV_APPLY_TERM 3 [4, 6] [5]]\<rparr>\<rparr>)"
  by (simp add: shift_run_defs shift_lib_defs bv_ex_defs tbl_defs upt_numeral replicate_numerals)

lemma example_bvlshr_9:
  "yices_bvlshr term_bits_shift_lib example_bv_state 4 10
     = (30, example_bv_state\<lparr>
          terms := example_bv_terms\<lparr>desc := desc example_bv_terms @
            [mk_desc BV_CONST_TERM 3 [] [8, 0]]\<rparr>,
          internal_bvlogic_buffer :=
            Some \<lparr>bitsize = 8, bit = [3, 3, 3, 3, 3, 3, 3, 3]\<rparr>\<rparr>)"
  by (simp add: shift_run_defs shift_lib_defs bv_ex_defs tbl_defs upt_numeral replicate_numerals)

lemma example_bvashr_9:
  "yices_bvashr term_bits_shift_lib example_bv_state 4 10
     = (30, example_bv_state\<lparr>
          terms := example_bv_terms\<lparr>desc := desc example_bv_terms @
            [mk_desc BV_LOGIC_TERM 3 [28, 28, 28, 28, 28, 28, 28, 28] []]\<rparr>,
          internal_bvlogic_buffer :=
            Some \<lparr>bitsize = 8, bit = [28, 28, 28, 28, 28, 28, 28, 28]\<rparr>\<rparr>)"
  by (simp add: shift_run_defs shift_lib_defs bv_ex_defs tbl_defs upt_numeral replicate_numerals)


lemma example_bv_valid:
  "good_term (terms example_bv_state) 4" "is_bitvector_term (terms example_bv_state) 4"
  "good_term (terms example_bv_state) 6" "good_term (terms example_bv_state) 8"
  "good_term (terms example_bv_state) 10" "good_term (terms example_bv_state) 12"
  "term_type (terms example_bv_state) 4 = 3" "term_type (terms example_bv_state) 6 = 3"
  "term_type (terms example_bv_state) 8 = 3" "term_type (terms example_bv_state) 10 = 3"
  "term_type (terms example_bv_state) 12 = 3"
  "term_bitsize (terms example_bv_state) 4 = 8"
  "term_kind (terms example_bv_state) 6 = UNINTERPRETED_TERM"
  "term_kind (terms example_bv_state) 8 = BV_CONST_TERM"
  "term_kind (terms example_bv_state) 10 = BV_CONST_TERM"
  "term_kind (terms example_bv_state) 12 = BV_CONST_TERM"
  "bvconst_term_desc (terms example_bv_state) 8 = (8, [4])"
  "bvconst_term_desc (terms example_bv_state) 10 = (8, [9])"
  "bvconst_term_desc (terms example_bv_state) 12 = (8, [1])"
  by (simp_all add: bvconst_term_desc_def bv_ex_defs tbl_defs)

lemma example_bvconst_term_4:
  "bvconst_term (terms example_bv_state) 8 [4] = (8, terms example_bv_state)"
  by (simp add: bvconst_term_def bv_type_def intern_type_def bv_ex_defs tbl_defs)


text \<open>
  The 8-bit constant 4 built by \<open>bv64_constant\<close> is a valid term of type \<open>BitVec(8)\<close>,
  of kind \<open>BV64_CONSTANT\<close>, at the reference 30. The shifts do not take it for a
  constant: \<open>bvshl(t, 4)\<close> with this operand is not the bit array of \<open>t\<close> shifted left
  by 4, it is the binary term of the operator \<open>BVOP_SHL\<close> on the references 4 and 30.
  And the amount of a constant the shifts recognize is not reduced modulo the width:
  for the 8-bit constant 9, \<open>get_shift_amount\<close> is 8 and not \<open>9 mod 8 = 1\<close>, and
  \<open>bvshl(t, 9)\<close>, the zero constant of reference 30, is not the term \<open>bvshl(t, 1)\<close>,
  which, built next, has the reference 32.
\<close>

lemma example_bv64_state_eq:
  "on_terms example_bv_state (\<lambda>tbl. bv64_constant tbl 8 4)
     = (30, example_bv_state\<lparr>terms := example_bv_terms\<lparr>desc := desc example_bv_terms @
          [mk_desc BV64_CONSTANT 3 [] [8, 4]]\<rparr>\<rparr>)"
  by (simp add: on_terms_def bv64_constant_def bv_type_def intern_type_def bv_ex_defs tbl_defs)

lemma example_bvshl_bv64:
  "yices_bvshl term_bits_shift_lib
     (example_bv_state\<lparr>terms := example_bv_terms\<lparr>desc := desc example_bv_terms @
          [mk_desc BV64_CONSTANT 3 [] [8, 4]]\<rparr>\<rparr>) 4 30
     = (32, example_bv_state\<lparr>terms := example_bv_terms\<lparr>desc := desc example_bv_terms @
          [mk_desc BV64_CONSTANT 3 [] [8, 4], mk_desc BV_APPLY_TERM 3 [4, 30] [5]]\<rparr>\<rparr>)"
  by (simp add: shift_run_defs shift_lib_defs bv_ex_defs tbl_defs upt_numeral replicate_numerals)


section \<open>Theorems: distinct\<close>

lemma check_good_terms_from_pass:
  "\<forall>t \<in> set a. good_term tbl t \<Longrightarrow> check_good_terms_from tbl i a e = (True, e)"
  by (induction a arbitrary: i) (simp_all add: bad_term_def)

lemma super_type_same: "super_type tbl tau tau = tau"
  by (simp add: super_type_def)

lemma check_distinct_types_pass:
  "tau \<noteq> NULL_TYPE \<Longrightarrow> \<forall>t \<in> set a. term_type tbl t = tau \<Longrightarrow>
   check_distinct_types tbl a0 tau a e = (True, e)"
  by (induction a) (simp_all add: super_type_same)

lemma has_equal_neighbours_sorted:
  "sorted xs \<Longrightarrow> has_equal_neighbours xs = (\<not> distinct xs)"
proof (induction xs rule: has_equal_neighbours.induct)
  case (1 x y r)
  then show ?case by (auto simp: order.order_iff_strict)
qed simp_all

lemma has_equal_neighbours_sort: "has_equal_neighbours (sort xs) = (\<not> distinct xs)"
  using has_equal_neighbours_sorted [of "sort xs"] by simp

lemma mk_xor_same: "mk_xor tbl x x = (false_term tbl, tbl)"
  by (simp add: mk_xor_def)

lemma yices_neq_same:
  assumes "good_term (terms st) t" and "term_type (terms st) t \<noteq> NULL_TYPE"
  shows "\<exists>st'. yices_neq k orc st t t = Some (false_term (terms st), st')
               \<and> terms st' = terms st \<and> error st' = error st"
proof -
  have c: "check_good_eq (terms st) t t (error st) = (True, error st)"
    using assms by (rule check_good_eq_same)
  have s: "st\<lparr>error := error st\<rparr> = st" by simp
  show ?thesis
    using mk_aritheq_same [of st t]
    by (auto simp: yices_neq_def c s on_terms_def mk_xor_same mk_bvneq_def mk_arithneq_def
        mk_not_opposite)
qed

lemma to_uint32_int: "n < 2147483648 \<Longrightarrow> to_uint32 (int n) = n"
  by (simp add: to_uint32_def)

text \<open>
  C7, for the cases in which the code returns the false term. \<open>yices_distinct\<close> on
  \<open>n \<ge> 2\<close> valid terms of one type, \<open>n\<close> within the arity limit, returns the false
  term, with the term table and error report unchanged, when \<open>n \<ge> 3\<close> and the type is
  the boolean type or a scalar type of cardinality less than \<open>n\<close>, and also when two
  of the arguments are the same term. It holds for every depth bound of the
  disequality check and every comparison library.
\<close>

theorem yices_distinct_false:
  assumes len: "2 \<le> length arg" "length arg \<le> YICES_MAX_ARITY lm" "length arg < 2147483648"
    and good: "\<forall>t \<in> set arg. good_term (terms st) t \<and> term_type (terms st) t = tau"
    and tau: "tau \<noteq> NULL_TYPE"
    and why: "(3 \<le> length arg
               \<and> (tau = bool_type (types (terms st))
                  \<or> (type_kind (types (terms st)) tau = SCALAR_TYPE
                      \<and> scalar_type_cardinal (types (terms st)) tau < length arg)))
              \<or> \<not> distinct arg"
  shows "\<exists>st'. yices_distinct k orc lm st (int (length arg)) arg
                 = Some (false_term (terms st), st')
               \<and> terms st' = terms st \<and> error st' = error st"
proof (cases "length arg = 2")
  case True
  then obtain a b where ab: "arg = [a, b]"
    by (cases arg; cases "tl arg"; auto)
  with why have "a = b" by auto
  with ab good tau yices_neq_same [of st a k orc] show ?thesis
    by (simp add: yices_distinct_def arr_def)
next
  case False
  with len have n3: "3 \<le> length arg" by simp
  let ?n = "length arg"
  have u: "to_uint32 (int ?n) = ?n" using len by (simp add: to_uint32_int)
  obtain a0 r where ar: "arg = a0 # r" using n3 by (cases arg) auto
  have ne: "arg \<noteq> []" using ar by simp
  have t0: "term_type (terms st) (arr arg 0) = tau" using good ar by (simp add: arr_def)
  have c1: "check_good_terms (terms st) ?n arg e = (True, e)" for e
    using good by (simp add: check_good_terms_def check_good_terms_from_pass)
  have c2: "check_distinct_types (terms st) (arr arg 0) tau (tl arg) e = (True, e)" for e
    using good tau ar by (simp add: check_distinct_types_pass)
  have c: "andalso (check_positive ?n)
                (andalso (check_arity lm ?n)
                   (check_good_distinct_term lm (terms st) ?n arg)) (error st) = (True, error st)"
    using len n3
    by (simp add: andalso_def check_positive_def check_arity_def check_good_distinct_term_def
        c1 c2 t0 ne)
  have s: "st\<lparr>error := error st\<rparr> = st" by simp
  show ?thesis
    using n3 False why
    by (auto simp: yices_distinct_def u c s t0 Let_def has_equal_neighbours_sort)
qed

lemmas distinct_run_defs = yices_distinct_def yices_neq_def check_good_eq_def andalso_def
  check_good_term_def check_compatible_terms_def compatible_types_def super_type_def
  check_positive_def check_arity_def check_good_distinct_term_def check_good_terms_def
  to_uint32_def arr_def on_terms_def eq_term_def distinct_term_def Let_def
  pairwise_disequal_terms_def disequal_bitvector_terms_def

theorem yices_distinct_false_witness:
  "good_term (terms example_state) 14 \<and> good_term (terms example_state) 16
   \<and> good_term (terms example_state) 18
   \<and> term_type (terms example_state) 14 = 3 \<and> term_type (terms example_state) 16 = 3
   \<and> term_type (terms example_state) 18 = 3
   \<and> type_kind (types (terms example_state)) 3 = SCALAR_TYPE
   \<and> scalar_type_cardinal (types (terms example_state)) 3 = 2
   \<and> (\<exists>st'. yices_distinct 0 no_compare example_limits example_state 3 [14, 16, 18]
               = Some (3, st'))"
proof -
  have g: "\<forall>t \<in> set [14, 16, 18].
             good_term (terms example_state) t \<and> term_type (terms example_state) t = 3"
    by (simp add: ex_defs tbl_defs)
  have k: "type_kind (types (terms example_state)) 3 = SCALAR_TYPE
           \<and> scalar_type_cardinal (types (terms example_state)) 3 = 2"
    by (simp add: ex_defs tbl_defs)
  have l: "YICES_MAX_ARITY example_limits = 1000" by (simp add: example_limits_def)
  show ?thesis
    using g k
      yices_distinct_false [where arg = "[14, 16, 18]" and st = example_state and tau = 3
        and lm = example_limits and k = 0 and orc = no_compare]
    by (auto simp: l NULL_TYPE_def false_term_def)
qed

text \<open>
  Two lists of more terms than their finite type has elements, for which the result
  is not the false term (reference 3). With \<open>n = 2\<close> the call is \<open>yices_neq\<close>, which
  does not look at the cardinality: for the two uninterpreted terms 20 and 22 of
  type \<open>Scalar(1)\<close> the result is the negation, 37, of the new node \<open>eq(20, 22)\<close>. The
  cardinality test is made for scalar types only: for the three uninterpreted terms
  24, 26, 28 of type \<open>BitVec(1)\<close>, which has two elements, the result is the new
  node \<open>distinct(24, 26, 28)\<close>, of reference 36.
\<close>

theorem yices_distinct_finite_type_counterexample:
  "good_term (terms example_state) 20 \<and> good_term (terms example_state) 22
   \<and> term_type (terms example_state) 20 = 4 \<and> term_type (terms example_state) 22 = 4
   \<and> type_kind (types (terms example_state)) 4 = SCALAR_TYPE
   \<and> scalar_type_cardinal (types (terms example_state)) 4 = 1
   \<and> map_option fst (yices_distinct 1 no_compare example_limits example_state 2 [20, 22])
       = Some 37
   \<and> good_term (terms example_state) 24 \<and> good_term (terms example_state) 26
   \<and> good_term (terms example_state) 28
   \<and> term_type (terms example_state) 24 = 5 \<and> term_type (terms example_state) 26 = 5
   \<and> term_type (terms example_state) 28 = 5
   \<and> type_kind (types (terms example_state)) 5 = BITVECTOR_TYPE
   \<and> bv_type_size (types (terms example_state)) 5 = 1
   \<and> map_option fst (yices_distinct 1 no_compare example_limits example_state 3 [24, 26, 28])
       = Some 36
   \<and> false_term (terms example_state) = 3"
proof -
  have 1: "map_option fst (yices_distinct 1 no_compare example_limits example_state 2 [20, 22])
       = Some 37"
    by (simp add: distinct_run_defs ex_defs tbl_defs)
  have 2: "map_option fst (yices_distinct 1 no_compare example_limits example_state 3 [24, 26, 28])
       = Some 36"
    by (simp add: distinct_run_defs ex_defs tbl_defs)
  show ?thesis
    using 1 2 by (simp add: ex_defs tbl_defs)
qed


section \<open>Theorems: the stack of universal variables\<close>

lemma keeps_uvarsD: "keeps_uvars rec \<Longrightarrow> rec sk t = Some (r, sk') \<Longrightarrow> uvars sk' = uvars sk"
  by (auto simp: keeps_uvars_def)

lemma uvars_set_mgr [simp]: "uvars (set_mgr sk m) = uvars sk"
  by (simp add: set_mgr_def)

lemma push_all: "fold (\<lambda>i v. ivector_push v (f i)) js v0 = v0 @ map f js"
  by (induction js arbitrary: v0) (simp_all add: ivector_push_def)

lemma pop_all: "length ys = n \<Longrightarrow> (ivector_pop ^^ n) (xs @ ys) = xs"
proof (induction n arbitrary: ys)
  case 0
  then show ?case by simp
next
  case (Suc n)
  then obtain zs z where ys: "ys = zs @ [z]" and l: "length zs = n"
    by (cases ys rule: rev_cases) auto
  have "(ivector_pop ^^ Suc n) (xs @ ys) = (ivector_pop ^^ n) (ivector_pop (xs @ ys))"
    by (simp add: funpow_swap1)
  also have "ivector_pop (xs @ ys) = xs @ zs"
    by (simp add: ys ivector_pop_def butlast_append)
  finally show ?case using Suc.IH [OF l] by simp
qed

lemma skolemize_terms_uvars:
  assumes "keeps_uvars rec"
  shows "skolemize_terms rec sk vec us = Some (vec', sk') \<Longrightarrow> uvars sk' = uvars sk"
proof (induction us arbitrary: sk vec)
  case Nil
  then show ?case by simp
next
  case (Cons u us)
  then show ?case
    using keeps_uvarsD [OF assms]
    by (fastforce split: Option.bind_splits)
qed

lemma skolemize_children_uvars:
  assumes "keeps_uvars rec"
  shows "skolemize_children rec lib sk v vec js = Some (vec', sk') \<Longrightarrow> uvars sk' = uvars sk"
proof (induction js arbitrary: sk vec)
  case Nil
  then show ?case by simp
next
  case (Cons i js)
  then show ?case
    using keeps_uvarsD [OF assms]
    by (fastforce split: Option.bind_splits)
qed

lemma ef_skolem_body_uvars: "uvars (snd (ef_skolem_body lib sk t)) = uvars sk"
  by (simp add: ef_skolem_body_def Let_def split_beta)

lemma flatten_ite_case_uvars:
  assumes "keeps_uvars rec"
  shows "flatten_ite_case rec lib sk t neg = Some (r, vec, sk') \<Longrightarrow> uvars sk' = uvars sk"
  using keeps_uvarsD [OF assms]
  by (fastforce simp: flatten_ite_case_def Let_def split_beta
      split: Option.bind_splits if_splits)

lemma flatten_iff_case_uvars:
  assumes "keeps_uvars rec"
  shows "flatten_iff_case rec lib sk t neg = Some (r, vec, sk') \<Longrightarrow> uvars sk' = uvars sk"
  using keeps_uvarsD [OF assms]
  by (fastforce simp: flatten_iff_case_def Let_def split_beta
      split: Option.bind_splits if_splits)


lemma ef_skolemize_neg_uvars:
  assumes k: "keeps_uvars rec"
  shows "ef_skolemize_neg rec lib sk t = Some (r, sk') \<Longrightarrow> uvars sk' = uvars sk"
  unfolding ef_skolemize_neg_def Let_def
  using keeps_uvarsD [OF k] flatten_ite_case_uvars [OF k] flatten_iff_case_uvars [OF k]
    skolemize_terms_uvars [OF k] skolemize_children_uvars [OF k]
    ef_skolem_body_uvars [of lib sk t]
  by (fastforce simp: split_beta split: Option.bind_splits if_splits)


lemma forall_case_uvars:
  assumes k: "keeps_uvars rec"
    and r: "rec (sk\<lparr>uvars := fold (\<lambda>i v. ivector_push v (arr d i)) [0 ..< n] (uvars sk)\<rparr>) u
              = Some (r, sk2)"
  shows "(ivector_pop ^^ n) (uvars sk2) = uvars sk"
proof -
  have "uvars sk2 = uvars sk @ map (arr d) [0 ..< n]"
    using keeps_uvarsD [OF k r] by (simp add: push_all)
  then show ?thesis by (simp add: pop_all)
qed

lemma ef_skolemize_pos_uvars:
  assumes k: "keeps_uvars rec"
  shows "ef_skolemize_pos rec lib sk t = Some (r, sk') \<Longrightarrow> uvars sk' = uvars sk"
  unfolding ef_skolemize_pos_def Let_def
  using flatten_ite_case_uvars [OF k] flatten_iff_case_uvars [OF k]
    skolemize_children_uvars [OF k] forall_case_uvars [OF k]
  by (fastforce simp: split_beta split: Option.bind_splits if_splits)

lemma ef_skolemize_term_keeps_uvars: "keeps_uvars (ef_skolemize_term k lib)"
proof (induction k)
  case 0
  then show ?case by (simp add: keeps_uvars_def)
next
  case (Suc k)
  show ?case
    unfolding keeps_uvars_def
    using ef_skolemize_neg_uvars [OF Suc] ef_skolemize_pos_uvars [OF Suc]
    by (auto split: if_splits)
qed

lemma pop_n: "(ivector_pop ^^ j) xs = take (length xs - j) xs"
proof (induction j)
  case 0
  then show ?case by simp
next
  case (Suc j)
  then show ?case by (simp add: ivector_pop_def butlast_take)
qed


lemma forall_desc_split:
  assumes "length vs < 4294967295"
  shows "(length (vs @ [body]) + 4294967295) mod 4294967296 = length vs"
    and "map (arr (vs @ [body])) [0 ..< length vs] = vs"
    and "arr (vs @ [body]) (length vs) = body"
proof -
  show "(length (vs @ [body]) + 4294967295) mod 4294967296 = length vs"
    using assms by simp
  show "map (arr (vs @ [body])) [0 ..< length vs] = vs"
    by (rule nth_equalityI) (simp_all add: arr_def nth_append)
  show "arr (vs @ [body]) (length vs) = body"
    by (simp add: arr_def)
qed


text \<open>
  C8. Whatever the term manager, the skolemizer and the term are, a call of
  \<open>ef_skolemize_term\<close> that returns leaves \<open>sk->uvars\<close> holding the sequence it
  held on entry. And on a term \<open>(forall vs. body)\<close> of positive polarity the call
  pushes the variables \<open>vs\<close> in the order of the descriptor, so that the body is
  skolemized with \<open>uvars @ vs\<close>; when that call returns the term \<open>rb\<close>, the stack
  is \<open>uvars @ vs\<close> again, the \<open>j\<close>-th pop leaves \<open>uvars\<close> and the first
  \<open>length vs - j\<close> variables (the variables go in reverse order), and the call
  returns \<open>rb\<close> with the stack \<open>uvars\<close>.
\<close>

theorem uvars_prefix_stack:
  "(ef_skolemize_term k lib sk t = Some (r, sk') \<longrightarrow> uvars sk' = uvars sk)
   \<and> (\<not> term_is_atomic lib (mgr sk) (unsigned_term t) \<longrightarrow> is_pos_term t \<longrightarrow>
        term_kind_tbl lib (mgr sk) t = FORALL_TERM \<longrightarrow>
        forall_term_desc lib (mgr sk) t = vs @ [body] \<longrightarrow> length vs < 4294967295 \<longrightarrow>
        ef_skolemize_term k lib (sk\<lparr>uvars := uvars sk @ vs\<rparr>) body = Some (rb, skb) \<longrightarrow>
        rb \<noteq> NULL_TERM \<longrightarrow>
          uvars skb = uvars sk @ vs
          \<and> (\<forall>j \<le> length vs. (ivector_pop ^^ j) (uvars skb) = uvars sk @ take (length vs - j) vs)
          \<and> ef_skolemize_term (Suc k) lib sk t = Some (rb, skb\<lparr>uvars := uvars sk\<rparr>))"
proof -
  have p1: "uvars sk' = uvars sk" if "ef_skolemize_term k lib sk t = Some (r, sk')"
    using ef_skolemize_term_keeps_uvars that by (rule keeps_uvarsD)
  have p2: "uvars skb = uvars sk @ vs
        \<and> (\<forall>j \<le> length vs. (ivector_pop ^^ j) (uvars skb) = uvars sk @ take (length vs - j) vs)
        \<and> ef_skolemize_term (Suc k) lib sk t = Some (rb, skb\<lparr>uvars := uvars sk\<rparr>)"
    if at: "\<not> term_is_atomic lib (mgr sk) (unsigned_term t)"
      and pos: "is_pos_term t"
      and knd: "term_kind_tbl lib (mgr sk) t = FORALL_TERM"
      and d: "forall_term_desc lib (mgr sk) t = vs @ [body]"
      and len: "length vs < 4294967295"
      and run: "ef_skolemize_term k lib (sk\<lparr>uvars := uvars sk @ vs\<rparr>) body = Some (rb, skb)"
      and rb: "rb \<noteq> NULL_TERM"
  proof -
    have ub: "uvars skb = uvars sk @ vs"
      using keeps_uvarsD [OF ef_skolemize_term_keeps_uvars run] by simp
    have pops: "(ivector_pop ^^ j) (uvars skb) = uvars sk @ take (length vs - j) vs"
      if "j \<le> length vs" for j
      using that by (simp add: pop_n ub)
    have ml: "length vs mod 4294967296 = length vs" using len by simp
    have call: "ef_skolemize_term (Suc k) lib sk t = Some (rb, skb\<lparr>uvars := uvars sk\<rparr>)"
      using at pos rb run
      by (simp add: is_pos_neg ef_skolemize_pos_def knd d forall_desc_split [OF len] push_all
          pop_n ub ml Let_def)
    show ?thesis using ub pops call by blast
  qed
  show ?thesis using p1 p2 by blast
qed

text \<open>
  The skolemizer run on the example table: \<open>forall z. forall x y. p\<close> is skolemized
  to \<open>p\<close>, the atom being reached with the stack \<open>[z, x, y]\<close>; in
  \<open>forall x. not (forall y. p)\<close> the variable \<open>y\<close> is replaced by the application of
  a skolem function to the stack \<open>[x]\<close>, and the existential \<open>y\<close> is recorded with
  its skolem function 20. Both calls return with the empty stack they started with.
\<close>

lemmas ef_run_defs = ef_skolemize_pos_def ef_skolemize_neg_def ef_skolem_body_def
  ef_skolem_term_def ef_update_composite_def flatten_ite_case_def flatten_iff_case_def
  example_ef_lib_def example_ef_skolemize_def init_ef_skolemize_def mgr_def set_mgr_def
  ivector_push_def ivector_pop_def unsigned_term_def is_neg_term_def opposite_term_def
  arr_def Let_def NULL_TERM_def

lemma example_skolemize_atom: "ef_skolemize_term 1 example_ef_lib (example_ef_skolemize\<lparr>uvars := [2, 4, 6]\<rparr>) 8
   = Some (8, example_ef_skolemize\<lparr>uvars := [2, 4, 6]\<rparr>)"
  by (simp add: ef_run_defs)

lemma example_skolemize_inner: "ef_skolemize_term 2 example_ef_lib (example_ef_skolemize\<lparr>uvars := [2]\<rparr>) 10
   = Some (8, example_ef_skolemize\<lparr>uvars := [2]\<rparr>)"
  by (simp add: ef_run_defs numeral_2_eq_2 upt_numeral pop_n)

lemma example_skolemize_forall: "ef_skolemize_term 3 example_ef_lib example_ef_skolemize 12
   = Some (8, example_ef_skolemize)"
  by (simp add: ef_run_defs numeral_3_eq_3 numeral_2_eq_2 upt_numeral pop_n)

lemma example_skolemize_exists: "ef_skolemize_term 3 example_ef_lib example_ef_skolemize 14
   = Some (9, example_ef_skolemize\<lparr>analyzer :=
        \<lparr>manager = (), existentials = [(6, 20)], num_skolem = 1\<rparr>\<rparr>)"
  by (simp add: ef_run_defs numeral_3_eq_3 numeral_2_eq_2 upt_numeral pop_n)


theorem uvars_prefix_stack_witness:
  "ef_skolemize_term 3 example_ef_lib example_ef_skolemize 12 = Some (8, example_ef_skolemize)
   \<and> uvars example_ef_skolemize = []
   \<and> \<not> term_is_atomic example_ef_lib (mgr example_ef_skolemize) (unsigned_term 12)
   \<and> is_pos_term 12
   \<and> term_kind_tbl example_ef_lib (mgr example_ef_skolemize) 12 = FORALL_TERM
   \<and> forall_term_desc example_ef_lib (mgr example_ef_skolemize) 12 = [2] @ [10]
   \<and> ef_skolemize_term 2 example_ef_lib (example_ef_skolemize\<lparr>uvars := [2]\<rparr>) 10
       = Some (8, example_ef_skolemize\<lparr>uvars := [2]\<rparr>)
   \<and> ef_skolemize_term 1 example_ef_lib (example_ef_skolemize\<lparr>uvars := [2, 4, 6]\<rparr>) 8
       = Some (8, example_ef_skolemize\<lparr>uvars := [2, 4, 6]\<rparr>)
   \<and> (\<exists>sk'. ef_skolemize_term 3 example_ef_lib example_ef_skolemize 14 = Some (9, sk')
          \<and> uvars sk' = [] \<and> existentials (analyzer sk') = [(6, 20)])"
proof -
  have e: "uvars example_ef_skolemize = []"
    by (simp add: example_ef_skolemize_def init_ef_skolemize_def)
  have h: "\<not> term_is_atomic example_ef_lib (mgr example_ef_skolemize) (unsigned_term 12)"
    "is_pos_term 12"
    "term_kind_tbl example_ef_lib (mgr example_ef_skolemize) 12 = FORALL_TERM"
    "forall_term_desc example_ef_lib (mgr example_ef_skolemize) 12 = [2] @ [10]"
    by (simp_all add: example_ef_lib_def unsigned_term_def is_pos_term_def)
  have i: "ef_skolemize_term 2 example_ef_lib
             (example_ef_skolemize\<lparr>uvars := uvars example_ef_skolemize @ [2]\<rparr>) 10
           = Some (8, example_ef_skolemize\<lparr>uvars := [2]\<rparr>)"
    by (simp add: e example_skolemize_inner)
  have n: "(8 :: int) \<noteq> NULL_TERM" by (simp add: NULL_TERM_def)
  have 1: "ef_skolemize_term 3 example_ef_lib example_ef_skolemize 12
             = Some (8, example_ef_skolemize)"
    using uvars_prefix_stack [where k = 2 and lib = example_ef_lib
        and sk = example_ef_skolemize and t = 12 and vs = "[2]" and body = 10 and rb = 8
        and skb = "example_ef_skolemize\<lparr>uvars := [2]\<rparr>"] h i n
    by (simp add: e numeral_3_eq_3 example_ef_skolemize_def init_ef_skolemize_def)
  have 2: "\<exists>sk'. ef_skolemize_term 3 example_ef_lib example_ef_skolemize 14 = Some (9, sk')
          \<and> uvars sk' = [] \<and> existentials (analyzer sk') = [(6, 20)]"
    unfolding example_skolemize_exists
    by (simp add: example_ef_skolemize_def init_ef_skolemize_def)
  show ?thesis
    using 1 2 e h example_skolemize_inner example_skolemize_atom by blast
qed


section \<open>Theorems: failed validations\<close>

lemma andalso_pass: "c1 e = (True, e) \<Longrightarrow> andalso c1 c2 e = c2 e"
  by (simp add: andalso_def)

lemma andalso_fail: "\<not> fst (c1 e) \<Longrightarrow> andalso c1 c2 e = (False, snd (c1 e))"
  by (cases "c1 e") (simp add: andalso_def)

lemma wf_tail:
  assumes "wf_check c1" and "(\<And>e. c1 e = (True, e)) \<Longrightarrow> wf_check c2"
  shows "wf_check (andalso c1 c2)"
proof (cases "\<forall>e. c1 e = (True, e)")
  case True
  then have "andalso c1 c2 = c2" by (auto simp: andalso_pass)
  with assms(2) True show ?thesis by simp
next
  case False
  with assms(1) have "\<forall>e. \<not> fst (c1 e) \<and> code (snd (c1 e)) \<noteq> NO_ERROR"
    by (auto simp: wf_check_def)
  then show ?thesis by (simp add: wf_check_def andalso_fail)
qed

lemma wf_andalso: "wf_check c1 \<Longrightarrow> wf_check c2 \<Longrightarrow> wf_check (andalso c1 c2)"
  by (rule wf_tail)

lemma wf_simple:
  "wf_check (check_positive n)"
  "wf_check (check_nonneg i)"
  "wf_check (check_arity lm n)"
  "wf_check (check_maxvars lm n)"
  "wf_check (check_maxbvsize lm n)"
  "wf_check (check_maxdegree lm n)"
  "wf_check (check_good_type tys tau)"
  "wf_check (check_good_constant tys tau i)"
  "wf_check (check_good_term tbl t)"
  "wf_check (check_boolean_term tbl t)"
  "wf_check (check_arith_term tbl t)"
  "wf_check (check_bitvector_term tbl t)"
  "wf_check (check_compatible_terms tbl t1 t2)"
  "wf_check (check_bitshift n m)"
  "wf_check (check_bitextract n m k)"
  "wf_check (check_term_degree lm deg tbl t)"
  "wf_check (check_arith_term_degree lm deg tbl t)"
  "wf_check (check_bvterm_degree lm deg tbl t)"
  by (auto simp: wf_check_def check_positive_def check_nonneg_def check_arity_def
      check_maxvars_def check_maxbvsize_def check_maxdegree_def check_good_type_def
      check_good_constant_def check_good_term_def check_boolean_term_def check_arith_term_def
      check_bitvector_term_def check_compatible_terms_def check_bitshift_def
      check_bitextract_def check_term_degree_def check_arith_term_degree_def
      check_bvterm_degree_def Let_def)

lemma wf_good_terms_from: "wf_check (check_good_terms_from tbl i a)"
proof (induction a arbitrary: i)
  case Nil
  then show ?case by (simp add: wf_check_def)
next
  case (Cons t a)
  show ?case using Cons [of "Suc i"] by (auto simp: wf_check_def)
qed

lemma wf_good_terms: "wf_check (check_good_terms tbl n a)"
  unfolding check_good_terms_def by (rule wf_good_terms_from)

lemma wf_boolean_args_from: "wf_check (check_boolean_args_from tbl i a)"
proof (induction a arbitrary: i)
  case Nil
  then show ?case by (simp add: wf_check_def)
next
  case (Cons t a)
  show ?case using Cons [of "Suc i"] by (auto simp: wf_check_def)
qed

lemma wf_boolean_args: "wf_check (check_boolean_args tbl n a)"
  unfolding check_boolean_args_def by (rule wf_boolean_args_from)

lemma wf_arg_types_from: "wf_check (check_arg_types_from tbl i a taus)"
proof (induction a arbitrary: i)
  case Nil
  then show ?case by (simp add: wf_check_def)
next
  case (Cons t a)
  show ?case using Cons [of "Suc i"] by (auto simp: wf_check_def)
qed

lemma wf_arg_types: "wf_check (check_arg_types tbl n a taus)"
  unfolding check_arg_types_def by (rule wf_arg_types_from)

lemma wf_distinct_types: "wf_check (check_distinct_types tbl a0 tau a)"
proof (induction a arbitrary: tau)
  case Nil
  then show ?case by (simp add: wf_check_def)
next
  case (Cons t a)
  show ?case
    using Cons [of "super_type (types tbl) tau (term_type tbl t)"]
    by (auto simp: wf_check_def Let_def)
qed

lemma wf_variables_from: "wf_check (check_variables_from tbl i a)"
proof (induction a arbitrary: i)
  case Nil
  then show ?case by (simp add: wf_check_def)
next
  case (Cons t a)
  show ?case using Cons [of "Suc i"] by (auto simp: wf_check_def)
qed

lemma wf_duplicates_from: "wf_check (check_duplicates_from i p a)"
proof (induction a arbitrary: i p)
  case Nil
  then show ?case by (simp add: wf_check_def)
next
  case (Cons t a)
  show ?case using Cons [of "Suc i" t] by (auto simp: wf_check_def)
qed

lemmas wf_intros = wf_andalso wf_simple wf_good_terms wf_boolean_args wf_arg_types
  wf_distinct_types wf_variables_from wf_duplicates_from

lemma wf_compound:
  "wf_check (check_good_eq tbl t1 t2)"
  "wf_check (check_both_arith_terms tbl t1 t2)"
  "wf_check (check_compatible_bv_terms tbl t1 t2)"
  "wf_check (check_two_booleans tbl t1 t2)"
  "wf_check (check_good_distinct_term lm tbl n a)"
  "wf_check (check_good_quantified_term lm tbl n a body)"
  by (simp_all add: check_good_eq_def check_both_arith_terms_def check_compatible_bv_terms_def
      check_two_booleans_def check_good_distinct_term_def check_good_quantified_term_def
      wf_intros)

lemma wf_good_application: "wf_check (check_good_application tbl f n a)"
  unfolding check_good_application_def
proof (rule wf_andalso)
  show "wf_check (andalso (check_positive n)
          (andalso (check_good_term tbl f) (check_good_terms tbl n a)))"
    by (intro wf_intros)
  show "wf_check (\<lambda>e. if \<not> is_function_term tbl f
          then (False, e\<lparr>code := FUNCTION_REQUIRED, term1 := f\<rparr>)
          else if n \<noteq> length (telem (type_desc_of (types tbl) (term_type tbl f)))
          then (False, e\<lparr>code := WRONG_NUMBER_OF_ARGUMENTS, type1 := term_type tbl f,
                          badval := int n\<rparr>)
          else check_arg_types tbl n a (telem (type_desc_of (types tbl) (term_type tbl f))) e)"
    using wf_arg_types [of tbl n a "telem (type_desc_of (types tbl) (term_type tbl f))"]
    by (auto simp: wf_check_def)
qed

lemma wf_good_select: "wf_check (check_good_select tbl i t)"
  unfolding check_good_select_def
  by (rule wf_andalso, intro wf_intros) (auto simp: wf_check_def Let_def)

lemma wf_good_update: "wf_check (check_good_update tbl f n a v)"
  unfolding check_good_update_def
proof (rule wf_andalso)
  show "wf_check (andalso (check_positive n)
          (andalso (check_good_term tbl f)
             (andalso (check_good_term tbl v) (check_good_terms tbl n a))))"
    by (intro wf_intros)
  show "wf_check (\<lambda>e. let ft = type_desc_of (types tbl) (term_type tbl f)
            in if \<not> is_function_term tbl f
               then (False, e\<lparr>code := FUNCTION_REQUIRED, term1 := f\<rparr>)
               else if n \<noteq> length (telem ft)
               then (False, e\<lparr>code := WRONG_NUMBER_OF_ARGUMENTS, type1 := term_type tbl f,
                               badval := int n\<rparr>)
               else if \<not> is_subtype (types tbl) (term_type tbl v) (trange ft)
               then (False, e\<lparr>code := TYPE_MISMATCH, term1 := v, type1 := trange ft,
                               index := - 1\<rparr>)
               else check_arg_types tbl n a (telem ft) e)"
    using wf_arg_types [of tbl n a "telem (type_desc_of (types tbl) (term_type tbl f))"]
    by (auto simp: wf_check_def Let_def)
qed

lemma wf_good_tuple_update: "wf_check (check_good_tuple_update tbl i t v)"
  unfolding check_good_tuple_update_def
  by (rule wf_andalso, intro wf_intros) (auto simp: wf_check_def Let_def)

lemmas wf_all = wf_intros wf_compound wf_good_application wf_good_select wf_good_update
  wf_good_tuple_update

text \<open>A bad handle makes the check fail.\<close>

lemma fails_andalso1: "always_fails c1 \<Longrightarrow> always_fails (andalso c1 c2)"
  by (simp add: always_fails_def andalso_fail)

lemma fails_andalso2: "always_fails c2 \<Longrightarrow> always_fails (andalso c1 c2)"
  by (auto simp: always_fails_def andalso_def split: prod.splits bool.splits)

lemma fails_good_term: "bad_term tbl t \<Longrightarrow> always_fails (check_good_term tbl t)"
  by (simp add: always_fails_def check_good_term_def)

lemma fails_good_type: "bad_type tys tau \<Longrightarrow> always_fails (check_good_type tys tau)"
  by (simp add: always_fails_def check_good_type_def)

lemma fails_good_constant: "bad_type tys tau \<Longrightarrow> always_fails (check_good_constant tys tau i)"
  by (simp add: always_fails_def check_good_constant_def)

lemma fails_good_terms_from:
  "\<exists>t \<in> set a. bad_term tbl t \<Longrightarrow> always_fails (check_good_terms_from tbl i a)"
proof (induction a arbitrary: i)
  case Nil
  then show ?case by simp
next
  case (Cons t a)
  then show ?case by (auto simp: always_fails_def)
qed

lemma fails_good_terms:
  "\<exists>t \<in> set (take n a). bad_term tbl t \<Longrightarrow> always_fails (check_good_terms tbl n a)"
  unfolding check_good_terms_def by (rule fails_good_terms_from)

lemma fails_boolean_term: "\<not> is_boolean_term tbl t \<Longrightarrow> always_fails (check_boolean_term tbl t)"
  by (simp add: always_fails_def check_boolean_term_def)

lemma fails_arith_term: "\<not> is_arithmetic_term tbl t \<Longrightarrow> always_fails (check_arith_term tbl t)"
  by (simp add: always_fails_def check_arith_term_def)

lemma fails_bitvector_term: "\<not> is_bitvector_term tbl t \<Longrightarrow> always_fails (check_bitvector_term tbl t)"
  by (simp add: always_fails_def check_bitvector_term_def)

lemma fails_compatible_terms:
  "\<not> compatible_types (types tbl) (term_type tbl t1) (term_type tbl t2) \<Longrightarrow>
   always_fails (check_compatible_terms tbl t1 t2)"
  by (simp add: always_fails_def check_compatible_terms_def)

lemma fails_boolean_args_from:
  "\<exists>t \<in> set a. \<not> is_boolean_term tbl t \<Longrightarrow> always_fails (check_boolean_args_from tbl i a)"
proof (induction a arbitrary: i)
  case Nil
  then show ?case by simp
next
  case (Cons t a)
  then show ?case by (auto simp: always_fails_def)
qed

lemma fails_boolean_args:
  "\<exists>t \<in> set (take n a). \<not> is_boolean_term tbl t \<Longrightarrow> always_fails (check_boolean_args tbl n a)"
  unfolding check_boolean_args_def by (rule fails_boolean_args_from)

lemma fails_nonneg: "n < 0 \<Longrightarrow> always_fails (check_nonneg n)"
  by (simp add: always_fails_def check_nonneg_def)

lemma fails_positive: "n = 0 \<Longrightarrow> always_fails (check_positive n)"
  by (simp add: always_fails_def check_positive_def)

lemma fails_arity: "n > YICES_MAX_ARITY lm \<Longrightarrow> always_fails (check_arity lm n)"
  by (simp add: always_fails_def check_arity_def)

lemmas fails_prim = fails_good_term fails_good_type fails_good_constant fails_good_terms
  fails_boolean_term fails_arith_term fails_bitvector_term fails_compatible_terms
  fails_boolean_args fails_nonneg fails_positive fails_arity

lemma fails_pair:
  "bad_term tbl t1 \<or> bad_term tbl t2 \<Longrightarrow> always_fails (check_both_arith_terms tbl t1 t2)"
  "bad_term tbl t1 \<or> bad_term tbl t2 \<Longrightarrow> always_fails (check_compatible_bv_terms tbl t1 t2)"
  "bad_term tbl t1 \<or> bad_term tbl t2 \<Longrightarrow> always_fails (check_good_eq tbl t1 t2)"
  "bad_term tbl t1 \<or> bad_term tbl t2 \<Longrightarrow> always_fails (check_two_booleans tbl t1 t2)"
  unfolding check_both_arith_terms_def check_compatible_bv_terms_def check_good_eq_def
    check_two_booleans_def
  by (auto intro: fails_andalso1 fails_andalso2 fails_good_term)


lemma checked_validates:
  assumes "wf_check c" and "bad \<Longrightarrow> always_fails c"
  shows "validates bad st rest (checked st c rest)"
proof (cases "\<forall>e. c e = (True, e)")
  case True
  then have "\<not> always_fails c" by (auto simp: always_fails_def)
  with assms(2) have "\<not> bad" by blast
  with True show ?thesis by (simp add: validates_def checked_def)
next
  case False
  with assms(1) have f: "\<not> fst (c (error st))" "code (snd (c (error st))) \<noteq> NO_ERROR"
    by (auto simp: wf_check_def)
  then have "failed st (checked st c rest)"
    by (cases "c (error st)") (auto simp: failed_def checked_def)
  then show ?thesis by (simp add: validates_def)
qed

lemma wf_fails_result:
  assumes "wf_check c" and "always_fails c"
  shows "\<exists>e. c (error st) = (False, e) \<and> code e \<noteq> NO_ERROR"
proof -
  from assms have "\<not> fst (c (error st))" "code (snd (c (error st))) \<noteq> NO_ERROR"
    by (auto simp: wf_check_def always_fails_def)
  then show ?thesis by (cases "c (error st)") auto
qed

lemma checked_failed:
  assumes "wf_check c" and "always_fails c"
  shows "failed st (checked st c body)"
  using wf_fails_result [OF assms, of st] by (auto simp: failed_def checked_def)

lemma fails_application:
  "bad_term tbl f \<or> (\<exists>t \<in> set (take n a). bad_term tbl t) \<Longrightarrow>
   always_fails (check_good_application tbl f n a)"
  unfolding check_good_application_def
  by (blast intro: fails_andalso1 fails_andalso2 fails_good_term fails_good_terms)

lemma fails_update:
  "bad_term tbl f \<or> bad_term tbl v \<or> (\<exists>t \<in> set (take n a). bad_term tbl t) \<Longrightarrow>
   always_fails (check_good_update tbl f n a v)"
  unfolding check_good_update_def
  by (blast intro: fails_andalso1 fails_andalso2 fails_good_term fails_good_terms)

lemma fails_select: "bad_term tbl t \<Longrightarrow> always_fails (check_good_select tbl i t)"
  unfolding check_good_select_def by (auto intro: fails_andalso1 fails_good_term)

lemma fails_tuple_update:
  "bad_term tbl t \<or> bad_term tbl v \<Longrightarrow> always_fails (check_good_tuple_update tbl i t v)"
  unfolding check_good_tuple_update_def
  by (auto intro: fails_andalso1 fails_andalso2 fails_good_term)

lemma fails_quantified:
  "bad_term tbl body \<or> (\<exists>t \<in> set (take n v). bad_term tbl t) \<Longrightarrow>
   always_fails (check_good_quantified_term lm tbl n v body)"
  unfolding check_good_quantified_term_def
  by (blast intro: fails_andalso1 fails_andalso2 fails_good_term fails_good_terms)

lemma fails_distinct:
  "n = 0 \<or> n > YICES_MAX_ARITY lm \<or> (\<exists>t \<in> set (take n a). bad_term tbl t) \<Longrightarrow>
   always_fails (andalso (check_positive n)
                   (andalso (check_arity lm n) (check_good_distinct_term lm tbl n a)))"
  unfolding check_good_distinct_term_def
  by (blast intro: fails_andalso1 fails_andalso2 fails_prim)

lemmas fails_all = fails_andalso1 fails_andalso2 fails_prim fails_pair fails_application
  fails_update fails_select fails_tuple_update fails_quantified

lemma sorted_prefix_set:
  "set (take k (sort (take k v) @ drop k v)) = set (take k v)"
proof (cases "k \<le> length v")
  case True
  then show ?thesis by simp
next
  case False
  then show ?thesis by simp
qed

lemma yices_constant_validates:
  "validates (bad_type (types (terms st)) tau) st rest
     (yices_constant rest st tau idx)"
  unfolding yices_constant_def
  by (rule checked_validates, intro wf_all) (auto intro: fails_all)

lemma yices_variable_validates:
  "validates (bad_type (types (terms st)) tau) st rest
     (yices_variable rest st tau idx)"
  unfolding yices_variable_def
  by (rule checked_validates, intro wf_all) (auto intro: fails_all)

lemma yices_application_validates:
  "validates (bad_term (terms st) f \<or> (\<exists>t \<in> set (take (to_uint32 n) arg). bad_term (terms st) t)) st rest
     (yices_application rest st f n arg)"
  unfolding yices_application_def
  by (rule checked_validates, intro wf_all) (auto intro: fails_all)

lemma yices_tuple_validates:
  "validates (\<exists>t \<in> set (take (to_uint32 n) arg). bad_term (terms st) t) st rest
     (yices_tuple lm rest st n arg)"
  unfolding yices_tuple_def
  by (rule checked_validates, intro wf_all) (auto intro: fails_all)

lemma yices_select_validates:
  "validates (bad_term (terms st) tuple) st rest
     (yices_select rest st idx tuple)"
  unfolding yices_select_def
  by (rule checked_validates, intro wf_all) (auto intro: fails_all)

lemma yices_update_validates:
  "validates (bad_term (terms st) f \<or> bad_term (terms st) new_v \<or> (\<exists>t \<in> set (take (to_uint32 n) arg). bad_term (terms st) t)) st rest
     (yices_update rest st f n arg new_v)"
  unfolding yices_update_def
  by (rule checked_validates, intro wf_all) (auto intro: fails_all)

lemma yices_tuple_update_validates:
  "validates (bad_term (terms st) tuple \<or> bad_term (terms st) new_v) st rest
     (yices_tuple_update rest st tuple idx new_v)"
  unfolding yices_tuple_update_def
  by (rule checked_validates, intro wf_all) (auto intro: fails_all)

lemma yices_add_validates:
  "validates (bad_term (terms st) t1 \<or> bad_term (terms st) t2) st rest
     (yices_add rest st t1 t2)"
  unfolding yices_add_def
  by (rule checked_validates, intro wf_all) (auto intro: fails_all)

lemma yices_sub_validates:
  "validates (bad_term (terms st) t1 \<or> bad_term (terms st) t2) st rest
     (yices_sub rest st t1 t2)"
  unfolding yices_sub_def
  by (rule checked_validates, intro wf_all) (auto intro: fails_all)

lemma yices_neg_validates:
  "validates (bad_term (terms st) t1) st rest
     (yices_neg rest st t1)"
  unfolding yices_neg_def
  by (rule checked_validates, intro wf_all) (auto intro: fails_all)

lemma yices_mul_validates:
  "validates (bad_term (terms st) t1 \<or> bad_term (terms st) t2) st rest
     (yices_mul lm term_degree rest st t1 t2)"
  unfolding yices_mul_def
  by (rule checked_validates, intro wf_all) (auto intro: fails_all)

lemma yices_square_validates:
  "validates (bad_term (terms st) t1) st rest
     (yices_square lm term_degree rest st t1)"
  unfolding yices_square_def
  by (rule checked_validates, intro wf_all) (auto intro: fails_all)

lemma yices_arithgeq_atom_validates:
  "validates (bad_term (terms st) t1 \<or> bad_term (terms st) t2) st rest
     (yices_arithgeq_atom rest st t1 t2)"
  unfolding yices_arithgeq_atom_def
  by (rule checked_validates, intro wf_all) (auto intro: fails_all)

lemma yices_arithlt_atom_validates:
  "validates (bad_term (terms st) t1 \<or> bad_term (terms st) t2) st rest
     (yices_arithlt_atom rest st t1 t2)"
  unfolding yices_arithlt_atom_def
  by (rule checked_validates, intro wf_all) (auto intro: fails_all)

lemma yices_bvadd_validates:
  "validates (bad_term (terms st) t1 \<or> bad_term (terms st) t2) st rest
     (yices_bvadd rest st t1 t2)"
  unfolding yices_bvadd_def
  by (rule checked_validates, intro wf_all) (auto intro: fails_all)

lemma yices_bvsub_validates:
  "validates (bad_term (terms st) t1 \<or> bad_term (terms st) t2) st rest
     (yices_bvsub rest st t1 t2)"
  unfolding yices_bvsub_def
  by (rule checked_validates, intro wf_all) (auto intro: fails_all)

lemma yices_bvneg_validates:
  "validates (bad_term (terms st) t1) st rest
     (yices_bvneg rest st t1)"
  unfolding yices_bvneg_def
  by (rule checked_validates, intro wf_all) (auto intro: fails_all)

lemma yices_bvmul_validates:
  "validates (bad_term (terms st) t1 \<or> bad_term (terms st) t2) st rest
     (yices_bvmul lm term_degree rest st t1 t2)"
  unfolding yices_bvmul_def
  by (rule checked_validates, intro wf_all) (auto intro: fails_all)

lemma yices_bvsquare_validates:
  "validates (bad_term (terms st) t1) st rest
     (yices_bvsquare lm term_degree rest st t1)"
  unfolding yices_bvsquare_def
  by (rule checked_validates, intro wf_all) (auto intro: fails_all)

lemma yices_bvnot_validates:
  "validates (bad_term (terms st) t1) st rest
     (yices_bvnot rest st t1)"
  unfolding yices_bvnot_def
  by (rule checked_validates, intro wf_all) (auto intro: fails_all)

lemma yices_bvand_validates:
  "validates (bad_term (terms st) t1 \<or> bad_term (terms st) t2) st rest
     (yices_bvand rest st t1 t2)"
  unfolding yices_bvand_def
  by (rule checked_validates, intro wf_all) (auto intro: fails_all)

lemma yices_bvor_validates:
  "validates (bad_term (terms st) t1 \<or> bad_term (terms st) t2) st rest
     (yices_bvor rest st t1 t2)"
  unfolding yices_bvor_def
  by (rule checked_validates, intro wf_all) (auto intro: fails_all)

lemma yices_bvxor_validates:
  "validates (bad_term (terms st) t1 \<or> bad_term (terms st) t2) st rest
     (yices_bvxor rest st t1 t2)"
  unfolding yices_bvxor_def
  by (rule checked_validates, intro wf_all) (auto intro: fails_all)

lemma yices_bvnand_validates:
  "validates (bad_term (terms st) t1 \<or> bad_term (terms st) t2) st rest
     (yices_bvnand rest st t1 t2)"
  unfolding yices_bvnand_def
  by (rule checked_validates, intro wf_all) (auto intro: fails_all)

lemma yices_bvnor_validates:
  "validates (bad_term (terms st) t1 \<or> bad_term (terms st) t2) st rest
     (yices_bvnor rest st t1 t2)"
  unfolding yices_bvnor_def
  by (rule checked_validates, intro wf_all) (auto intro: fails_all)

lemma yices_bvxnor_validates:
  "validates (bad_term (terms st) t1 \<or> bad_term (terms st) t2) st rest
     (yices_bvxnor rest st t1 t2)"
  unfolding yices_bvxnor_def
  by (rule checked_validates, intro wf_all) (auto intro: fails_all)

lemma yices_shift_left0_validates:
  "validates (bad_term (terms st) t) st rest
     (yices_shift_left0 rest st t n)"
  unfolding yices_shift_left0_def
  by (rule checked_validates, intro wf_all) (auto intro: fails_all)

lemma yices_shift_left1_validates:
  "validates (bad_term (terms st) t) st rest
     (yices_shift_left1 rest st t n)"
  unfolding yices_shift_left1_def
  by (rule checked_validates, intro wf_all) (auto intro: fails_all)

lemma yices_shift_right0_validates:
  "validates (bad_term (terms st) t) st rest
     (yices_shift_right0 rest st t n)"
  unfolding yices_shift_right0_def
  by (rule checked_validates, intro wf_all) (auto intro: fails_all)

lemma yices_shift_right1_validates:
  "validates (bad_term (terms st) t) st rest
     (yices_shift_right1 rest st t n)"
  unfolding yices_shift_right1_def
  by (rule checked_validates, intro wf_all) (auto intro: fails_all)

lemma yices_ashift_right_validates:
  "validates (bad_term (terms st) t) st rest
     (yices_ashift_right rest st t n)"
  unfolding yices_ashift_right_def
  by (rule checked_validates, intro wf_all) (auto intro: fails_all)

lemma yices_rotate_left_validates:
  "validates (bad_term (terms st) t) st rest
     (yices_rotate_left rest st t n)"
  unfolding yices_rotate_left_def
  by (rule checked_validates, intro wf_all) (auto intro: fails_all)

lemma yices_rotate_right_validates:
  "validates (bad_term (terms st) t) st rest
     (yices_rotate_right rest st t n)"
  unfolding yices_rotate_right_def
  by (rule checked_validates, intro wf_all) (auto intro: fails_all)

lemma yices_bvextract_validates:
  "validates (bad_term (terms st) t) st rest
     (yices_bvextract rest st t i j)"
  unfolding yices_bvextract_def
  by (rule checked_validates, intro wf_all) (auto intro: fails_all)

lemma yices_bvconcat_validates:
  "validates (bad_term (terms st) t1 \<or> bad_term (terms st) t2) st rest
     (yices_bvconcat rest st t1 t2)"
  unfolding yices_bvconcat_def
  by (rule checked_validates, intro wf_all) (auto intro: fails_all)

lemma yices_bvrepeat_validates:
  "validates (bad_term (terms st) t) st rest
     (yices_bvrepeat rest st t n)"
  unfolding yices_bvrepeat_def
  by (rule checked_validates, intro wf_all) (auto intro: fails_all)

lemma yices_sign_extend_validates:
  "validates (bad_term (terms st) t) st rest
     (yices_sign_extend rest st t n)"
  unfolding yices_sign_extend_def
  by (rule checked_validates, intro wf_all) (auto intro: fails_all)

lemma yices_zero_extend_validates:
  "validates (bad_term (terms st) t) st rest
     (yices_zero_extend rest st t n)"
  unfolding yices_zero_extend_def
  by (rule checked_validates, intro wf_all) (auto intro: fails_all)

lemma yices_redand_validates:
  "validates (bad_term (terms st) t) st rest
     (yices_redand rest st t)"
  unfolding yices_redand_def
  by (rule checked_validates, intro wf_all) (auto intro: fails_all)

lemma yices_redor_validates:
  "validates (bad_term (terms st) t) st rest
     (yices_redor rest st t)"
  unfolding yices_redor_def
  by (rule checked_validates, intro wf_all) (auto intro: fails_all)

lemma yices_redcomp_validates:
  "validates (bad_term (terms st) t1 \<or> bad_term (terms st) t2) st rest
     (yices_redcomp rest st t1 t2)"
  unfolding yices_redcomp_def
  by (rule checked_validates, intro wf_all) (auto intro: fails_all)

lemma yices_bvge_atom_validates:
  "validates (bad_term (terms st) t1 \<or> bad_term (terms st) t2) st rest
     (yices_bvge_atom rest st t1 t2)"
  unfolding yices_bvge_atom_def
  by (rule checked_validates, intro wf_all) (auto intro: fails_all)

lemma yices_bvgt_atom_validates:
  "validates (bad_term (terms st) t1 \<or> bad_term (terms st) t2) st rest
     (yices_bvgt_atom rest st t1 t2)"
  unfolding yices_bvgt_atom_def
  by (rule checked_validates, intro wf_all) (auto intro: fails_all)

lemma yices_bvsge_atom_validates:
  "validates (bad_term (terms st) t1 \<or> bad_term (terms st) t2) st rest
     (yices_bvsge_atom rest st t1 t2)"
  unfolding yices_bvsge_atom_def
  by (rule checked_validates, intro wf_all) (auto intro: fails_all)

lemma yices_bvsgt_atom_validates:
  "validates (bad_term (terms st) t1 \<or> bad_term (terms st) t2) st rest
     (yices_bvsgt_atom rest st t1 t2)"
  unfolding yices_bvsgt_atom_def
  by (rule checked_validates, intro wf_all) (auto intro: fails_all)

lemma yices_arithgt_atom_validates:
  "validates (bad_term (terms st) t1 \<or> bad_term (terms st) t2) st rest
     (yices_arithgt_atom rest st t1 t2)"
  unfolding yices_arithgt_atom_def using yices_arithlt_atom_validates [of st t2 t1 rest] by (simp add: disj_commute)

lemma yices_arithleq_atom_validates:
  "validates (bad_term (terms st) t1 \<or> bad_term (terms st) t2) st rest
     (yices_arithleq_atom rest st t1 t2)"
  unfolding yices_arithleq_atom_def using yices_arithgeq_atom_validates [of st t2 t1 rest] by (simp add: disj_commute)

lemma yices_bvle_atom_validates:
  "validates (bad_term (terms st) t1 \<or> bad_term (terms st) t2) st rest
     (yices_bvle_atom rest st t1 t2)"
  unfolding yices_bvle_atom_def using yices_bvge_atom_validates [of st t2 t1 rest] by (simp add: disj_commute)

lemma yices_bvlt_atom_validates:
  "validates (bad_term (terms st) t1 \<or> bad_term (terms st) t2) st rest
     (yices_bvlt_atom rest st t1 t2)"
  unfolding yices_bvlt_atom_def using yices_bvgt_atom_validates [of st t2 t1 rest] by (simp add: disj_commute)

lemma yices_bvsle_atom_validates:
  "validates (bad_term (terms st) t1 \<or> bad_term (terms st) t2) st rest
     (yices_bvsle_atom rest st t1 t2)"
  unfolding yices_bvsle_atom_def using yices_bvsge_atom_validates [of st t2 t1 rest] by (simp add: disj_commute)

lemma yices_bvslt_atom_validates:
  "validates (bad_term (terms st) t1 \<or> bad_term (terms st) t2) st rest
     (yices_bvslt_atom rest st t1 t2)"
  unfolding yices_bvslt_atom_def using yices_bvsgt_atom_validates [of st t2 t1 rest] by (simp add: disj_commute)

lemma yices_forall_validates:
  "validates (bad_term (terms st) body
        \<or> (0 \<le> n \<and> n < 2147483648 \<and> (\<exists>t \<in> set (take (nat n) var). bad_term (terms st) t)))
     st (rest (if n > 1 then sort (take (nat n) var) @ drop (nat n) var else var))
     (yices_forall lm rest st n var body)"
proof -
  have u: "to_uint32 n = nat n" if "0 \<le> n" "n < 2147483648"
    using that by (simp add: to_uint32_def)
  have s: "set (take (nat n) (if n > 1 then sort (take (nat n) var) @ drop (nat n) var else var)) = set (take (nat n) var)"
  proof (cases "n > 1")
    case True
    then show ?thesis by (simp only: if_True sorted_prefix_set)
  next
    case False
    then show ?thesis by (simp only: if_False)
  qed
  show ?thesis
    unfolding yices_forall_def Let_def
    by (rule checked_validates, intro wf_all) (auto intro!: fails_quantified simp: u s)
qed

lemma yices_exists_validates:
  "validates (bad_term (terms st) body
        \<or> (0 \<le> n \<and> n < 2147483648 \<and> (\<exists>t \<in> set (take (nat n) var). bad_term (terms st) t)))
     st (rest (if n > 1 then sort (take (nat n) var) @ drop (nat n) var else var))
     (yices_exists lm rest st n var body)"
proof -
  have u: "to_uint32 n = nat n" if "0 \<le> n" "n < 2147483648"
    using that by (simp add: to_uint32_def)
  have s: "set (take (nat n) (if n > 1 then sort (take (nat n) var) @ drop (nat n) var else var)) = set (take (nat n) var)"
  proof (cases "n > 1")
    case True
    then show ?thesis by (simp only: if_True sorted_prefix_set)
  next
    case False
    then show ?thesis by (simp only: if_False)
  qed
  show ?thesis
    unfolding yices_exists_def Let_def
    by (rule checked_validates, intro wf_all) (auto intro!: fails_quantified simp: u s)
qed

lemma yices_new_uninterpreted_term_fails:
  "bad_type (types (terms st)) tau \<longrightarrow> failed st (yices_new_uninterpreted_term st tau)"
  unfolding yices_new_uninterpreted_term_def
  by (intro impI checked_failed; (intro wf_all)?; (blast intro: fails_all)?)

lemma yices_ite_fails:
  "\<not> (good_term (terms st) cnd \<and> good_term (terms st) then_term \<and> good_term (terms st) else_term
      \<and> is_boolean_term (terms st) cnd
      \<and> compatible_types (types (terms st)) (term_type (terms st) then_term) (term_type (terms st) else_term))
   \<longrightarrow> failed st (yices_ite st cnd then_term else_term)"
proof (cases "good_term (terms st) cnd \<and> good_term (terms st) then_term
      \<and> good_term (terms st) else_term \<and> is_boolean_term (terms st) cnd")
  case True
  then have chk: "andalso (check_good_term (terms st) cnd)
          (andalso (check_good_term (terms st) then_term)
             (andalso (check_good_term (terms st) else_term)
                (check_boolean_term (terms st) cnd))) (error st) = (True, error st)"
    by (simp add: andalso_def check_good_term_pass check_boolean_term_pass)
  show ?thesis
  proof
    assume "\<not> (good_term (terms st) cnd \<and> good_term (terms st) then_term
      \<and> good_term (terms st) else_term \<and> is_boolean_term (terms st) cnd
      \<and> compatible_types (types (terms st)) (term_type (terms st) then_term)
            (term_type (terms st) else_term))"
    with True have nc: "super_type (types (terms st)) (term_type (terms st) then_term)
        (term_type (terms st) else_term) = NULL_TYPE"
      by (simp add: compatible_types_def)
    show "failed st (yices_ite st cnd then_term else_term)"
      by (simp add: yices_ite_def checked_def chk nc failed_def)
  qed
next
  case False
  then have "always_fails (andalso (check_good_term (terms st) cnd)
          (andalso (check_good_term (terms st) then_term)
             (andalso (check_good_term (terms st) else_term)
                (check_boolean_term (terms st) cnd))))"
    by (auto simp: bad_term_def [symmetric] intro: fails_all)
  then show ?thesis
    unfolding yices_ite_def by (intro impI checked_failed; (intro wf_all)?)
qed

lemma yices_eq_fails:
  "bad_term (terms st) left \<or> bad_term (terms st) right
   \<or> \<not> compatible_types (types (terms st)) (term_type (terms st) left) (term_type (terms st) right)
   \<longrightarrow> failed_opt st (yices_eq k orc st left right)"
proof
  assume "bad_term (terms st) left \<or> bad_term (terms st) right
   \<or> \<not> compatible_types (types (terms st)) (term_type (terms st) left) (term_type (terms st) right)"
  then have "always_fails (check_good_eq (terms st) left right)"
    unfolding check_good_eq_def by (auto intro: fails_all)
  then obtain e where "check_good_eq (terms st) left right (error st) = (False, e)"
      "code e \<noteq> NO_ERROR"
    using wf_fails_result [OF wf_compound(1)] by blast
  then show "failed_opt st (yices_eq k orc st left right)"
    by (simp add: yices_eq_def failed_opt_def failed_def)
qed

lemma yices_neq_fails:
  "bad_term (terms st) left \<or> bad_term (terms st) right
   \<or> \<not> compatible_types (types (terms st)) (term_type (terms st) left) (term_type (terms st) right)
   \<longrightarrow> failed_opt st (yices_neq k orc st left right)"
proof
  assume "bad_term (terms st) left \<or> bad_term (terms st) right
   \<or> \<not> compatible_types (types (terms st)) (term_type (terms st) left) (term_type (terms st) right)"
  then have "always_fails (check_good_eq (terms st) left right)"
    unfolding check_good_eq_def by (auto intro: fails_all)
  then obtain e where "check_good_eq (terms st) left right (error st) = (False, e)"
      "code e \<noteq> NO_ERROR"
    using wf_fails_result [OF wf_compound(1)] by blast
  then show "failed_opt st (yices_neq k orc st left right)"
    by (simp add: yices_neq_def failed_opt_def failed_def)
qed

lemma yices_or_fails:
  "n < 0 \<or> to_uint32 n > YICES_MAX_ARITY lm
   \<or> (\<exists>t \<in> set (take (to_uint32 n) arg). bad_term (terms st) t)
   \<or> (\<exists>t \<in> set (take (to_uint32 n) arg). \<not> is_boolean_term (terms st) t)
   \<longrightarrow> failed st (yices_or lm st n arg)"
  unfolding yices_or_def
  by (intro impI checked_failed; (intro wf_all)?; (blast intro: fails_all)?)

lemma yices_and_fails:
  "n < 0 \<or> to_uint32 n > YICES_MAX_ARITY lm
   \<or> (\<exists>t \<in> set (take (to_uint32 n) arg). bad_term (terms st) t)
   \<or> (\<exists>t \<in> set (take (to_uint32 n) arg). \<not> is_boolean_term (terms st) t)
   \<longrightarrow> failed st (yices_and lm st n arg)"
  unfolding yices_and_def
  by (intro impI checked_failed; (intro wf_all)?; (blast intro: fails_all)?)

lemma yices_not_fails:
  "bad_term (terms st) t \<or> \<not> is_boolean_term (terms st) t \<longrightarrow> failed st (yices_not st t)"
  unfolding yices_not_def
  by (intro impI checked_failed; (intro wf_all)?; (blast intro: fails_all)?)

lemma yices_xor_fails:
  "bad_term (terms st) left \<or> bad_term (terms st) right
   \<or> \<not> is_boolean_term (terms st) left \<or> \<not> is_boolean_term (terms st) right
   \<longrightarrow> failed st (yices_xor st left right)"
  unfolding yices_xor_def check_two_booleans_def
  by (intro impI checked_failed; (intro wf_all)?; (blast intro: fails_all)?)

lemma yices_iff_fails:
  "bad_term (terms st) left \<or> bad_term (terms st) right
   \<or> \<not> is_boolean_term (terms st) left \<or> \<not> is_boolean_term (terms st) right
   \<longrightarrow> failed st (yices_iff st left right)"
  unfolding yices_iff_def check_two_booleans_def
  by (intro impI checked_failed; (intro wf_all)?; (blast intro: fails_all)?)

lemma yices_implies_fails:
  "bad_term (terms st) left \<or> bad_term (terms st) right
   \<or> \<not> is_boolean_term (terms st) left \<or> \<not> is_boolean_term (terms st) right
   \<longrightarrow> failed st (yices_implies st left right)"
  unfolding yices_implies_def check_two_booleans_def
  by (intro impI checked_failed; (intro wf_all)?; (blast intro: fails_all)?)

lemma yices_distinct_fails:
  "(n = 2 \<and> (bad_term (terms st) (arr arg 0) \<or> bad_term (terms st) (arr arg 1)))
   \<or> (n \<noteq> 2 \<and> (to_uint32 n = 0 \<or> to_uint32 n > YICES_MAX_ARITY lm
                  \<or> (\<exists>t \<in> set (take (to_uint32 n) arg). bad_term (terms st) t)))
   \<longrightarrow> failed_opt st (yices_distinct k orc lm st n arg)"
proof (cases "n = 2")
  case True
  then show ?thesis
    using yices_neq_fails [of st "arr arg 0" "arr arg 1" k orc]
    by (simp add: yices_distinct_def)
next
  case False
  show ?thesis
  proof
    assume "(n = 2 \<and> (bad_term (terms st) (arr arg 0) \<or> bad_term (terms st) (arr arg 1)))
      \<or> (n \<noteq> 2 \<and> (to_uint32 n = 0 \<or> to_uint32 n > YICES_MAX_ARITY lm
                  \<or> (\<exists>t \<in> set (take (to_uint32 n) arg). bad_term (terms st) t)))"
    with False have "always_fails (andalso (check_positive (to_uint32 n))
                   (andalso (check_arity lm (to_uint32 n))
                      (check_good_distinct_term lm (terms st) (to_uint32 n) arg)))"
      by (intro fails_distinct) auto
    moreover have "wf_check (andalso (check_positive (to_uint32 n))
                   (andalso (check_arity lm (to_uint32 n))
                      (check_good_distinct_term lm (terms st) (to_uint32 n) arg)))"
      by (intro wf_all)
    ultimately obtain e where "andalso (check_positive (to_uint32 n))
                   (andalso (check_arity lm (to_uint32 n))
                      (check_good_distinct_term lm (terms st) (to_uint32 n) arg)) (error st)
                  = (False, e)" "code e \<noteq> NO_ERROR"
      using wf_fails_result by blast
    then show "failed_opt st (yices_distinct k orc lm st n arg)"
      using False by (simp add: yices_distinct_def failed_opt_def failed_def)
  qed
qed

lemma yices_aritheq_atom_fails:
  "bad_term (terms st) t1 \<or> bad_term (terms st) t2
   \<or> \<not> is_arithmetic_term (terms st) t1 \<or> \<not> is_arithmetic_term (terms st) t2
   \<longrightarrow> failed st (yices_aritheq_atom st t1 t2)"
  unfolding yices_aritheq_atom_def check_both_arith_terms_def
  by (intro impI checked_failed; (intro wf_all)?; (blast intro: fails_all)?)

lemma yices_arithneq_atom_fails:
  "bad_term (terms st) t1 \<or> bad_term (terms st) t2
   \<or> \<not> is_arithmetic_term (terms st) t1 \<or> \<not> is_arithmetic_term (terms st) t2
   \<longrightarrow> failed st (yices_arithneq_atom st t1 t2)"
  unfolding yices_arithneq_atom_def check_both_arith_terms_def
  by (intro impI checked_failed; (intro wf_all)?; (blast intro: fails_all)?)

lemma yices_bveq_atom_fails:
  "bad_term (terms st) t1 \<or> bad_term (terms st) t2
   \<or> \<not> is_bitvector_term (terms st) t1 \<or> \<not> is_bitvector_term (terms st) t2
   \<or> \<not> compatible_types (types (terms st)) (term_type (terms st) t1) (term_type (terms st) t2)
   \<longrightarrow> failed st (yices_bveq_atom orc st t1 t2)"
  unfolding yices_bveq_atom_def check_compatible_bv_terms_def
  by (intro impI checked_failed; (intro wf_all)?; (blast intro: fails_all)?)

lemma yices_bvneq_atom_fails:
  "bad_term (terms st) t1 \<or> bad_term (terms st) t2
   \<or> \<not> is_bitvector_term (terms st) t1 \<or> \<not> is_bitvector_term (terms st) t2
   \<or> \<not> compatible_types (types (terms st)) (term_type (terms st) t1) (term_type (terms st) t2)
   \<longrightarrow> failed st (yices_bvneq_atom orc st t1 t2)"
  unfolding yices_bvneq_atom_def check_compatible_bv_terms_def
  by (intro impI checked_failed; (intro wf_all)?; (blast intro: fails_all)?)

lemma yices_bvoperator_fails:
  "bad_term (terms st) t1 \<or> bad_term (terms st) t2
   \<or> \<not> is_bitvector_term (terms st) t1 \<or> \<not> is_bitvector_term (terms st) t2
   \<or> \<not> compatible_types (types (terms st)) (term_type (terms st) t1) (term_type (terms st) t2)
   \<longrightarrow> failed st (yices_bvoperator st op t1 t2)"
  unfolding yices_bvoperator_def check_compatible_bv_terms_def
  by (intro impI checked_failed; (intro wf_all)?; (blast intro: fails_all)?)

lemma yices_bvdiv_fails:
  "bad_term (terms st) t1 \<or> bad_term (terms st) t2
   \<or> \<not> is_bitvector_term (terms st) t1 \<or> \<not> is_bitvector_term (terms st) t2
   \<or> \<not> compatible_types (types (terms st)) (term_type (terms st) t1) (term_type (terms st) t2)
   \<longrightarrow> failed st (yices_bvdiv st t1 t2)"
  unfolding yices_bvdiv_def yices_bvoperator_def check_compatible_bv_terms_def
  by (intro impI checked_failed; (intro wf_all)?; (blast intro: fails_all)?)

lemma yices_bvrem_fails:
  "bad_term (terms st) t1 \<or> bad_term (terms st) t2
   \<or> \<not> is_bitvector_term (terms st) t1 \<or> \<not> is_bitvector_term (terms st) t2
   \<or> \<not> compatible_types (types (terms st)) (term_type (terms st) t1) (term_type (terms st) t2)
   \<longrightarrow> failed st (yices_bvrem st t1 t2)"
  unfolding yices_bvrem_def yices_bvoperator_def check_compatible_bv_terms_def
  by (intro impI checked_failed; (intro wf_all)?; (blast intro: fails_all)?)

lemma yices_bvsdiv_fails:
  "bad_term (terms st) t1 \<or> bad_term (terms st) t2
   \<or> \<not> is_bitvector_term (terms st) t1 \<or> \<not> is_bitvector_term (terms st) t2
   \<or> \<not> compatible_types (types (terms st)) (term_type (terms st) t1) (term_type (terms st) t2)
   \<longrightarrow> failed st (yices_bvsdiv st t1 t2)"
  unfolding yices_bvsdiv_def yices_bvoperator_def check_compatible_bv_terms_def
  by (intro impI checked_failed; (intro wf_all)?; (blast intro: fails_all)?)

lemma yices_bvsrem_fails:
  "bad_term (terms st) t1 \<or> bad_term (terms st) t2
   \<or> \<not> is_bitvector_term (terms st) t1 \<or> \<not> is_bitvector_term (terms st) t2
   \<or> \<not> compatible_types (types (terms st)) (term_type (terms st) t1) (term_type (terms st) t2)
   \<longrightarrow> failed st (yices_bvsrem st t1 t2)"
  unfolding yices_bvsrem_def yices_bvoperator_def check_compatible_bv_terms_def
  by (intro impI checked_failed; (intro wf_all)?; (blast intro: fails_all)?)

lemma yices_bvsmod_fails:
  "bad_term (terms st) t1 \<or> bad_term (terms st) t2
   \<or> \<not> is_bitvector_term (terms st) t1 \<or> \<not> is_bitvector_term (terms st) t2
   \<or> \<not> compatible_types (types (terms st)) (term_type (terms st) t1) (term_type (terms st) t2)
   \<longrightarrow> failed st (yices_bvsmod st t1 t2)"
  unfolding yices_bvsmod_def yices_bvoperator_def check_compatible_bv_terms_def
  by (intro impI checked_failed; (intro wf_all)?; (blast intro: fails_all)?)

lemma yices_bvshl_fails:
  "bad_term (terms st) t1 \<or> bad_term (terms st) t2
   \<or> \<not> is_bitvector_term (terms st) t1 \<or> \<not> is_bitvector_term (terms st) t2
   \<or> \<not> compatible_types (types (terms st)) (term_type (terms st) t1) (term_type (terms st) t2)
   \<longrightarrow> failed st (yices_bvshl lib st t1 t2)"
  unfolding yices_bvshl_def check_compatible_bv_terms_def
  by (intro impI checked_failed; (intro wf_all)?; (blast intro: fails_all)?)

lemma yices_bvlshr_fails:
  "bad_term (terms st) t1 \<or> bad_term (terms st) t2
   \<or> \<not> is_bitvector_term (terms st) t1 \<or> \<not> is_bitvector_term (terms st) t2
   \<or> \<not> compatible_types (types (terms st)) (term_type (terms st) t1) (term_type (terms st) t2)
   \<longrightarrow> failed st (yices_bvlshr lib st t1 t2)"
  unfolding yices_bvlshr_def check_compatible_bv_terms_def
  by (intro impI checked_failed; (intro wf_all)?; (blast intro: fails_all)?)

lemma yices_bvashr_fails:
  "bad_term (terms st) t1 \<or> bad_term (terms st) t2
   \<or> \<not> is_bitvector_term (terms st) t1 \<or> \<not> is_bitvector_term (terms st) t2
   \<or> \<not> compatible_types (types (terms st)) (term_type (terms st) t1) (term_type (terms st) t2)
   \<longrightarrow> failed st (yices_bvashr lib st t1 t2)"
  unfolding yices_bvashr_def check_compatible_bv_terms_def
  by (intro impI checked_failed; (intro wf_all)?; (blast intro: fails_all)?)

lemma yices_bvlogic_term_fails:
  "bitsize b = 0 \<longrightarrow> failed st (yices_bvlogic_term lib st b)"
  by (simp add: yices_bvlogic_term_def failed_def)

lemma yices_bvconst_term_fails:
  "nb = 0 \<longrightarrow> failed st (yices_bvconst_term st nb bv)"
  by (simp add: yices_bvconst_term_def failed_def)

lemma yices_bvconstant_fails:
  "fst a = 0 \<longrightarrow> failed st (yices_bvconstant st a)"
  by (simp add: yices_bvconstant_def yices_bvconst_term_def failed_def)



end
